theory Spec2Isabelle
  imports Complex_Main "HOL-Library.Char_ord" "HOL-Library.List_Lexorder" "HOL-Library.AList"
begin

section \<open>JavaScript string and number helpers\<close>

text \<open>
  Strings are character lists: sequences of code units below 256 (the identifiers, modes
  and statuses of the controllers are ASCII).  The helpers below follow the JavaScript
  built-ins the controllers call: \<^verbatim>\<open>String(n)\<close> on a non-negative integer, \<^verbatim>\<open>padStart\<close>,
  \<^verbatim>\<open>split\<close> on a one-character separator, \<^verbatim>\<open>join\<close>, \<^verbatim>\<open>trim\<close> and \<^verbatim>\<open>parseInt(s, 10)\<close>.
\<close>

definition digit_char :: "nat \<Rightarrow> char" where
  "digit_char d = ''0123456789'' ! d"

definition is_digit :: "char \<Rightarrow> bool" where
  "is_digit c = (c \<in> set ''0123456789'')"

definition digit_val :: "char \<Rightarrow> nat" where
  "digit_val c = of_char c - 48"

fun string_of_nat :: "nat \<Rightarrow> string" where
  "string_of_nat n =
     (if n < 10 then [digit_char n]
      else string_of_nat (n div 10) @ [digit_char (n mod 10)])"

declare string_of_nat.simps [simp del]

definition string_of_int :: "int \<Rightarrow> string" where
  "string_of_int i = (if i < 0 then CHR ''-'' # string_of_nat (nat (- i)) else string_of_nat (nat i))"

definition padStart :: "nat \<Rightarrow> char \<Rightarrow> string \<Rightarrow> string" where
  "padStart n c s = replicate (n - length s) c @ s"

fun split_on :: "char \<Rightarrow> string \<Rightarrow> string list" where
  "split_on c [] = [[]]"
| "split_on c (x # xs) =
     (if x = c then [] # split_on c xs
      else (case split_on c xs of
              [] \<Rightarrow> [[x]]
            | p # ps \<Rightarrow> (x # p) # ps))"

fun join_with :: "string \<Rightarrow> string list \<Rightarrow> string" where
  "join_with sep [] = []"
| "join_with sep [p] = p"
| "join_with sep (p # q # ps) = p @ sep @ join_with sep (q # ps)"

text \<open>
  The white space that \<^verbatim>\<open>trim\<close> and \<^verbatim>\<open>parseInt\<close> strip (ECMAScript \<^verbatim>\<open>WhiteSpace\<close> and
  \<^verbatim>\<open>LineTerminator\<close>), as far as it lies below 256: tab, line feed, vertical tab, form
  feed, carriage return, space and the no-break space U+00A0.
\<close>

definition is_space :: "char \<Rightarrow> bool" where
  "is_space c = (of_char c \<in> {9, 10, 11, 12, 13, 32, 160 :: nat})"

definition trim :: "string \<Rightarrow> string" where
  "trim s = rev (dropWhile is_space (rev (dropWhile is_space s)))"

definition digits_val :: "string \<Rightarrow> nat" where
  "digits_val ds = foldl (\<lambda>acc c. 10 * acc + digit_val c) 0 ds"

text \<open>
  \<^verbatim>\<open>parseInt(s, 10)\<close>: leading white space is skipped, one sign is accepted, the longest
  run of decimal digits is read; \<open>None\<close> stands for \<^verbatim>\<open>NaN\<close> (no digit where one is
  expected).  \<^verbatim>\<open>parseInt(undefined, 10)\<close> is \<^verbatim>\<open>NaN\<close> as well.
\<close>

definition parseInt :: "string \<Rightarrow> int option" where
  "parseInt s =
     (let t = dropWhile is_space s;
          neg = (t \<noteq> [] \<and> hd t = CHR ''-'');
          u = (if t \<noteq> [] \<and> (hd t = CHR ''-'' \<or> hd t = CHR ''+'') then tl t else t);
          ds = takeWhile is_digit u
      in if ds = [] then None
         else Some (if neg then - int (digits_val ds) else int (digits_val ds)))"

definition parseInt_opt :: "string option \<Rightarrow> int option" where
  "parseInt_opt so = (case so of None \<Rightarrow> None | Some s \<Rightarrow> parseInt s)"

definition nth_opt :: "'a list \<Rightarrow> nat \<Rightarrow> 'a option" where
  "nth_opt xs i = (if i < length xs then Some (xs ! i) else None)"

text \<open>\<^verbatim>\<open>String(x + 1)\<close> for a possibly-\<^verbatim>\<open>NaN\<close> integer \<open>x\<close>.\<close>

definition string_of_succ :: "int option \<Rightarrow> string" where
  "string_of_succ x = (case x of None \<Rightarrow> ''NaN'' | Some n \<Rightarrow> string_of_int (n + 1))"


section \<open>Ledger store\<close>

text \<open>
  One record per Mongoose model (\<^verbatim>\<open>models/Branch.ts\<close>, \<^verbatim>\<open>Customer.ts\<close>, \<^verbatim>\<open>LineItem.ts\<close>,
  \<^verbatim>\<open>Transactions.ts\<close>, \<^verbatim>\<open>Payments.ts\<close>).  The transaction keeps the field names of the
  schema; fields of the other documents that share a name with it carry a prefix.
  Amounts and counters are schema paths of type \<^verbatim>\<open>Number\<close>, which nothing restricts to
  whole or non-negative values; they are modelled as exact rationals (rounding, \<^verbatim>\<open>NaN\<close>
  and infinities are outside the model).  A date is the instant it denotes together with
  the calendar fields the controllers read from it.
\<close>

record js_date =
  getFullYear :: nat
  getMonth :: nat
  getTime :: nat

record branch =
  b_branch_id :: string
  branch_number :: nat
  branch_code :: string

record customer =
  c_cust_id :: string
  cust_name :: string
  cust_bdate :: "string option"
  cust_address :: "string option"
  cust_email :: "string option"
  cust_contact :: "string option"
  total_services :: rat
  total_expenditure :: rat

record line_item_service =
  service_id :: string
  quantity :: rat

record line_item =
  li_line_item_id :: string
  li_transaction_id :: string
  priority :: string
  li_cust_id :: string
  services :: "line_item_service list"
  storage_fee :: rat
  li_branch_id :: string
  shoes :: string
  current_location :: string
  current_status :: string
  due_date :: "js_date option"
  latest_update :: js_date
  before_img :: "string option"
  after_img :: "string option"

record transaction =
  transaction_id :: string
  line_item_id :: "string list"
  branch_id :: string
  date_in :: js_date
  received_by :: string
  date_out :: "js_date option"
  cust_id :: string
  no_pairs :: rat
  no_released :: rat
  total_amount :: rat
  discount_amount :: rat
  amount_paid :: rat
  payment_status :: string
  payments :: "string list"
  payment_mode :: string

record payment =
  payment_id :: string
  p_transaction_id :: string
  payment_amount :: rat
  p_payment_mode :: string
  payment_date :: js_date

text \<open>
  The store: one list per collection, in insertion order (the order of \<^verbatim>\<open>_id\<close>), and the
  ids of the catalogue's services.
\<close>

record store =
  coll_branches :: "branch list"
  coll_services :: "string list"
  coll_customers :: "customer list"
  coll_line_items :: "line_item list"
  coll_transactions :: "transaction list"
  coll_payments :: "payment list"

text \<open>\<^verbatim>\<open>Model.findOne\<close>: the first document that satisfies the filter.\<close>

definition findOne :: "('a \<Rightarrow> bool) \<Rightarrow> 'a list \<Rightarrow> 'a option" where
  "findOne P xs = List.find P xs"

text \<open>
  Saving a loaded document writes it back in place of the stored document it was loaded
  from (the first one that satisfies the filter it was found with).
\<close>

fun replace_first :: "('a \<Rightarrow> bool) \<Rightarrow> 'a \<Rightarrow> 'a list \<Rightarrow> 'a list" where
  "replace_first P y [] = []"
| "replace_first P y (x # xs) = (if P x then y # xs else x # replace_first P y xs)"

text \<open>
  The writes of a request run in one multi-document session; each of them can be made to
  fail by the storage layer.  A fault plan says which writes throw.  Nothing is assumed
  about how the faults of different writes depend on each other: a server that fails every
  write of a session after one that failed is a plan of that shape.
\<close>

datatype write_op = WCustomer | WLineItem nat | WPayment | WTransaction | WCommit

type_synonym faults = "write_op \<Rightarrow> bool"

datatype 'a response = Ok nat 'a | Err nat string

section \<open>Identifier allocator\<close>

text \<open>The greatest string of a list: \<^verbatim>\<open>sort({ field: -1 }).limit(1)\<close> on a string field.\<close>

definition greatest :: "string list \<Rightarrow> string option" where
  "greatest xs = (case xs of [] \<Rightarrow> None | y # ys \<Rightarrow> Some (fold max ys y))"

fun contains :: "string \<Rightarrow> string \<Rightarrow> bool" where
  "contains p [] = (p = [])"
| "contains p (x # xs) = (take (length p) (x # xs) = p \<or> contains p xs)"

text \<open>
  \<^verbatim>\<open>generateCustomerId\<close>: the filter is the unanchored pattern \<^verbatim>\<open>CUST-<branch_number>-\<close>.
\<close>

definition generateCustomerId :: "customer list \<Rightarrow> nat \<Rightarrow> string" where
  "generateCustomerId custs bnum =
     (let pat = ''CUST-'' @ string_of_nat bnum @ ''-'';
          lastCust = greatest (filter (contains pat) (map c_cust_id custs));
          lastNumber = (case lastCust of
                          None \<Rightarrow> Some 0
                        | Some cid \<Rightarrow> parseInt_opt (nth_opt (split_on CHR ''-'' cid) 2))
      in ''CUST-'' @ string_of_nat bnum @ ''-'' @ string_of_succ lastNumber)"

text \<open>
  The pattern \<^verbatim>\<open>^<yearMonth>-\d{5}-<branch_code>$\<close> of \<^verbatim>\<open>generateTransactionId\<close>.  The
  branch code is spliced into the pattern unescaped; the model reads it literally, which
  is what the pattern means for a code without regular-expression metacharacters.
\<close>

definition transaction_id_matches :: "string \<Rightarrow> string \<Rightarrow> string \<Rightarrow> bool" where
  "transaction_id_matches yearMonth bc tid =
     (let d = take 5 (drop (length yearMonth + 1) tid)
      in length d = 5 \<and> list_all is_digit d \<and> tid = yearMonth @ ''-'' @ d @ ''-'' @ bc)"

definition yearMonth_of :: "js_date \<Rightarrow> string" where
  "yearMonth_of now =
     string_of_nat (getFullYear now) @ ''-'' @ padStart 2 CHR ''0'' (string_of_nat (getMonth now + 1))"

definition generateTransactionId :: "transaction list \<Rightarrow> js_date \<Rightarrow> string \<Rightarrow> string" where
  "generateTransactionId txs now bc =
     (let yearMonth = yearMonth_of now;
          lastTrx = greatest (filter (transaction_id_matches yearMonth bc) (map transaction_id txs));
          lastNumber = (case lastTrx of
                          None \<Rightarrow> Some 0
                        | Some tid \<Rightarrow> parseInt_opt (nth_opt (split_on CHR ''-'' tid) 2))
      in yearMonth @ ''-'' @ padStart 5 CHR ''0'' (string_of_succ lastNumber) @ ''-'' @ bc)"

text \<open>
  \<^verbatim>\<open>generateLineItemId\<close>.  A part that is missing from the split is \<^verbatim>\<open>undefined\<close>, which
  the template prints as the word.
\<close>

definition part_or_undefined :: "string list \<Rightarrow> nat \<Rightarrow> string" where
  "part_or_undefined parts i = (case nth_opt parts i of None \<Rightarrow> ''undefined'' | Some p \<Rightarrow> p)"

definition generateLineItemId :: "string \<Rightarrow> nat \<Rightarrow> string" where
  "generateLineItemId transactionId lineIndex =
     (let parts = split_on CHR ''-'' transactionId;
          year = part_or_undefined parts 0;
          month = part_or_undefined parts 1;
          trxIncrement = part_or_undefined parts 2;
          branchCode = join_with ''-'' (drop 3 parts)
      in year @ ''-'' @ month @ ''-'' @ trxIncrement @ ''-''
         @ padStart 3 CHR ''0'' (string_of_nat (lineIndex + 1)) @ ''-'' @ branchCode)"

text \<open>
  \<^verbatim>\<open>generatePaymentId\<close>.  The branch code is escaped, so the pattern
  \<^verbatim>\<open>^PAY-(\d+)-<branch_code>$\<close> matches it literally; \<open>payment_suffix\<close> returns the group
  \<^verbatim>\<open>(\d+)\<close> of a matching id.  The query keeps the 100 latest matching payments, and the
  loop raises \<open>maxNum\<close> over them.
\<close>

definition payment_suffix :: "string \<Rightarrow> string \<Rightarrow> string option" where
  "payment_suffix bc pid =
     (if take 4 pid = ''PAY-'' then
        (let ds = takeWhile is_digit (drop 4 pid)
         in if ds \<noteq> [] \<and> drop (4 + length ds) pid = ''-'' @ bc then Some ds else None)
      else None)"

definition latest_matching :: "payment list \<Rightarrow> string \<Rightarrow> payment list" where
  "latest_matching pays bc = take 100 (rev (filter (\<lambda>p. payment_suffix bc (payment_id p) \<noteq> None) pays))"

definition maxNum_step :: "string \<Rightarrow> nat \<Rightarrow> payment \<Rightarrow> nat" where
  "maxNum_step bc maxNum p =
     (case payment_suffix bc (payment_id p) of
        None \<Rightarrow> maxNum
      | Some ds \<Rightarrow> (let n = digits_val ds in if n > maxNum then n else maxNum))"

definition generatePaymentId :: "payment list \<Rightarrow> string \<Rightarrow> string" where
  "generatePaymentId pays bc =
     (let latest = latest_matching pays bc;
          maxNum = foldl (maxNum_step bc) 0 latest;
          next = maxNum + 1
      in ''PAY-'' @ string_of_nat next @ ''-'' @ bc)"



section \<open>Payment ledger: \<^verbatim>\<open>applyPayment\<close>\<close>

text \<open>
  The request body.  \<open>None\<close> is a field that is absent (\<^verbatim>\<open>undefined\<close>); an absent
  \<^verbatim>\<open>markPickedUp\<close> is falsy and is the flag \<open>False\<close>.
\<close>

record apply_payment_body =
  dueNow :: "rat option"
  customerPaid :: "rat option"
  modeOfPayment :: "string option"
  lineItemId :: "string option"
  markPickedUp :: bool
  req_payment_status :: "string option"
  provided_payment_id :: "string option"

text \<open>JavaScript truthiness of an optional string: present and not empty.\<close>

definition truthy :: "string option \<Rightarrow> bool" where
  "truthy so = (case so of None \<Rightarrow> False | Some s \<Rightarrow> s \<noteq> [])"

definition the_default :: "'a \<Rightarrow> 'a option \<Rightarrow> 'a" where
  "the_default d x = (case x of None \<Rightarrow> d | Some v \<Rightarrow> v)"

text \<open>Lines 256-258: \<^verbatim>\<open>no_released\<close> goes up by one when the call marks a pick-up.\<close>

definition bump_released :: "bool \<Rightarrow> transaction \<Rightarrow> transaction" where
  "bump_released mark t = (if mark then t\<lparr>no_released := no_released t + 1\<rparr> else t)"

text \<open>Lines 260-265: add \<^verbatim>\<open>dueNow\<close>, clamp to \<^verbatim>\<open>total_amount\<close> from above.\<close>

definition add_due :: "rat \<Rightarrow> transaction \<Rightarrow> transaction" where
  "add_due dueNum t =
     (let prevPaid = amount_paid t;
          totalAmt = total_amount t;
          newPaid = prevPaid + dueNum
      in t\<lparr>amount_paid := (if newPaid > totalAmt then totalAmt else newPaid)\<rparr>)"

definition VALID :: "string list" where
  "VALID = [''NP'', ''PARTIAL'', ''PAID'']"

definition status_rejected :: "string option \<Rightarrow> bool" where
  "status_rejected ps = (case ps of None \<Rightarrow> False | Some s \<Rightarrow> s \<notin> set VALID)"

definition set_payment_status :: "string option \<Rightarrow> transaction \<Rightarrow> transaction" where
  "set_payment_status ps t = (case ps of None \<Rightarrow> t | Some s \<Rightarrow> t\<lparr>payment_status := s\<rparr>)"

text \<open>
  Lines 279-285: the mode is compared with the trimmed pieces of the stored
  comma-separated string, and appended after a comma when none of them equals it.
\<close>

definition append_mode :: "string \<Rightarrow> string \<Rightarrow> string" where
  "append_mode existing m =
     (if existing = [] then m
      else if m \<notin> set (map trim (split_on CHR '','' existing)) then existing @ '','' @ m
      else existing)"

definition update_payment_mode :: "string option \<Rightarrow> transaction \<Rightarrow> transaction" where
  "update_payment_mode mo t =
     (case mo of
        None \<Rightarrow> t
      | Some m \<Rightarrow> if m = [] then t else t\<lparr>payment_mode := append_mode (payment_mode t) m\<rparr>)"

text \<open>
  The Payment schema: required id and parent, \<^verbatim>\<open>payment_amount\<close> at least 0.01, mode in the
  enum; \<^verbatim>\<open>payment_id\<close> is unique.  A save that violates one of them, or that the fault plan
  fails, throws and writes nothing.
\<close>

definition PAYMENT_MODES :: "string list" where
  "PAYMENT_MODES = [''Cash'', ''GCash'', ''Bank'', ''Other'']"

definition payment_valid :: "payment \<Rightarrow> bool" where
  "payment_valid p =
     (payment_id p \<noteq> [] \<and> p_transaction_id p \<noteq> [] \<and> payment_amount p \<ge> 1 / 100
      \<and> p_payment_mode p \<in> set PAYMENT_MODES)"

definition save_payment :: "faults \<Rightarrow> payment \<Rightarrow> store \<Rightarrow> store option" where
  "save_payment fl p st =
     (if fl WPayment \<or> \<not> payment_valid p \<or> payment_id p \<in> set (map payment_id (coll_payments st))
      then None
      else Some (st\<lparr>coll_payments := coll_payments st @ [p]\<rparr>))"

definition attach_payment :: "string \<Rightarrow> transaction \<Rightarrow> transaction" where
  "attach_payment pid t = (if pid \<in> set (payments t) then t else t\<lparr>payments := payments t @ [pid]\<rparr>)"

text \<open>
  Lines 303-327: a new Payment for \<^verbatim>\<open>dueNow\<close>.  The branch code is looked up (lines
  305-311, with the branch id as fall-back), the id is allocated from the committed
  payments (the allocator queries outside the session), and the document is built (lines
  314-320).  A failed save is caught by the enclosing \<^verbatim>\<open>try\<close> (lines 329-332) and the
  request goes on without the payment.
\<close>

definition payment_branch_code :: "transaction \<Rightarrow> store \<Rightarrow> string" where
  "payment_branch_code t st =
     (case findOne (\<lambda>b. b_branch_id b = branch_id t) (coll_branches st) of
        None \<Rightarrow> branch_id t
      | Some b \<Rightarrow> if branch_code b \<noteq> [] then branch_code b else branch_id t)"

definition new_payment ::
  "js_date \<Rightarrow> store \<Rightarrow> string option \<Rightarrow> rat \<Rightarrow> transaction \<Rightarrow> store \<Rightarrow> payment" where
  "new_payment now committed mo dueNum t st =
     \<lparr>payment_id = generatePaymentId (coll_payments committed) (payment_branch_code t st),
      p_transaction_id = transaction_id t,
      payment_amount = dueNum,
      p_payment_mode = (if truthy mo then the_default ''Other'' mo else ''Other''),
      payment_date = now\<rparr>"

definition create_payment ::
  "faults \<Rightarrow> js_date \<Rightarrow> store \<Rightarrow> string option \<Rightarrow> rat \<Rightarrow> transaction \<Rightarrow> store \<Rightarrow> transaction \<times> store" where
  "create_payment fl now committed mo dueNum t st =
     (if dueNum > 0 then
        (let pay = new_payment now committed mo dueNum t st
         in case save_payment fl pay st of
              None \<Rightarrow> (t, st)
            | Some st' \<Rightarrow> (attach_payment (payment_id pay) t, st'))
      else (t, st))"

text \<open>
  Lines 288-332: a payment id supplied by the caller is attached when a Payment with that
  id exists, and only logged when none does; without one a Payment is created.
\<close>

definition record_payment ::
  "faults \<Rightarrow> js_date \<Rightarrow> store \<Rightarrow> apply_payment_body \<Rightarrow> rat \<Rightarrow> transaction \<Rightarrow> store \<Rightarrow> transaction \<times> store" where
  "record_payment fl now committed body dueNum t st =
     (case provided_payment_id body of
        None \<Rightarrow> create_payment fl now committed (modeOfPayment body) dueNum t st
      | Some pid \<Rightarrow>
          if pid = [] then create_payment fl now committed (modeOfPayment body) dueNum t st
          else (case findOne (\<lambda>p. payment_id p = pid) (coll_payments st) of
                  None \<Rightarrow> (t, st)
                | Some existing \<Rightarrow> (attach_payment pid t, st)))"

text \<open>Lines 336-338.\<close>

definition set_date_out :: "bool \<Rightarrow> js_date \<Rightarrow> transaction \<Rightarrow> transaction" where
  "set_date_out mark now t =
     (if mark \<and> no_pairs t - no_released t \<le> 0 then t\<lparr>date_out := Some now\<rparr> else t)"

text \<open>
  Lines 344-362: the line item is marked and the customer's totals are raised.  The result
  is the error response of the step, or the session's store after it.
\<close>

definition release_line_item ::
  "faults \<Rightarrow> apply_payment_body \<Rightarrow> transaction \<Rightarrow> store \<Rightarrow> (nat \<times> string) + store" where
  "release_line_item fl body t st =
     (case lineItemId body of
        None \<Rightarrow> Inr st
      | Some lid \<Rightarrow>
          if \<not> (markPickedUp body \<and> lid \<noteq> []) then Inr st
          else (case findOne (\<lambda>li. li_line_item_id li = lid) (coll_line_items st) of
                  None \<Rightarrow> Inl (404, ''Line item not found'')
                | Some lineItem \<Rightarrow>
                    if fl (WLineItem 0) then Inl (500, ''storage error'')
                    else
                      (let st1 = st\<lparr>coll_line_items :=
                                       replace_first (\<lambda>li. li_line_item_id li = lid)
                                         (lineItem\<lparr>current_status := ''Picked Up''\<rparr>)
                                         (coll_line_items st)\<rparr>
                       in case findOne (\<lambda>c. c_cust_id c = cust_id t) (coll_customers st1) of
                            None \<Rightarrow> Inr st1
                          | Some c \<Rightarrow>
                              if fl WCustomer then Inl (500, ''storage error'')
                              else Inr (st1\<lparr>coll_customers :=
                                             replace_first (\<lambda>c. c_cust_id c = cust_id t)
                                               (c\<lparr>total_services := total_services c + 1,
                                                  total_expenditure :=
                                                    total_expenditure c + total_amount t\<rparr>)
                                               (coll_customers st1)\<rparr>))))"

text \<open>
  The controller.  Every write goes to the session's copy of the store; the committed
  store is replaced by it at \<^verbatim>\<open>commitTransaction\<close>, and is returned as it was on every
  path that aborts or throws.  The \<^verbatim>\<open>lineItemRowUpdate\<close> message sent to the clients after
  the commit reads the documents and writes nothing (its own failure is caught and
  logged), so it is left out.
\<close>

definition applyPayment ::
  "faults \<Rightarrow> js_date \<Rightarrow> store \<Rightarrow> string \<Rightarrow> apply_payment_body \<Rightarrow> transaction response \<times> store" where
  "applyPayment fl now db tid body =
     (if tid = [] then (Err 400 ''transaction_id required'', db)
      else case dueNow body of
        None \<Rightarrow> (Err 400 ''dueNow and customerPaid are required'', db)
      | Some dueNum \<Rightarrow>
          if customerPaid body = None then (Err 400 ''dueNow and customerPaid are required'', db)
          else case findOne (\<lambda>t. transaction_id t = tid) (coll_transactions db) of
            None \<Rightarrow> (Err 404 ''Transaction not found'', db)
          | Some trx \<Rightarrow>
              (let t1 = add_due dueNum (bump_released (markPickedUp body) trx)
               in if status_rejected (req_payment_status body)
                  then (Err 400 ''Invalid payment_status. Must be one of NP, PARTIAL, PAID'', db)
                  else
                    (let t2 = update_payment_mode (modeOfPayment body)
                                (set_payment_status (req_payment_status body) t1);
                         r = record_payment fl now db body dueNum t2 db;
                         t3 = set_date_out (markPickedUp body) now (fst r)
                     in if fl WTransaction then (Err 500 ''storage error'', db)
                        else
                          (let st2 = (snd r)\<lparr>coll_transactions :=
                                                replace_first (\<lambda>t. transaction_id t = tid) t3
                                                  (coll_transactions (snd r))\<rparr>
                           in case release_line_item fl body t3 st2 of
                                Inl e \<Rightarrow> (Err (fst e) (snd e), db)
                              | Inr st3 \<Rightarrow>
                                  if fl WCommit then (Err 500 ''storage error'', db)
                                  else (Ok 200 t3, st3)))))"

text \<open>
  A sequence of calls against one transaction id: the stores before the first call and
  after each call, in order.
\<close>

type_synonym payment_call = "faults \<times> js_date \<times> apply_payment_body"

fun applyPayment_trace :: "store \<Rightarrow> string \<Rightarrow> payment_call list \<Rightarrow> store list" where
  "applyPayment_trace db tid [] = [db]"
| "applyPayment_trace db tid (c # cs) =
     db # applyPayment_trace (snd (applyPayment (fst c) (fst (snd c)) db tid (snd (snd c)))) tid cs"

definition stored_transaction :: "store \<Rightarrow> string \<Rightarrow> transaction option" where
  "stored_transaction db tid = findOne (\<lambda>t. transaction_id t = tid) (coll_transactions db)"

text \<open>
  Names for the stages of a call that passed its checks: the transaction after the field
  updates of lines 256-285, the transaction a successful call stores, and the session's
  store once that transaction is saved.
\<close>

definition staged_transaction :: "apply_payment_body \<Rightarrow> rat \<Rightarrow> transaction \<Rightarrow> transaction" where
  "staged_transaction body d t =
     update_payment_mode (modeOfPayment body)
       (set_payment_status (req_payment_status body)
          (add_due d (bump_released (markPickedUp body) t)))"

definition paid_transaction ::
  "faults \<Rightarrow> js_date \<Rightarrow> store \<Rightarrow> apply_payment_body \<Rightarrow> rat \<Rightarrow> transaction \<Rightarrow> transaction" where
  "paid_transaction fl now db body d t =
     set_date_out (markPickedUp body) now
       (fst (record_payment fl now db body d (staged_transaction body d t) db))"

definition session_after_save ::
  "faults \<Rightarrow> js_date \<Rightarrow> store \<Rightarrow> string \<Rightarrow> apply_payment_body \<Rightarrow> rat \<Rightarrow> transaction \<Rightarrow> store" where
  "session_after_save fl now db tid body d t =
     (snd (record_payment fl now db body d (staged_transaction body d t) db))
       \<lparr>coll_transactions :=
          replace_first (\<lambda>t. transaction_id t = tid) (paid_transaction fl now db body d t)
            (coll_transactions db)\<rparr>"

subsection \<open>A concrete ledger\<close>

text \<open>
  One branch, one customer and one order of a single pair, total 1000, nothing paid and
  nothing released yet; the requests below are applied to it.
\<close>

definition no_faults :: faults where
  "no_faults = (\<lambda>w. False)"

definition ex_now :: js_date where
  "ex_now = \<lparr>getFullYear = 2025, getMonth = 2, getTime = 1000\<rparr>"

definition ex_transaction :: transaction where
  "ex_transaction =
     \<lparr>transaction_id = ''2025-03-00001-VAL'', line_item_id = [''2025-03-00001-001-VAL''],
      branch_id = ''VAL-B-NCR'', date_in = ex_now, received_by = ''staff'', date_out = None,
      cust_id = ''CUST-1-1'', no_pairs = 1, no_released = 0, total_amount = 1000,
      discount_amount = 0, amount_paid = 0, payment_status = ''NP'', payments = [],
      payment_mode = ''''\<rparr>"

definition ex_line_item :: line_item where
  "ex_line_item =
     \<lparr>li_line_item_id = ''2025-03-00001-001-VAL'', li_transaction_id = ''2025-03-00001-VAL'',
      priority = ''Normal'', li_cust_id = ''CUST-1-1'',
      services = [\<lparr>service_id = ''SVC-1'', quantity = 1\<rparr>], storage_fee = 0,
      li_branch_id = ''VAL-B-NCR'', shoes = ''sneakers'', current_location = ''Branch'',
      current_status = ''Queued'', due_date = None, latest_update = ex_now,
      before_img = None, after_img = None\<rparr>"

definition ex_customer :: customer where
  "ex_customer =
     \<lparr>c_cust_id = ''CUST-1-1'', cust_name = ''Ana'', cust_bdate = None, cust_address = None,
      cust_email = None, cust_contact = None, total_services = 0, total_expenditure = 0\<rparr>"

definition ex_branch :: branch where
  "ex_branch = \<lparr>b_branch_id = ''VAL-B-NCR'', branch_number = 1, branch_code = ''VAL''\<rparr>"

definition ex_store :: store where
  "ex_store =
     \<lparr>coll_branches = [ex_branch],
      coll_services = [''SVC-1''],
      coll_customers = [ex_customer],
      coll_line_items = [ex_line_item],
      coll_transactions = [ex_transaction],
      coll_payments = []\<rparr>"

definition ex_body :: apply_payment_body where
  "ex_body =
     \<lparr>dueNow = Some 0, customerPaid = Some 0, modeOfPayment = None, lineItemId = None,
      markPickedUp = False, req_payment_status = None, provided_payment_id = None\<rparr>"

definition ex_overpay :: apply_payment_body where
  "ex_overpay = ex_body\<lparr>dueNow := Some 1500, customerPaid := Some 1500, modeOfPayment := Some ''Cash''\<rparr>"

definition ex_refund :: apply_payment_body where
  "ex_refund = ex_body\<lparr>dueNow := Some (- 500)\<rparr>"

definition ex_pickup :: apply_payment_body where
  "ex_pickup = ex_body\<lparr>markPickedUp := True\<rparr>"

definition ex_february :: transaction where
  "ex_february = ex_transaction\<lparr>transaction_id := ''2025-02-00007-VAL''\<rparr>"



definition ex_tid :: string where
  "ex_tid = ''2025-03-00001-VAL''"

definition ex_overpay_call :: payment_call where
  "ex_overpay_call = (no_faults, ex_now, ex_overpay)"

definition ex_pickup_call :: payment_call where
  "ex_pickup_call = (no_faults, ex_now, ex_pickup)"

definition ex_paid :: transaction where
  "ex_paid = ex_transaction\<lparr>amount_paid := 1000, payment_mode := ''Cash'', payments := [''PAY-1-VAL'']\<rparr>"

definition ex_released :: transaction where
  "ex_released = ex_transaction\<lparr>no_released := 1, date_out := Some ex_now\<rparr>"

definition ex_padded_mode :: apply_payment_body where
  "ex_padded_mode = ex_body\<lparr>modeOfPayment := Some '' Cash''\<rparr>"

definition ex_cash :: apply_payment_body where
  "ex_cash = ex_body\<lparr>modeOfPayment := Some ''Cash''\<rparr>"

definition ex_card :: apply_payment_body where
  "ex_card = ex_body\<lparr>dueNow := Some 400, customerPaid := Some 400, modeOfPayment := Some ''Card''\<rparr>"

definition ex_unknown_payment :: apply_payment_body where
  "ex_unknown_payment =
     ex_body\<lparr>dueNow := Some 400, customerPaid := Some 400, modeOfPayment := Some ''Cash'',
       provided_payment_id := Some ''PAY-99-VAL''\<rparr>"

definition ex_pickup_item :: apply_payment_body where
  "ex_pickup_item = ex_pickup\<lparr>lineItemId := Some ''2025-03-00001-001-VAL''\<rparr>"

definition ex_card_pickup :: apply_payment_body where
  "ex_card_pickup = ex_card\<lparr>markPickedUp := True, lineItemId := Some ''2025-03-00001-001-VAL''\<rparr>"

definition ex_pickup_missing :: apply_payment_body where
  "ex_pickup_missing = ex_pickup\<lparr>lineItemId := Some ''2025-03-00001-009-VAL''\<rparr>"

definition ex_half_released :: transaction where
  "ex_half_released = ex_transaction\<lparr>no_released := 1 / 2\<rparr>"

definition customer_write_fails :: faults where
  "customer_write_fails = (\<lambda>w. w = WCustomer)"

definition every_write_fails :: faults where
  "every_write_fails = (\<lambda>w. True)"

definition ex_card_paid :: transaction where
  "ex_card_paid = ex_transaction\<lparr>amount_paid := 400, payment_mode := ''Card''\<rparr>"

definition ex_card_released :: transaction where
  "ex_card_released =
     ex_transaction\<lparr>amount_paid := 400, payment_mode := ''Card'', no_released := 1,
       date_out := Some ex_now\<rparr>"

definition ex_store_after_pickup :: store where
  "ex_store_after_pickup =
     ex_store\<lparr>coll_transactions := [ex_card_released],
       coll_line_items := [ex_line_item\<lparr>current_status := ''Picked Up''\<rparr>],
       coll_customers := [ex_customer\<lparr>total_services := 1, total_expenditure := 1000\<rparr>]\<rparr>"

definition ex_card_payment :: payment where
  "ex_card_payment =
     \<lparr>payment_id = ''PAY-1-VAL'', p_transaction_id = ex_tid, payment_amount = 400,
      p_payment_mode = ''Card'', payment_date = ex_now\<rparr>"

section \<open>Direct patch: \<^verbatim>\<open>updateTransaction\<close>\<close>

text \<open>
  The request body is an arbitrary JSON object, so here a transaction document and the
  body are maps from field names to JSON values.  The controller deletes the restricted
  keys from the body, checks \<^verbatim>\<open>payment_status\<close>, assigns what is left onto the loaded
  document and saves it.
\<close>

datatype json =
  JNull | JBool bool | JNum rat | JStr string | JArr "json list" | JObj "(string \<times> json) list"

type_synonym doc = "string \<rightharpoonup> json"

definition js_truthy :: "json \<Rightarrow> bool" where
  "js_truthy v =
     (case v of JNull \<Rightarrow> False | JBool b \<Rightarrow> b | JNum n \<Rightarrow> n \<noteq> 0 | JStr s \<Rightarrow> s \<noteq> []
      | JArr xs \<Rightarrow> True | JObj kvs \<Rightarrow> True)"

definition restrictedFields :: "string list" where
  "restrictedFields = [''transaction_id'', ''_id'', ''__v'', ''createdAt'', ''updatedAt'']"

text \<open>
  The paths of the schema: its declared fields, \<^verbatim>\<open>_id\<close>, the version key \<^verbatim>\<open>__v\<close> and the two
  paths of the \<^verbatim>\<open>timestamps\<close> option.
\<close>

definition transaction_paths :: "string list" where
  "transaction_paths =
     [''transaction_id'', ''line_item_id'', ''branch_id'', ''date_in'', ''received_by'', ''date_out'',
      ''cust_id'', ''no_pairs'', ''no_released'', ''total_amount'', ''discount_amount'',
      ''amount_paid'', ''payment_status'', ''payment_mode'', ''payments'',
      ''_id'', ''__v'', ''createdAt'', ''updatedAt'']"

text \<open>\<^verbatim>\<open>restrictedFields.forEach(field => delete updates[field])\<close>\<close>

definition delete_restricted :: "doc \<Rightarrow> doc" where
  "delete_restricted updates = fold (\<lambda>field u. u(field := None)) restrictedFields updates"

definition bad_payment_status :: "doc \<Rightarrow> bool" where
  "bad_payment_status updates =
     (case updates ''payment_status'' of
        None \<Rightarrow> False
      | Some v \<Rightarrow> js_truthy v \<and> v \<notin> set (map JStr [''NP'', ''PARTIAL'', ''PAID'']))"

text \<open>
  \<^verbatim>\<open>Object.assign(transaction, updates)\<close> sets every key of the body on the document.  A key
  that is a path of the schema goes through the path's setter, which casts the value to
  the path's type; any other key becomes a plain property of the object and is neither
  stored nor returned.  The casting is the parameter \<open>cast\<close> (\<open>None\<close> when the value cannot
  be cast: the path keeps its value and the save fails validation).
\<close>

type_synonym caster = "string \<Rightarrow> json \<Rightarrow> json option"

definition cast_updates :: "caster \<Rightarrow> doc \<Rightarrow> doc" where
  "cast_updates cast updates =
     (\<lambda>p. if p \<in> set transaction_paths
          then (case updates p of None \<Rightarrow> None | Some v \<Rightarrow> cast p v)
          else None)"

definition cast_error :: "caster \<Rightarrow> doc \<Rightarrow> bool" where
  "cast_error cast updates =
     list_ex (\<lambda>p. case updates p of None \<Rightarrow> False | Some v \<Rightarrow> cast p v = None) transaction_paths"

definition assign_fields :: "caster \<Rightarrow> doc \<Rightarrow> doc \<Rightarrow> doc" where
  "assign_fields cast t updates = t ++ cast_updates cast updates"

text \<open>
  \<^verbatim>\<open>transaction.save()\<close> writes the paths whose value differs from the loaded one.  When
  there is one, the \<^verbatim>\<open>timestamps\<close> option sets \<^verbatim>\<open>updatedAt\<close>; when one of them is set to an
  array, Mongoose's versioning increments \<^verbatim>\<open>__v\<close> in the same write (a missing version
  counts as 0).  A save without a modified path writes nothing.
\<close>

definition modified_paths :: "doc \<Rightarrow> doc \<Rightarrow> string list" where
  "modified_paths loaded assigned = filter (\<lambda>p. assigned p \<noteq> loaded p) transaction_paths"

definition is_array :: "json option \<Rightarrow> bool" where
  "is_array v = (case v of Some (JArr xs) \<Rightarrow> True | _ \<Rightarrow> False)"

definition version_inc :: "doc \<Rightarrow> doc \<Rightarrow> bool" where
  "version_inc loaded assigned = list_ex (\<lambda>p. is_array (assigned p)) (modified_paths loaded assigned)"

definition next_version :: "doc \<Rightarrow> json" where
  "next_version loaded = JNum ((case loaded ''__v'' of Some (JNum n) \<Rightarrow> n | _ \<Rightarrow> 0) + 1)"

definition save_document :: "json \<Rightarrow> doc \<Rightarrow> doc \<Rightarrow> doc" where
  "save_document now loaded assigned =
     (if modified_paths loaded assigned = [] then assigned
      else
        (let stamped = assigned(''updatedAt'' \<mapsto> now)
         in if version_inc loaded assigned then stamped(''__v'' \<mapsto> next_version loaded)
            else stamped))"

definition has_transaction_id :: "string \<Rightarrow> doc \<Rightarrow> bool" where
  "has_transaction_id tid t = (t ''transaction_id'' = Some (JStr tid))"

text \<open>
  The controller.  Whether \<^verbatim>\<open>transaction.save()\<close> goes through is the parameter \<open>save_ok\<close>,
  given the filtered body and the assigned document: schema validation, the storage layer,
  and the call itself (a key of the body such as \<^verbatim>\<open>save\<close> replaces the method of that name on
  the object).  A failed save is caught and answered with 500.
\<close>

definition updateTransaction ::
  "caster \<Rightarrow> (doc \<Rightarrow> doc \<Rightarrow> bool) \<Rightarrow> json \<Rightarrow> doc list \<Rightarrow> string \<Rightarrow> doc
     \<Rightarrow> doc response \<times> doc list" where
  "updateTransaction cast save_ok now txs tid body =
     (if tid = [] then (Err 400 ''transaction_id required'', txs)
      else case findOne (has_transaction_id tid) txs of
        None \<Rightarrow> (Err 404 ''Transaction not found'', txs)
      | Some trx \<Rightarrow>
          (let updates = delete_restricted body
           in if bad_payment_status updates
              then (Err 400 ''Invalid payment_status. Must be NP, PARTIAL, or PAID'', txs)
              else
                (let assigned = assign_fields cast trx updates
                 in if cast_error cast updates \<or> \<not> save_ok updates assigned
                    then (Err 500 ''Server error'', txs)
                    else
                      (let saved = save_document now trx assigned
                       in (Ok 200 saved, replace_first (has_transaction_id tid) saved txs)))))"

subsection \<open>A concrete document\<close>

definition ex_doc :: doc where
  "ex_doc =
     [''_id'' \<mapsto> JStr ''65f0c0ffee'', ''__v'' \<mapsto> JNum 0, ''transaction_id'' \<mapsto> JStr ''2025-03-00001-VAL'',
      ''createdAt'' \<mapsto> JNum 1741000000000, ''updatedAt'' \<mapsto> JNum 1741000000000,
      ''line_item_id'' \<mapsto> JArr [JStr ''2025-03-00001-001-VAL''], ''payments'' \<mapsto> JArr [],
      ''total_amount'' \<mapsto> JNum 1000, ''amount_paid'' \<mapsto> JNum 0, ''payment_status'' \<mapsto> JStr ''NP'']"

definition ex_patch :: doc where
  "ex_patch =
     [''_id'' \<mapsto> JStr ''forged'', ''__v'' \<mapsto> JNum 7, ''transaction_id'' \<mapsto> JStr ''2099-01-00001-XXX'',
      ''createdAt'' \<mapsto> JNum 1, ''amount_paid'' \<mapsto> JNum 250, ''payment_status'' \<mapsto> JStr ''PARTIAL'',
      ''nickname'' \<mapsto> JStr ''x'']"

definition ex_array_patch :: doc where
  "ex_array_patch = [''__v'' \<mapsto> JNum 7, ''payments'' \<mapsto> JArr [JStr ''PAY-1-VAL'']]"

definition ex_versioned :: doc where
  "ex_versioned =
     ex_doc(''payments'' \<mapsto> JArr [JStr ''PAY-1-VAL''], ''updatedAt'' \<mapsto> JNum 1742000000000,
       ''__v'' \<mapsto> JNum 1)"

definition accept_all :: "doc \<Rightarrow> doc \<Rightarrow> bool" where
  "accept_all updates t = True"

definition cast_as_is :: caster where
  "cast_as_is p v = Some v"

section \<open>Order intake: \<^verbatim>\<open>createServiceRequest\<close>\<close>

text \<open>
  The request body (\<^verbatim>\<open>ServiceRequestInput\<close>, \<^verbatim>\<open>LineItemInput\<close>; a service line has the shape
  of the stored one).  A required string that is missing is the empty string, which the
  validator treats alike; a number that may be \<^verbatim>\<open>null\<close> is an option; a date arrives parsed.
\<close>

record line_item_input =
  in_priority :: string
  in_shoes :: string
  in_due_date :: "js_date option"
  in_before_img :: "string option"
  in_after_img :: "string option"
  in_services :: "line_item_service list"
  in_storage_fee :: "rat option"
  in_current_location :: "string option"

record service_request_input =
  in_cust_name :: string
  in_cust_bdate :: "string option"
  in_cust_address :: "string option"
  in_cust_email :: "string option"
  in_cust_contact :: "string option"
  in_branch_id :: string
  in_received_by :: string
  in_total_amount :: "rat option"
  in_discount_amount :: "rat option"
  in_amount_paid :: "rat option"
  in_payment_status :: string
  in_payment_mode :: string
  in_date_in :: "js_date option"
  in_no_released :: "rat option"
  in_lineItems :: "line_item_input list"

definition PRIORITY_ENUM :: "string list" where
  "PRIORITY_ENUM = [''Rush'', ''Normal'']"

definition CURRENT_LOCATION_ENUM :: "string list" where
  "CURRENT_LOCATION_ENUM = [''Hub'', ''Branch'']"

definition PAYMENT_STATUS_ENUM :: "string list" where
  "PAYMENT_STATUS_ENUM = [''NP'', ''PARTIAL'', ''PAID'']"

definition PAYMENT_MODE_ENUM :: "string list" where
  "PAYMENT_MODE_ENUM = [''Cash'', ''Bank'', ''GCash'', ''Other'']"

text \<open>\<^verbatim>\<open>x || null\<close> on an optional string.\<close>

definition or_null :: "string option \<Rightarrow> string option" where
  "or_null so = (if truthy so then so else None)"

definition err_if :: "bool \<Rightarrow> string \<Rightarrow> string list" where
  "err_if b msg = (if b then [msg] else [])"

definition validate_service :: "nat \<Rightarrow> nat \<Rightarrow> line_item_service \<Rightarrow> string list" where
  "validate_service index svcIndex svc =
     (let loc = ''lineItems['' @ string_of_nat index @ ''].services['' @ string_of_nat svcIndex @ '']''
      in err_if (service_id svc = []) (loc @ ''.service_id is required'')
         @ err_if (quantity svc < 1) (loc @ ''.quantity must be a number >= 1''))"

definition validate_line_item :: "nat \<Rightarrow> line_item_input \<Rightarrow> string list" where
  "validate_line_item index item =
     (let loc = ''lineItems['' @ string_of_nat index @ '']''
      in err_if (in_priority item \<notin> set PRIORITY_ENUM)
           (loc @ ''.priority must be one of '' @ join_with '', '' PRIORITY_ENUM)
         @ err_if (in_shoes item = []) (loc @ ''.shoes is required'')
         @ (if in_services item = [] then [loc @ ''.services is required and cannot be empty'']
            else concat (map (\<lambda>(svcIndex, svc). validate_service index svcIndex svc)
                           (enumerate 0 (in_services item))))
         @ err_if (truthy (in_current_location item)
                   \<and> the_default [] (in_current_location item) \<notin> set CURRENT_LOCATION_ENUM)
             (loc @ ''.current_location must be one of '' @ join_with '', '' CURRENT_LOCATION_ENUM))"

definition validateServiceRequestInput :: "service_request_input \<Rightarrow> string list" where
  "validateServiceRequestInput data =
     err_if (in_cust_name data = []) ''cust_name is required''
     @ err_if (in_branch_id data = []) ''branch_id is required''
     @ err_if (in_received_by data = []) ''received_by is required''
     @ err_if (in_total_amount data = None) ''total_amount is required''
     @ err_if (in_discount_amount data = None) ''discount_amount is required''
     @ err_if (in_amount_paid data = None) ''amount_paid is required''
     @ err_if (in_payment_status data \<notin> set PAYMENT_STATUS_ENUM)
         (''payment_status must be one of '' @ join_with '', '' PAYMENT_STATUS_ENUM)
     @ err_if (in_payment_mode data \<notin> set PAYMENT_MODE_ENUM)
         (''payment_mode must be one of '' @ join_with '', '' PAYMENT_MODE_ENUM)
     @ (if in_lineItems data = [] then [''At least one line item is required'']
        else concat (map (\<lambda>(index, item). validate_line_item index item)
                       (enumerate 0 (in_lineItems data))))"

text \<open>\<^verbatim>\<open>[...new Set(xs)]\<close>: the distinct elements, in the order of their first occurrence.\<close>

definition unique_first :: "'a list \<Rightarrow> 'a list" where
  "unique_first xs = rev (remdups (rev xs))"

text \<open>
  Inserts of new documents.  Besides the fault plan, an insert fails on a duplicate of a
  unique key (\<^verbatim>\<open>cust_id\<close>, a non-null \<^verbatim>\<open>cust_email\<close>, \<^verbatim>\<open>line_item_id\<close>, \<^verbatim>\<open>transaction_id\<close>) and
  on \<^verbatim>\<open>received_by\<close> longer than 50 characters; the other schema constraints are implied
  by the validator.
\<close>

definition insert_customer :: "faults \<Rightarrow> customer \<Rightarrow> store \<Rightarrow> store option" where
  "insert_customer fl c st =
     (if fl WCustomer \<or> c_cust_id c \<in> set (map c_cust_id (coll_customers st))
         \<or> (cust_email c \<noteq> None \<and> cust_email c \<in> set (map cust_email (coll_customers st)))
      then None
      else Some (st\<lparr>coll_customers := coll_customers st @ [c]\<rparr>))"

definition insert_line_item :: "faults \<Rightarrow> nat \<Rightarrow> line_item \<Rightarrow> store \<Rightarrow> store option" where
  "insert_line_item fl i li st =
     (if fl (WLineItem i) \<or> li_line_item_id li \<in> set (map li_line_item_id (coll_line_items st))
      then None
      else Some (st\<lparr>coll_line_items := coll_line_items st @ [li]\<rparr>))"

definition insert_transaction :: "faults \<Rightarrow> transaction \<Rightarrow> store \<Rightarrow> store option" where
  "insert_transaction fl t st =
     (if fl WTransaction \<or> transaction_id t \<in> set (map transaction_id (coll_transactions st))
         \<or> length (received_by t) > 50
      then None
      else Some (st\<lparr>coll_transactions := coll_transactions st @ [t]\<rparr>))"

text \<open>Lines 286-321: the line items are built and saved in order; the first failure throws.\<close>

definition new_line_item ::
  "js_date \<Rightarrow> string \<Rightarrow> string \<Rightarrow> string \<Rightarrow> nat \<Rightarrow> line_item_input \<Rightarrow> line_item" where
  "new_line_item now transactionId custId branchId i item =
     \<lparr>li_line_item_id = generateLineItemId transactionId i,
      li_transaction_id = transactionId,
      priority = in_priority item,
      li_cust_id = custId,
      services = map (\<lambda>s. \<lparr>service_id = service_id s, quantity = quantity s\<rparr>) (in_services item),
      storage_fee = the_default 0 (in_storage_fee item),
      li_branch_id = branchId,
      shoes = in_shoes item,
      current_location = (if truthy (in_current_location item)
                          then the_default ''Branch'' (in_current_location item) else ''Branch''),
      current_status = ''Queued'',
      due_date = in_due_date item,
      latest_update = now,
      before_img = or_null (in_before_img item),
      after_img = or_null (in_after_img item)\<rparr>"

fun save_line_items ::
  "faults \<Rightarrow> js_date \<Rightarrow> string \<Rightarrow> string \<Rightarrow> string \<Rightarrow> nat \<Rightarrow> line_item_input list \<Rightarrow> store
     \<Rightarrow> (line_item list \<times> store) option" where
  "save_line_items fl now transactionId custId branchId i [] st = Some ([], st)"
| "save_line_items fl now transactionId custId branchId i (item # items) st =
     (let newLineItem = new_line_item now transactionId custId branchId i item
      in case insert_line_item fl i newLineItem st of
           None \<Rightarrow> None
         | Some st' \<Rightarrow>
             (case save_line_items fl now transactionId custId branchId (Suc i) items st' of
                None \<Rightarrow> None
              | Some (created, st'') \<Rightarrow> Some (newLineItem # created, st'')))"

datatype service_response =
  Created customer "line_item list" transaction
| Rejected nat "string list"

text \<open>Lines 260-278: the customer is looked up by name and birth date, or created.\<close>

definition resolve_customer ::
  "faults \<Rightarrow> store \<Rightarrow> nat \<Rightarrow> service_request_input \<Rightarrow> store \<Rightarrow> (customer \<times> store) option" where
  "resolve_customer fl committed bnum data st =
     (case findOne (\<lambda>c. cust_name c = in_cust_name data \<and> cust_bdate c = or_null (in_cust_bdate data))
             (coll_customers st) of
        Some c \<Rightarrow> Some (c, st)
      | None \<Rightarrow>
          (let c = \<lparr>c_cust_id = generateCustomerId (coll_customers committed) bnum,
                    cust_name = in_cust_name data,
                    cust_bdate = or_null (in_cust_bdate data),
                    cust_address = or_null (in_cust_address data),
                    cust_email = or_null (in_cust_email data),
                    cust_contact = or_null (in_cust_contact data),
                    total_services = 0,
                    total_expenditure = 0\<rparr>
           in case insert_customer fl c st of None \<Rightarrow> None | Some st' \<Rightarrow> Some (c, st')))"

text \<open>Lines 327-363: the transaction, with the initial payment when \<^verbatim>\<open>amount_paid > 0\<close>.\<close>

definition new_transaction ::
  "js_date \<Rightarrow> string \<Rightarrow> string \<Rightarrow> service_request_input \<Rightarrow> line_item list \<Rightarrow> transaction" where
  "new_transaction now transactionId custId data created =
     \<lparr>transaction_id = transactionId,
      line_item_id = map li_line_item_id created,
      branch_id = in_branch_id data,
      date_in = the_default now (in_date_in data),
      received_by = in_received_by data,
      date_out = None,
      cust_id = custId,
      no_pairs = of_nat (length created),
      no_released = the_default 0 (in_no_released data),
      total_amount = the_default 0 (in_total_amount data),
      discount_amount = the_default 0 (in_discount_amount data),
      amount_paid = the_default 0 (in_amount_paid data),
      payment_status = in_payment_status data,
      payments = [],
      payment_mode = in_payment_mode data\<rparr>"

definition save_transaction_with_payment ::
  "faults \<Rightarrow> js_date \<Rightarrow> store \<Rightarrow> string \<Rightarrow> service_request_input \<Rightarrow> transaction \<Rightarrow> store
     \<Rightarrow> (transaction \<times> store) option" where
  "save_transaction_with_payment fl now committed bc data trx st =
     (if the_default 0 (in_amount_paid data) > 0 then
        (let paymentId = generatePaymentId (coll_payments committed) bc;
             pay = \<lparr>payment_id = paymentId,
                    p_transaction_id = transaction_id trx,
                    payment_amount = the_default 0 (in_amount_paid data),
                    p_payment_mode = in_payment_mode data,
                    payment_date = now\<rparr>
         in case save_payment fl pay st of
              None \<Rightarrow> None
            | Some st' \<Rightarrow>
                (case insert_transaction fl (trx\<lparr>payments := [paymentId]\<rparr>) st' of
                   None \<Rightarrow> None
                 | Some st'' \<Rightarrow> Some (trx\<lparr>payments := [paymentId]\<rparr>, st'')))
      else (case insert_transaction fl trx st of
              None \<Rightarrow> None
            | Some st' \<Rightarrow> Some (trx, st')))"

text \<open>
  The controller.  As in \<^verbatim>\<open>applyPayment\<close>, the writes go to the session's copy; a thrown
  error (\<open>None\<close> below) is caught, the session is aborted and the committed store stays.
  The id generators query outside the session and see the committed store.
\<close>

definition createServiceRequest ::
  "faults \<Rightarrow> js_date \<Rightarrow> store \<Rightarrow> service_request_input \<Rightarrow> service_response \<times> store" where
  "createServiceRequest fl now db data =
     (let validationErrors = validateServiceRequestInput data
      in if validationErrors \<noteq> [] then (Rejected 400 validationErrors, db)
         else case findOne (\<lambda>b. b_branch_id b = in_branch_id data) (coll_branches db) of
           None \<Rightarrow> (Rejected 400 [''Branch not found''], db)
         | Some br \<Rightarrow>
             (let allServiceIds = concat (map (\<lambda>li. map service_id (in_services li)) (in_lineItems data));
                  uniqueServiceIds = unique_first allServiceIds;
                  existingIds = filter (\<lambda>s. s \<in> set uniqueServiceIds) (coll_services db);
                  invalidIds = filter (\<lambda>i. i \<notin> set existingIds) uniqueServiceIds
              in if invalidIds \<noteq> []
                 then (Rejected 400 [''Invalid service_id(s): '' @ join_with '', '' invalidIds], db)
                 else case resolve_customer fl db (branch_number br) data db of
                   None \<Rightarrow> (Rejected 500 [''storage error''], db)
                 | Some (cust, st1) \<Rightarrow>
                     (let transactionId = generateTransactionId (coll_transactions db) now (branch_code br)
                      in case save_line_items fl now transactionId (c_cust_id cust) (in_branch_id data) 0
                                (in_lineItems data) st1 of
                           None \<Rightarrow> (Rejected 500 [''storage error''], db)
                         | Some (createdLineItems, st2) \<Rightarrow>
                             (let trx = new_transaction now transactionId (c_cust_id cust) data
                                          createdLineItems
                              in case save_transaction_with_payment fl now db (branch_code br) data trx st2 of
                                   None \<Rightarrow> (Rejected 500 [''storage error''], db)
                                 | Some (saved, st3) \<Rightarrow>
                                     if fl WCommit then (Rejected 500 [''storage error''], db)
                                     else (Created cust createdLineItems saved, st3)))))"

definition ex_item :: line_item_input where
  "ex_item =
     \<lparr>in_priority = ''Normal'', in_shoes = ''sneakers'', in_due_date = None,
      in_before_img = None, in_after_img = None,
      in_services = [\<lparr>service_id = ''SVC-1'', quantity = 1\<rparr>], in_storage_fee = None,
      in_current_location = None\<rparr>"

definition ex_order :: service_request_input where
  "ex_order =
     \<lparr>in_cust_name = ''Ben'', in_cust_bdate = None, in_cust_address = None,
      in_cust_email = None, in_cust_contact = None, in_branch_id = ''VAL-B-NCR'',
      in_received_by = ''staff'', in_total_amount = Some 500, in_discount_amount = Some 0,
      in_amount_paid = Some 200, in_payment_status = ''PARTIAL'', in_payment_mode = ''Cash'',
      in_date_in = None, in_no_released = None,
      in_lineItems = [ex_item, ex_item\<lparr>in_shoes := ''boots''\<rparr>, ex_item\<lparr>in_shoes := ''heels''\<rparr>]\<rparr>"

definition transaction_write_fails :: faults where
  "transaction_write_fails = (\<lambda>w. w = WTransaction)"

definition third_item_write_fails :: faults where
  "third_item_write_fails = (\<lambda>w. w = WLineItem 2)"

definition ex_ben :: customer where
  "ex_ben =
     \<lparr>c_cust_id = ''CUST-1-2'', cust_name = ''Ben'', cust_bdate = None, cust_address = None,
      cust_email = None, cust_contact = None, total_services = 0, total_expenditure = 0\<rparr>"

definition ex_created_items :: "line_item list" where
  "ex_created_items =
     map (\<lambda>(i, item). new_line_item ex_now ''2025-03-00002-VAL'' ''CUST-1-2'' ''VAL-B-NCR'' i item)
       (enumerate 0 (in_lineItems ex_order))"

definition ex_created_transaction :: transaction where
  "ex_created_transaction =
     (new_transaction ex_now ''2025-03-00002-VAL'' ''CUST-1-2'' ex_order ex_created_items)
       \<lparr>payments := [''PAY-1-VAL'']\<rparr>"

definition ex_initial_payment :: payment where
  "ex_initial_payment =
     \<lparr>payment_id = ''PAY-1-VAL'', p_transaction_id = ''2025-03-00002-VAL'', payment_amount = 200,
      p_payment_mode = ''Cash'', payment_date = ex_now\<rparr>"

definition ex_store_after_order :: store where
  "ex_store_after_order =
     ex_store\<lparr>coll_customers := [ex_customer, ex_ben],
       coll_line_items := ex_line_item # ex_created_items,
       coll_transactions := [ex_transaction, ex_created_transaction],
       coll_payments := [ex_initial_payment]\<rparr>"

section \<open>Change notifier: \<^verbatim>\<open>initSocket\<close>\<close>

text \<open>
  The notifier is event driven.  Its state is the map \<^verbatim>\<open>activeStreams\<close> (event name to
  stream, kept as an association list in insertion order), the closure of every \<^verbatim>\<open>watchTarget\<close> call that opened a stream (the stream's
  target, the \<^verbatim>\<open>resumeAfter\<close> option it was opened with, \<^verbatim>\<open>currentToken\<close> and
  \<^verbatim>\<open>backoffDelay\<close>), the timers set by \<^verbatim>\<open>setTimeout\<close> and the events emitted to the clients.
  A resume token is a number; a change document carries its token (\<^verbatim>\<open>_id\<close>) and the item id
  that the slim delta would carry, if any.  Whether \<^verbatim>\<open>collection.watch\<close> throws is decided
  by the environment and comes with the event that leads to the call.
\<close>

record watch_target =
  collectionName :: string
  event :: string

definition WATCH_TARGETS :: "watch_target list" where
  "WATCH_TARGETS =
     [\<lparr>collectionName = ''line_items'', event = ''lineItemUpdated''\<rparr>,
      \<lparr>collectionName = ''appointments'', event = ''appointmentUpdated''\<rparr>,
      \<lparr>collectionName = ''unavailabilities'', event = ''unavailabilityUpdated''\<rparr>]"

record change_doc =
  ch_id :: nat
  ch_item_id :: "string option"

record change_stream =
  cs_target :: watch_target
  resumeAfter :: "nat option"
  currentToken :: "nat option"
  backoffDelay :: nat
  closed :: bool

datatype timer =
  RestartTimer nat nat
| RetryTimer watch_target "nat option" nat

record notifier =
  streams :: "nat \<rightharpoonup> change_stream"
  activeStreams :: "(string \<times> nat) list"
  timers :: "timer list"
  next_stream :: nat
  emitted :: "(string \<times> nat) list"

datatype notifier_event =
  Change nat change_doc
| StreamError nat
| StreamClose nat
| TimerFired nat bool
| Disconnected
| Reconnected "string \<Rightarrow> bool"

definition backoff_floor :: nat where
  "backoff_floor = 1000"

definition backoff_cap :: nat where
  "backoff_cap = 30000"

text \<open>
  \<^verbatim>\<open>watchTarget(target, resumeToken, retryDelay)\<close>: when \<^verbatim>\<open>watch\<close> throws, a retry is set
  after \<open>min (retryDelay * 2) cap\<close>; otherwise the new stream becomes the active one of
  its event, with \<^verbatim>\<open>currentToken = resumeToken\<close> and \<^verbatim>\<open>backoffDelay = retryDelay\<close>.
\<close>

definition watchTarget :: "notifier \<Rightarrow> watch_target \<Rightarrow> nat option \<Rightarrow> nat \<Rightarrow> bool \<Rightarrow> notifier" where
  "watchTarget st target resumeToken retryDelay watch_ok =
     (if \<not> watch_ok then
        (let nextDelay = min (retryDelay * 2) backoff_cap
         in st\<lparr>timers := timers st @ [RetryTimer target resumeToken nextDelay]\<rparr>)
      else
        (let sid = next_stream st;
             stream = \<lparr>cs_target = target, resumeAfter = resumeToken, currentToken = resumeToken,
                       backoffDelay = retryDelay, closed = False\<rparr>
         in st\<lparr>streams := (streams st)(sid \<mapsto> stream),
               activeStreams := AList.update (event target) sid (activeStreams st),
               next_stream := Suc sid\<rparr>))"

text \<open>\<^verbatim>\<open>scheduleRestart\<close>, called by the \<^verbatim>\<open>error\<close> and \<^verbatim>\<open>close\<close> handlers of stream \<open>sid\<close>.\<close>

definition scheduleRestart :: "notifier \<Rightarrow> nat \<Rightarrow> notifier" where
  "scheduleRestart st sid =
     (case streams st sid of
        None \<Rightarrow> st
      | Some s \<Rightarrow>
          if map_of (activeStreams st) (event (cs_target s)) \<noteq> Some sid then st
          else
            (let nextDelay = min (backoffDelay s * 2) backoff_cap
             in st\<lparr>activeStreams := AList.delete (event (cs_target s)) (activeStreams st),
                   streams := (streams st)(sid \<mapsto> s\<lparr>closed := True\<rparr>),
                   timers := timers st @ [RestartTimer sid nextDelay]\<rparr>))"

text \<open>The \<^verbatim>\<open>change\<close> handler of stream \<open>sid\<close>.\<close>

definition on_change :: "notifier \<Rightarrow> nat \<Rightarrow> change_doc \<Rightarrow> notifier" where
  "on_change st sid change =
     (case streams st sid of
        None \<Rightarrow> st
      | Some s \<Rightarrow>
          st\<lparr>streams := (streams st)(sid \<mapsto> s\<lparr>currentToken := Some (ch_id change),
                                                backoffDelay := backoff_floor\<rparr>),
             emitted := emitted st
               @ [(event (cs_target s), ch_id change)]
               @ (if collectionName (cs_target s) = ''line_items'' \<and> truthy (ch_item_id change)
                  then [(''lineItemDelta'', ch_id change)] else [])\<rparr>)"

definition close_stream :: "notifier \<Rightarrow> nat \<Rightarrow> notifier" where
  "close_stream st sid =
     (case streams st sid of
        None \<Rightarrow> st
      | Some s \<Rightarrow> st\<lparr>streams := (streams st)(sid \<mapsto> s\<lparr>closed := True\<rparr>)\<rparr>)"

text \<open>\<^verbatim>\<open>openAllStreams\<close>: each target's stream is closed and dropped, and opened afresh.\<close>

definition reopen_target :: "(string \<Rightarrow> bool) \<Rightarrow> notifier \<Rightarrow> watch_target \<Rightarrow> notifier" where
  "reopen_target watch_ok st target =
     (let st1 = (case map_of (activeStreams st) (event target) of
                   None \<Rightarrow> st
                 | Some sid \<Rightarrow> close_stream st sid);
          st2 = st1\<lparr>activeStreams := AList.delete (event target) (activeStreams st1)\<rparr>
      in watchTarget st2 target None backoff_floor (watch_ok (collectionName target)))"

definition openAllStreams :: "(string \<Rightarrow> bool) \<Rightarrow> notifier \<Rightarrow> notifier" where
  "openAllStreams watch_ok st = foldl (reopen_target watch_ok) st WATCH_TARGETS"

text \<open>The \<^verbatim>\<open>disconnected\<close> handler: every active stream is closed and the map cleared.\<close>

definition on_disconnected :: "notifier \<Rightarrow> notifier" where
  "on_disconnected st =
     (foldl close_stream st (map snd (activeStreams st)))\<lparr>activeStreams := []\<rparr>"

text \<open>A timer fires: it is dropped from the pending ones and its \<^verbatim>\<open>watchTarget\<close> call runs.\<close>

definition on_timer :: "notifier \<Rightarrow> nat \<Rightarrow> bool \<Rightarrow> notifier" where
  "on_timer st k watch_ok =
     (if k < length (timers st) then
        (let st' = st\<lparr>timers := take k (timers st) @ drop (Suc k) (timers st)\<rparr>
         in case timers st ! k of
              RestartTimer sid nextDelay \<Rightarrow>
                (case streams st sid of
                   None \<Rightarrow> st'
                 | Some s \<Rightarrow> watchTarget st' (cs_target s) (currentToken s) nextDelay watch_ok)
            | RetryTimer target resumeToken nextDelay \<Rightarrow>
                watchTarget st' target resumeToken nextDelay watch_ok)
      else st)"

fun notifier_step :: "notifier \<Rightarrow> notifier_event \<Rightarrow> notifier" where
  "notifier_step st (Change sid change) = on_change st sid change"
| "notifier_step st (StreamError sid) = scheduleRestart st sid"
| "notifier_step st (StreamClose sid) = scheduleRestart st sid"
| "notifier_step st (TimerFired k watch_ok) = on_timer st k watch_ok"
| "notifier_step st Disconnected = on_disconnected st"
| "notifier_step st (Reconnected watch_ok) = openAllStreams watch_ok st"

definition notifier_init :: notifier where
  "notifier_init =
     \<lparr>streams = Map.empty, activeStreams = [], timers = [], next_stream = 0, emitted = []\<rparr>"

definition initSocket :: "(string \<Rightarrow> bool) \<Rightarrow> notifier" where
  "initSocket watch_ok = openAllStreams watch_ok notifier_init"

definition watch_succeeds :: "string \<Rightarrow> bool" where
  "watch_succeeds c = True"

text \<open>
  Two facts about \<^verbatim>\<open>activeStreams\<close> that hold from \<^verbatim>\<open>initSocket\<close> on: it only holds streams
  that were opened, and no stream is registered under two events.
\<close>

definition active_wf :: "notifier \<Rightarrow> bool" where
  "active_wf st =
     ((\<forall>e sid. map_of (activeStreams st) e = Some sid \<longrightarrow> sid < next_stream st)
      \<and> (\<forall>e1 e2 sid. map_of (activeStreams st) e1 = Some sid
             \<and> map_of (activeStreams st) e2 = Some sid \<longrightarrow> e1 = e2))"

text \<open>A target's subscription is open and fresh: nothing to resume from, backoff at the floor.\<close>

definition fresh_active :: "notifier \<Rightarrow> watch_target \<Rightarrow> bool" where
  "fresh_active st target =
     (case map_of (activeStreams st) (event target) of
        None \<Rightarrow> False
      | Some sid \<Rightarrow>
          (case streams st sid of
             None \<Rightarrow> False
           | Some s \<Rightarrow> cs_target s = target \<and> resumeAfter s = None \<and> currentToken s = None
                        \<and> backoffDelay s = backoff_floor \<and> \<not> closed s))"

text \<open>The notifier after a sequence of events.\<close>

definition run_notifier :: "notifier \<Rightarrow> notifier_event list \<Rightarrow> notifier" where
  "run_notifier st evs = foldl notifier_step st evs"

definition ex_change :: change_doc where
  "ex_change = \<lparr>ch_id = 42, ch_item_id = Some ''2025-03-00001-001-VAL''\<rparr>"

definition ex_line_items_target :: watch_target where
  "ex_line_items_target = \<lparr>collectionName = ''line_items'', event = ''lineItemUpdated''\<rparr>"

definition ex_fresh_stream :: change_stream where
  "ex_fresh_stream =
     \<lparr>cs_target = ex_line_items_target, resumeAfter = None, currentToken = None,
      backoffDelay = 1000, closed = False\<rparr>"

definition ex_delivered_stream :: change_stream where
  "ex_delivered_stream = ex_fresh_stream\<lparr>currentToken := Some 42, backoffDelay := 1000\<rparr>"

definition ex_resumed_stream :: change_stream where
  "ex_resumed_stream =
     \<lparr>cs_target = ex_line_items_target, resumeAfter = Some 42, currentToken = Some 42,
      backoffDelay = 2000, closed = False\<rparr>"

text \<open>
  A run in which the datastore drops and comes back while a restart is pending: a change
  (token 42) is delivered on \<^verbatim>\<open>line_items\<close>, its stream fails, the datastore disconnects and
  reconnects, and then the restart timer of the failed stream fires.
\<close>

definition ex_reconnected :: notifier where
  "ex_reconnected =
     run_notifier (initSocket watch_succeeds)
       [Change 0 ex_change, StreamError 0, Disconnected, Reconnected watch_succeeds]"

definition ex_leaked :: notifier where
  "ex_leaked = notifier_step ex_reconnected (TimerFired 0 True)"

definition ex_next_change :: change_doc where
  "ex_next_change = \<lparr>ch_id = 43, ch_item_id = Some ''2025-03-00001-001-VAL''\<rparr>"

section \<open>Properties of the identifier allocator\<close>

lemmas js_string_defs = string_of_nat.simps digit_char_def is_digit_def digits_val_def digit_val_def
  padStart_def string_of_succ_def string_of_int_def nth_opt_def part_or_undefined_def

lemma replicate_small:
  "replicate 1 c = [c]" "replicate 2 c = [c, c]" "replicate 3 c = [c, c, c]"
  "replicate 4 c = [c, c, c, c]"
  by (simp_all add: numeral_eq_Suc)

lemma greatest_Nil: "greatest [] = None"
  by (simp add: greatest_def)

lemma yearMonth_march_2025:
  "getFullYear now = 2025 \<Longrightarrow> getMonth now = 2 \<Longrightarrow> yearMonth_of now = ''2025-03''"
  by (simp add: yearMonth_of_def js_string_defs)

lemma first_transaction_id:
  assumes "getFullYear now = 2025" "getMonth now = 2"
    and "filter (transaction_id_matches ''2025-03'' ''VAL'') (map transaction_id txs) = []"
  shows "generateTransactionId txs now ''VAL'' = ''2025-03-00001-VAL''"
proof -
  have ym: "yearMonth_of now = ''2025-03''"
    using assms(1,2) by (rule yearMonth_march_2025)
  show ?thesis
    by (simp add: generateTransactionId_def ym assms(3) greatest_Nil js_string_defs replicate_small)
qed

lemma first_line_item_id:
  "generateLineItemId ''2025-03-00001-VAL'' 0 = ''2025-03-00001-001-VAL''"
  by (simp add: generateLineItemId_def js_string_defs replicate_small)

text \<open>
  Claim C5.  When the branch code is \<^verbatim>\<open>VAL\<close>, the clock reads March 2025 and the query of
  \<^verbatim>\<open>generateTransactionId\<close> finds no transaction of that month and branch, the allocated
  transaction id is exactly \<^verbatim>\<open>2025-03-00001-VAL\<close>, and the id derived for its first line
  item (index 0) is exactly \<^verbatim>\<open>2025-03-00001-001-VAL\<close>.
\<close>

theorem identifier_formats_stable:
  assumes "getFullYear now = 2025" and "getMonth now = 2"
    and "filter (transaction_id_matches ''2025-03'' ''VAL'') (map transaction_id txs) = []"
  shows "generateTransactionId txs now ''VAL'' = ''2025-03-00001-VAL''
         \<and> generateLineItemId (generateTransactionId txs now ''VAL'') 0 = ''2025-03-00001-001-VAL''"
  using first_transaction_id [OF assms] first_line_item_id by simp

theorem identifier_formats_stable_witness:
  "getFullYear ex_now = 2025 \<and> getMonth ex_now = 2
   \<and> filter (transaction_id_matches ''2025-03'' ''VAL'') (map transaction_id [ex_february]) = []
   \<and> generateTransactionId [ex_february] ex_now ''VAL'' = ''2025-03-00001-VAL''
   \<and> generateLineItemId (generateTransactionId [ex_february] ex_now ''VAL'') 0
       = ''2025-03-00001-001-VAL''"
proof -
  have y: "getFullYear ex_now = 2025" and m: "getMonth ex_now = 2"
    by (simp_all add: ex_now_def)
  have q: "filter (transaction_id_matches ''2025-03'' ''VAL'') (map transaction_id [ex_february]) = []"
    by (simp add: ex_february_def ex_transaction_def transaction_id_matches_def is_digit_def)
  from identifier_formats_stable [OF y m q] y m q show ?thesis
    by blast
qed










section \<open>Properties of the payment ledger\<close>

lemma findOne_replace_first:
  "findOne P xs = Some x \<Longrightarrow> P y \<Longrightarrow> findOne P (replace_first P y xs) = Some y"
  by (induction xs) (auto simp: findOne_def)

lemma findOne_holds: "findOne P xs = Some x \<Longrightarrow> P x"
  by (auto simp: findOne_def find_Some_iff)

lemma attach_payment_fields [simp]:
  "transaction_id (attach_payment pid t) = transaction_id t"
  "no_pairs (attach_payment pid t) = no_pairs t"
  "no_released (attach_payment pid t) = no_released t"
  "total_amount (attach_payment pid t) = total_amount t"
  "amount_paid (attach_payment pid t) = amount_paid t"
  "date_out (attach_payment pid t) = date_out t"
  "payment_mode (attach_payment pid t) = payment_mode t"
  "payment_status (attach_payment pid t) = payment_status t"
  by (simp_all add: attach_payment_def)

lemma create_payment_result:
  "fst (create_payment fl now c mo d t st) = t
   \<or> (\<exists>pid. fst (create_payment fl now c mo d t st) = attach_payment pid t)"
  by (auto simp: create_payment_def Let_def split: option.splits)

lemma record_payment_result:
  "fst (record_payment fl now c body d t st) = t
   \<or> (\<exists>pid. fst (record_payment fl now c body d t st) = attach_payment pid t)"
  using create_payment_result [of fl now c "modeOfPayment body" d t st]
  by (auto simp: record_payment_def split: option.splits)

lemma record_payment_fields [simp]:
  "transaction_id (fst (record_payment fl now c body d t st)) = transaction_id t"
  "no_pairs (fst (record_payment fl now c body d t st)) = no_pairs t"
  "no_released (fst (record_payment fl now c body d t st)) = no_released t"
  "total_amount (fst (record_payment fl now c body d t st)) = total_amount t"
  "amount_paid (fst (record_payment fl now c body d t st)) = amount_paid t"
  "date_out (fst (record_payment fl now c body d t st)) = date_out t"
  "payment_mode (fst (record_payment fl now c body d t st)) = payment_mode t"
  "payment_status (fst (record_payment fl now c body d t st)) = payment_status t"
  using record_payment_result [of fl now c body d t st] by auto

lemma create_payment_transactions [simp]:
  "coll_transactions (snd (create_payment fl now c mo d t st)) = coll_transactions st"
  by (auto simp: create_payment_def save_payment_def Let_def split: option.splits)

lemma record_payment_transactions [simp]:
  "coll_transactions (snd (record_payment fl now c body d t st)) = coll_transactions st"
  by (auto simp: record_payment_def split: option.splits)

lemma release_line_item_transactions:
  "release_line_item fl body t st = Inr st' \<Longrightarrow> coll_transactions st' = coll_transactions st"
  by (auto simp: release_line_item_def Let_def split: option.splits if_splits)

lemma update_payment_mode_fields [simp]:
  "transaction_id (update_payment_mode mo t) = transaction_id t"
  "no_pairs (update_payment_mode mo t) = no_pairs t"
  "no_released (update_payment_mode mo t) = no_released t"
  "total_amount (update_payment_mode mo t) = total_amount t"
  "amount_paid (update_payment_mode mo t) = amount_paid t"
  "date_out (update_payment_mode mo t) = date_out t"
  "payments (update_payment_mode mo t) = payments t"
  by (simp_all add: update_payment_mode_def split: option.splits)

lemma set_payment_status_fields [simp]:
  "transaction_id (set_payment_status ps t) = transaction_id t"
  "no_pairs (set_payment_status ps t) = no_pairs t"
  "no_released (set_payment_status ps t) = no_released t"
  "total_amount (set_payment_status ps t) = total_amount t"
  "amount_paid (set_payment_status ps t) = amount_paid t"
  "date_out (set_payment_status ps t) = date_out t"
  "payments (set_payment_status ps t) = payments t"
  "payment_mode (set_payment_status ps t) = payment_mode t"
  by (simp_all add: set_payment_status_def split: option.splits)

lemma paid_transaction_fields:
  "transaction_id (paid_transaction fl now db body d t) = transaction_id t"
  "no_pairs (paid_transaction fl now db body d t) = no_pairs t"
  "total_amount (paid_transaction fl now db body d t) = total_amount t"
  "no_released (paid_transaction fl now db body d t) =
     (if markPickedUp body then no_released t + 1 else no_released t)"
  "amount_paid (paid_transaction fl now db body d t) =
     (if amount_paid t + d > total_amount t then total_amount t else amount_paid t + d)"
  "date_out (paid_transaction fl now db body d t) =
     (if markPickedUp body \<and> no_pairs t \<le> no_released t + 1 then Some now else date_out t)"
  by (simp_all add: paid_transaction_def staged_transaction_def set_date_out_def add_due_def
      bump_released_def Let_def)

lemma applyPayment_passed:
  assumes "tid \<noteq> []" "dueNow body = Some d" "customerPaid body \<noteq> None"
    and "findOne (\<lambda>t. transaction_id t = tid) (coll_transactions db) = Some t"
    and "\<not> status_rejected (req_payment_status body)" "\<not> fl WTransaction"
  shows "applyPayment fl now db tid body =
     (case release_line_item fl body (paid_transaction fl now db body d t)
             (session_after_save fl now db tid body d t) of
        Inl e \<Rightarrow> (Err (fst e) (snd e), db)
      | Inr st3 \<Rightarrow> if fl WCommit then (Err 500 ''storage error'', db)
                   else (Ok 200 (paid_transaction fl now db body d t), st3))"
  using assms
  unfolding applyPayment_def paid_transaction_def session_after_save_def staged_transaction_def Let_def
  by auto

lemma applyPayment_refused:
  assumes "tid = [] \<or> dueNow body = None \<or> customerPaid body = None
           \<or> findOne (\<lambda>t. transaction_id t = tid) (coll_transactions db) = None
           \<or> status_rejected (req_payment_status body) \<or> fl WTransaction"
  shows "\<exists>c m. applyPayment fl now db tid body = (Err c m, db)"
  using assms by (auto simp: applyPayment_def Let_def split: option.splits)

text \<open>
  A call either answers with an error and leaves the store as it was, or answers 200 with
  the updated transaction, which is then the stored one.
\<close>

lemma applyPayment_cases:
  assumes "stored_transaction db tid = Some t"
  shows "(\<exists>c m. applyPayment fl now db tid body = (Err c m, db))
         \<or> (\<exists>d st. dueNow body = Some d
                \<and> applyPayment fl now db tid body = (Ok 200 (paid_transaction fl now db body d t), st)
                \<and> stored_transaction st tid = Some (paid_transaction fl now db body d t))"
proof (cases "tid = [] \<or> dueNow body = None \<or> customerPaid body = None
           \<or> status_rejected (req_payment_status body) \<or> fl WTransaction")
  case True
  then show ?thesis using applyPayment_refused [of tid body db fl now] by blast
next
  case False
  then obtain d where d: "dueNow body = Some d" by auto
  let ?t3 = "paid_transaction fl now db body d t"
  let ?st2 = "session_after_save fl now db tid body d t"
  from assms have found: "findOne (\<lambda>t. transaction_id t = tid) (coll_transactions db) = Some t"
    by (simp add: stored_transaction_def)
  then have tid: "transaction_id t = tid" by (auto dest: findOne_holds)
  have st2: "findOne (\<lambda>t. transaction_id t = tid) (coll_transactions ?st2) = Some ?t3"
    using found tid
    by (simp add: session_after_save_def findOne_replace_first paid_transaction_fields)
  have eq: "applyPayment fl now db tid body =
     (case release_line_item fl body ?t3 ?st2 of
        Inl e \<Rightarrow> (Err (fst e) (snd e), db)
      | Inr st3 \<Rightarrow> if fl WCommit then (Err 500 ''storage error'', db) else (Ok 200 ?t3, st3))"
    using False d found by (intro applyPayment_passed) auto
  show ?thesis
  proof (cases "release_line_item fl body ?t3 ?st2")
    case (Inl e)
    then show ?thesis by (simp add: eq)
  next
    case (Inr st3)
    then have "coll_transactions st3 = coll_transactions ?st2"
      by (rule release_line_item_transactions)
    with st2 have "stored_transaction st3 tid = Some ?t3"
      by (simp add: stored_transaction_def)
    then show ?thesis using d Inr by (simp add: eq)
  qed
qed

lemma applyPayment_step:
  assumes "stored_transaction db tid = Some t"
  shows "snd (applyPayment fl now db tid body) = db
         \<or> (\<exists>d. dueNow body = Some d
                \<and> fst (applyPayment fl now db tid body) = Ok 200 (paid_transaction fl now db body d t)
                \<and> stored_transaction (snd (applyPayment fl now db tid body)) tid
                    = Some (paid_transaction fl now db body d t))"
  using applyPayment_cases [OF assms, of fl now body] by auto

lemma applyPayment_ok:
  assumes "stored_transaction db tid = Some t"
    and "fst (applyPayment fl now db tid body) = Ok c t'"
  shows "\<exists>d. dueNow body = Some d \<and> t' = paid_transaction fl now db body d t \<and> c = 200
             \<and> stored_transaction (snd (applyPayment fl now db tid body)) tid = Some t'"
  using applyPayment_cases [OF assms(1), of fl now body] assms(2) by auto

lemma record_payment_line_items [simp]:
  "coll_line_items (snd (record_payment fl now c body d t st)) = coll_line_items st"
  by (auto simp: record_payment_def create_payment_def save_payment_def Let_def split: option.splits)

lemma record_payment_branches [simp]:
  "coll_branches (snd (record_payment fl now c body d t st)) = coll_branches st"
  by (auto simp: record_payment_def create_payment_def save_payment_def Let_def split: option.splits)

lemma session_after_save_fields:
  "coll_line_items (session_after_save fl now db tid body d t) = coll_line_items db"
  "coll_customers (session_after_save fl now db tid body d t) = coll_customers db"
  "coll_branches (session_after_save fl now db tid body d t) = coll_branches db"
  "coll_payments (session_after_save fl now db tid body d t)
     = coll_payments (snd (record_payment fl now db body d (staged_transaction body d t) db))"
  by (simp_all add: session_after_save_def record_payment_def create_payment_def save_payment_def
      Let_def split: option.splits)

lemma release_line_item_skipped:
  "\<not> markPickedUp body \<or> \<not> truthy (lineItemId body) \<Longrightarrow> release_line_item fl body t st = Inr st"
  by (auto simp: release_line_item_def truthy_def split: option.splits)

lemma release_line_item_missing:
  assumes "markPickedUp body" "lineItemId body = Some lid" "lid \<noteq> []"
    and "findOne (\<lambda>li. li_line_item_id li = lid) (coll_line_items st) = None"
  shows "release_line_item fl body t st = Inl (404, ''Line item not found'')"
  using assms by (simp add: release_line_item_def)

lemma release_line_item_done:
  assumes "markPickedUp body" "lineItemId body = Some lid" "lid \<noteq> []"
    and "findOne (\<lambda>li. li_line_item_id li = lid) (coll_line_items st) = Some li"
    and "\<not> fl (WLineItem 0)" "\<not> fl WCustomer"
  shows "\<exists>st'. release_line_item fl body t st = Inr st'
           \<and> findOne (\<lambda>li. li_line_item_id li = lid) (coll_line_items st')
                = Some (li\<lparr>current_status := ''Picked Up''\<rparr>)
           \<and> coll_payments st' = coll_payments st
           \<and> coll_transactions st' = coll_transactions st
           \<and> (\<forall>c. findOne (\<lambda>c. c_cust_id c = cust_id t) (coll_customers st) = Some c \<longrightarrow>
                 findOne (\<lambda>c. c_cust_id c = cust_id t) (coll_customers st')
                   = Some (c\<lparr>total_services := total_services c + 1,
                            total_expenditure := total_expenditure c + total_amount t\<rparr>))"
proof -
  have id: "li_line_item_id li = lid" using assms(4) by (auto dest: findOne_holds)
  have li: "findOne (\<lambda>li. li_line_item_id li = lid)
              (replace_first (\<lambda>li. li_line_item_id li = lid) (li\<lparr>current_status := ''Picked Up''\<rparr>)
                 (coll_line_items st)) = Some (li\<lparr>current_status := ''Picked Up''\<rparr>)"
    by (rule findOne_replace_first [OF assms(4)]) (simp add: id)
  show ?thesis
  proof (cases "findOne (\<lambda>c. c_cust_id c = cust_id t) (coll_customers st)")
    case None
    then show ?thesis using assms li by (simp add: release_line_item_def Let_def)
  next
    case (Some c)
    have cid: "c_cust_id c = cust_id t" using Some by (auto dest: findOne_holds)
    have "findOne (\<lambda>c. c_cust_id c = cust_id t)
              (replace_first (\<lambda>c. c_cust_id c = cust_id t)
                 (c\<lparr>total_services := total_services c + 1,
                    total_expenditure := total_expenditure c + total_amount t\<rparr>)
                 (coll_customers st))
            = Some (c\<lparr>total_services := total_services c + 1,
                      total_expenditure := total_expenditure c + total_amount t\<rparr>)"
      by (rule findOne_replace_first [OF Some]) (simp add: cid)
    then show ?thesis using assms li Some by (simp add: release_line_item_def Let_def)
  qed
qed

lemma applyPayment_succeeds:
  assumes "stored_transaction db tid = Some t" "tid \<noteq> []" "dueNow body = Some d"
    and "customerPaid body \<noteq> None" "\<not> status_rejected (req_payment_status body)"
    and "\<not> fl WTransaction" "\<not> fl WCommit"
    and "release_line_item fl body (paid_transaction fl now db body d t)
           (session_after_save fl now db tid body d t) = Inr st"
  shows "applyPayment fl now db tid body = (Ok 200 (paid_transaction fl now db body d t), st)"
    and "stored_transaction st tid = Some (paid_transaction fl now db body d t)"
proof -
  from assms(1) have found: "findOne (\<lambda>t. transaction_id t = tid) (coll_transactions db) = Some t"
    by (simp add: stored_transaction_def)
  show eq: "applyPayment fl now db tid body = (Ok 200 (paid_transaction fl now db body d t), st)"
    using assms found by (simp add: applyPayment_passed [of tid body d db t fl now])
  from applyPayment_ok [OF assms(1), of fl now body 200 "paid_transaction fl now db body d t"] eq
  show "stored_transaction st tid = Some (paid_transaction fl now db body d t)" by auto
qed

lemma trace_invariant:
  assumes step: "\<And>t body d fl now db. I t \<Longrightarrow> Q body \<Longrightarrow> dueNow body = Some d
                   \<Longrightarrow> I (paid_transaction fl now db body d t)"
    and "stored_transaction db tid = Some t" "I t" "\<forall>c \<in> set calls. Q (snd (snd c))"
  shows "\<forall>s \<in> set (applyPayment_trace db tid calls). \<exists>t'. stored_transaction s tid = Some t' \<and> I t'"
  using assms(2-)
proof (induction calls arbitrary: db t)
  case Nil
  then show ?case by simp
next
  case (Cons c cs)
  let ?db' = "snd (applyPayment (fst c) (fst (snd c)) db tid (snd (snd c)))"
  have "\<exists>t'. stored_transaction ?db' tid = Some t' \<and> I t'"
    using applyPayment_step [OF Cons.prems(1), of "fst c" "fst (snd c)" "snd (snd c)"]
      Cons.prems step by auto
  then obtain t' where t': "stored_transaction ?db' tid = Some t'" "I t'" by blast
  have "\<forall>s \<in> set (applyPayment_trace ?db' tid cs). \<exists>t'. stored_transaction s tid = Some t' \<and> I t'"
    using Cons.IH [OF t'] Cons.prems(3) by simp
  then show ?case using Cons.prems(1,2) by simp
qed

lemma last_trace_Cons:
  "last (applyPayment_trace db tid (c # cs)) =
     last (applyPayment_trace (snd (applyPayment (fst c) (fst (snd c)) db tid (snd (snd c)))) tid cs)"
  by (cases cs) simp_all

lemma trace_nonempty: "applyPayment_trace db tid calls \<noteq> []"
  by (cases calls) simp_all

lemma Ints_less_add1:
  fixes x y :: rat
  assumes "x \<in> \<int>" "y \<in> \<int>" "x < y"
  shows "x + 1 \<le> y"
proof -
  from assms(1,2) obtain i j where ij: "x = of_int i" "y = of_int j"
    by (auto elim!: Ints_cases)
  with assms(3) have "i + 1 \<le> j" by simp
  then have "(of_int (i + 1) :: rat) \<le> of_int j" by (simp only: of_int_le_iff)
  then show ?thesis by (simp add: ij)
qed

lemma released_trace:
  assumes "stored_transaction db tid = Some t" "no_released t \<le> no_pairs t"
    and "no_released t \<in> \<int>" "no_pairs t \<in> \<int>"
  shows "\<exists>t'. stored_transaction (last (applyPayment_trace db tid calls)) tid = Some t'
           \<and> no_pairs t' = no_pairs t \<and> no_released t \<le> no_released t'
           \<and> (no_pairs t' \<le> no_released t'
                \<longleftrightarrow> (\<exists>s \<in> set (applyPayment_trace db tid calls).
                       \<exists>u. stored_transaction s tid = Some u \<and> no_released u = no_pairs u))"
  using assms
proof (induction calls arbitrary: db t)
  case Nil
  then show ?case by auto
next
  case (Cons c cs)
  let ?db' = "snd (applyPayment (fst c) (fst (snd c)) db tid (snd (snd c)))"
  let ?tr = "applyPayment_trace ?db' tid cs"
  let ?hit = "\<lambda>s. \<exists>u. stored_transaction s tid = Some u \<and> no_released u = no_pairs u"
  show ?case
  proof (cases "no_released t = no_pairs t")
    case True
    have mono: "\<forall>s \<in> set (applyPayment_trace db tid (c # cs)).
                  \<exists>t'. stored_transaction s tid = Some t'
                       \<and> (no_pairs t' = no_pairs t \<and> no_released t \<le> no_released t')"
      by (rule trace_invariant [where Q = "\<lambda>_. True"
              and I = "\<lambda>t'. no_pairs t' = no_pairs t \<and> no_released t \<le> no_released t'"])
         (use Cons.prems(1) in \<open>auto simp: paid_transaction_fields\<close>)
    have "last (applyPayment_trace db tid (c # cs)) \<in> set (applyPayment_trace db tid (c # cs))"
      by (rule last_in_set) (rule trace_nonempty)
    with mono obtain t' where t': "stored_transaction (last (applyPayment_trace db tid (c # cs))) tid = Some t'"
      "no_pairs t' = no_pairs t" "no_released t \<le> no_released t'" by blast
    have "?hit db" using Cons.prems(1) True by simp
    then have "\<exists>s \<in> set (applyPayment_trace db tid (c # cs)). ?hit s" by auto
    with t' True show ?thesis by auto
  next
    case False
    with Cons.prems have lt: "no_released t < no_pairs t" by simp
    have suc: "no_released t + 1 \<le> no_pairs t"
      using Cons.prems(3,4) lt by (rule Ints_less_add1)
    have "\<exists>t1. stored_transaction ?db' tid = Some t1 \<and> no_pairs t1 = no_pairs t
              \<and> no_released t \<le> no_released t1 \<and> no_released t1 \<le> no_pairs t1
              \<and> no_released t1 \<in> \<int>"
      using applyPayment_step [OF Cons.prems(1), of "fst c" "fst (snd c)" "snd (snd c)"] lt suc
        Cons.prems(1,3)
      by (auto simp: paid_transaction_fields)
    then obtain t1 where t1: "stored_transaction ?db' tid = Some t1" "no_pairs t1 = no_pairs t"
      "no_released t \<le> no_released t1" "no_released t1 \<le> no_pairs t1" "no_released t1 \<in> \<int>"
      by blast
    have "no_pairs t1 \<in> \<int>" using t1(2) Cons.prems(4) by simp
    from Cons.IH [OF t1(1) t1(4) t1(5) this] obtain t' where
      t': "stored_transaction (last ?tr) tid = Some t'" "no_pairs t' = no_pairs t1"
        "no_released t1 \<le> no_released t'"
        "no_pairs t' \<le> no_released t' \<longleftrightarrow> (\<exists>s \<in> set ?tr. ?hit s)" by blast
    have "\<not> ?hit db" using Cons.prems(1) False by simp
    then have iff: "(\<exists>s \<in> set (applyPayment_trace db tid (c # cs)). ?hit s) \<longleftrightarrow> (\<exists>s \<in> set ?tr. ?hit s)"
      by auto
    have "stored_transaction (last (applyPayment_trace db tid (c # cs))) tid = Some t'"
      using t'(1) by (simp only: last_trace_Cons)
    moreover have "no_pairs t' = no_pairs t" using t'(2) t1(2) by simp
    moreover have "no_released t \<le> no_released t'" using t'(3) t1(3) by simp
    moreover have "no_pairs t' \<le> no_released t'
                     \<longleftrightarrow> (\<exists>s \<in> set (applyPayment_trace db tid (c # cs)). ?hit s)"
      using t'(4) iff by blast
    ultimately show ?thesis by blast
  qed
qed

lemma counters_trace:
  assumes "stored_transaction db tid = Some t"
  shows "\<forall>s \<in> set (applyPayment_trace db tid calls).
           \<exists>t'. stored_transaction s tid = Some t'
                \<and> (no_pairs t' = no_pairs t \<and> no_released t \<le> no_released t')"
  by (rule trace_invariant [where Q = "\<lambda>_. True"
         and I = "\<lambda>t'. no_pairs t' = no_pairs t \<and> no_released t \<le> no_released t'"])
     (use assms in \<open>auto simp: paid_transaction_fields\<close>)

lemma date_out_trace:
  assumes "stored_transaction db tid = Some t"
    and "date_out t \<noteq> None \<longleftrightarrow> no_pairs t \<le> no_released t"
  shows "\<forall>s \<in> set (applyPayment_trace db tid calls).
           \<exists>t'. stored_transaction s tid = Some t'
                \<and> (date_out t' \<noteq> None \<longleftrightarrow> no_pairs t' \<le> no_released t')"
  by (rule trace_invariant [where Q = "\<lambda>_. True"
         and I = "\<lambda>t'. date_out t' \<noteq> None \<longleftrightarrow> no_pairs t' \<le> no_released t'"])
     (use assms in \<open>auto simp: paid_transaction_fields\<close>)

lemmas ex_defs = ex_store_def ex_branch_def ex_transaction_def ex_body_def ex_overpay_def ex_refund_def
  ex_pickup_def no_faults_def ex_customer_def ex_line_item_def ex_tid_def ex_overpay_call_def
  ex_pickup_call_def ex_paid_def ex_released_def

lemmas ledger_defs = applyPayment_def stored_transaction_def findOne_def add_due_def bump_released_def
  status_rejected_def set_payment_status_def update_payment_mode_def append_mode_def
  record_payment_def create_payment_def save_payment_def payment_valid_def PAYMENT_MODES_def
  attach_payment_def set_date_out_def release_line_item_def truthy_def the_default_def VALID_def
  new_payment_def payment_branch_code_def Let_def

lemmas payment_id_defs = generatePaymentId_def latest_matching_def payment_suffix_def maxNum_step_def

lemma ex_overpay_result:
  "applyPayment no_faults ex_now ex_store ex_tid ex_overpay =
     (Ok 200 ex_paid,
      ex_store\<lparr>coll_transactions := [ex_paid],
        coll_payments := [\<lparr>payment_id = ''PAY-1-VAL'', p_transaction_id = ex_tid,
           payment_amount = 1500, p_payment_mode = ''Cash'', payment_date = ex_now\<rparr>]\<rparr>)"
  by (simp add: ex_defs ledger_defs payment_id_defs js_string_defs)

lemma ex_refund_result:
  "applyPayment no_faults ex_now ex_store ex_tid ex_refund =
     (Ok 200 (ex_transaction\<lparr>amount_paid := - 500\<rparr>),
      ex_store\<lparr>coll_transactions := [ex_transaction\<lparr>amount_paid := - 500\<rparr>]\<rparr>)"
  by (simp add: ex_defs ledger_defs)

lemma ex_pickup_result:
  "applyPayment no_faults ex_now ex_store ex_tid ex_pickup =
     (Ok 200 ex_released, ex_store\<lparr>coll_transactions := [ex_released]\<rparr>)"
  by (simp add: ex_defs ledger_defs)

lemma ex_pickup_again_result:
  "applyPayment no_faults ex_now (ex_store\<lparr>coll_transactions := [ex_released]\<rparr>) ex_tid ex_pickup =
     (Ok 200 (ex_released\<lparr>no_released := 2\<rparr>),
      ex_store\<lparr>coll_transactions := [ex_released\<lparr>no_released := 2\<rparr>]\<rparr>)"
  by (simp add: ex_defs ledger_defs)

lemma ex_stored: "stored_transaction ex_store ex_tid = Some ex_transaction"
  by (simp add: ex_defs stored_transaction_def findOne_def)

text \<open>
  Claim C3, as amended.  Every successful call that marks a pick-up raises
  \<^verbatim>\<open>no_released\<close> by exactly one, whatever the two counters are, and every other successful
  call leaves it as it is; a pick-up that passes the checks of the request succeeds when
  no write fails, so nothing bounds \<^verbatim>\<open>no_released\<close> by \<^verbatim>\<open>no_pairs\<close>.  For a transaction that
  starts with \<^verbatim>\<open>no_released < no_pairs\<close> and no \<^verbatim>\<open>date_out\<close>, after every sequence of calls
  \<^verbatim>\<open>no_pairs\<close> is what it was, \<^verbatim>\<open>no_released\<close> is not lower, and \<^verbatim>\<open>date_out\<close> is set if and only
  if \<^verbatim>\<open>no_released\<close> has reached \<^verbatim>\<open>no_pairs\<close>; when the two counters are whole numbers, that is
  the case if and only if \<^verbatim>\<open>no_released = no_pairs\<close> held at some point of the sequence.
\<close>

theorem released_and_date_out:
  assumes "stored_transaction db tid = Some t"
  shows "(fst (applyPayment fl now db tid body) = Ok 200 u \<longrightarrow>
            no_released u = (if markPickedUp body then no_released t + 1 else no_released t)
            \<and> no_pairs u = no_pairs t)
       \<and> (tid \<noteq> [] \<and> dueNow body = Some d \<and> customerPaid body \<noteq> None
            \<and> \<not> status_rejected (req_payment_status body) \<and> markPickedUp body
            \<and> (lineItemId body = None
                 \<or> (\<exists>lid li. lineItemId body = Some lid
                       \<and> findOne (\<lambda>x. li_line_item_id x = lid) (coll_line_items db) = Some li))
            \<and> (\<forall>w. \<not> fl w) \<longrightarrow>
            (\<exists>u'. fst (applyPayment fl now db tid body) = Ok 200 u'
                  \<and> stored_transaction (snd (applyPayment fl now db tid body)) tid = Some u'
                  \<and> no_released u' = no_released t + 1))
       \<and> (no_released t < no_pairs t \<and> date_out t = None \<longrightarrow>
            (\<exists>t'. stored_transaction (last (applyPayment_trace db tid calls)) tid = Some t'
                  \<and> no_pairs t' = no_pairs t \<and> no_released t \<le> no_released t'
                  \<and> (date_out t' \<noteq> None \<longleftrightarrow> no_pairs t' \<le> no_released t')))
       \<and> (no_released t < no_pairs t \<and> date_out t = None
            \<and> no_released t \<in> \<int> \<and> no_pairs t \<in> \<int> \<longrightarrow>
            (\<exists>t'. stored_transaction (last (applyPayment_trace db tid calls)) tid = Some t'
                  \<and> (date_out t' \<noteq> None \<longleftrightarrow>
                       (\<exists>s \<in> set (applyPayment_trace db tid calls).
                          \<exists>v. stored_transaction s tid = Some v \<and> no_released v = no_pairs v))))"
proof (intro conjI impI)
  assume ok: "fst (applyPayment fl now db tid body) = Ok 200 u"
  from applyPayment_ok [OF assms ok] obtain d' where "u = paid_transaction fl now db body d' t"
    by blast
  then show "no_released u = (if markPickedUp body then no_released t + 1 else no_released t)"
    and "no_pairs u = no_pairs t"
    by (simp_all add: paid_transaction_fields)
next
  assume a: "tid \<noteq> [] \<and> dueNow body = Some d \<and> customerPaid body \<noteq> None
            \<and> \<not> status_rejected (req_payment_status body) \<and> markPickedUp body
            \<and> (lineItemId body = None
                 \<or> (\<exists>lid li. lineItemId body = Some lid
                       \<and> findOne (\<lambda>x. li_line_item_id x = lid) (coll_line_items db) = Some li))
            \<and> (\<forall>w. \<not> fl w)"
  let ?t3 = "paid_transaction fl now db body d t"
  let ?st2 = "session_after_save fl now db tid body d t"
  have "\<exists>st. release_line_item fl body ?t3 ?st2 = Inr st"
  proof (cases "truthy (lineItemId body)")
    case False
    then show ?thesis by (simp add: release_line_item_skipped)
  next
    case True
    with a obtain lid li where l: "lineItemId body = Some lid" "lid \<noteq> []"
      "findOne (\<lambda>x. li_line_item_id x = lid) (coll_line_items ?st2) = Some li"
      by (auto simp: truthy_def session_after_save_fields)
    from a have "markPickedUp body" "\<not> fl (WLineItem 0)" "\<not> fl WCustomer" by simp_all
    from release_line_item_done [OF this(1) l this(2,3), of ?t3] show ?thesis by blast
  qed
  then obtain st where st: "release_line_item fl body ?t3 ?st2 = Inr st" by blast
  from a have p: "tid \<noteq> []" "dueNow body = Some d" "customerPaid body \<noteq> None"
    "\<not> status_rejected (req_payment_status body)" "\<not> fl WTransaction" "\<not> fl WCommit"
    by simp_all
  note r = applyPayment_succeeds [OF assms p st]
  from a have "no_released ?t3 = no_released t + 1"
    by (simp add: paid_transaction_fields)
  with r show "\<exists>u'. fst (applyPayment fl now db tid body) = Ok 200 u'
                  \<and> stored_transaction (snd (applyPayment fl now db tid body)) tid = Some u'
                  \<and> no_released u' = no_released t + 1"
    by simp
next
  let ?tr = "applyPayment_trace db tid calls"
  assume a: "no_released t < no_pairs t \<and> date_out t = None"
  have inv: "date_out t \<noteq> None \<longleftrightarrow> no_pairs t \<le> no_released t"
    using a by simp
  have l: "last ?tr \<in> set ?tr" by (rule last_in_set) (rule trace_nonempty)
  from counters_trace [OF assms, of calls] l obtain t' where
    t': "stored_transaction (last ?tr) tid = Some t'" "no_pairs t' = no_pairs t"
      "no_released t \<le> no_released t'" by blast
  from date_out_trace [OF assms inv, of calls] l t'(1)
  have "date_out t' \<noteq> None \<longleftrightarrow> no_pairs t' \<le> no_released t'" by auto
  with t' show "\<exists>t'. stored_transaction (last ?tr) tid = Some t'
                  \<and> no_pairs t' = no_pairs t \<and> no_released t \<le> no_released t'
                  \<and> (date_out t' \<noteq> None \<longleftrightarrow> no_pairs t' \<le> no_released t')"
    by blast
next
  let ?tr = "applyPayment_trace db tid calls"
  assume a: "no_released t < no_pairs t \<and> date_out t = None
            \<and> no_released t \<in> \<int> \<and> no_pairs t \<in> \<int>"
  then have le: "no_released t \<le> no_pairs t" and z: "no_released t \<in> \<int>" "no_pairs t \<in> \<int>"
    by simp_all
  from released_trace [OF assms le z, of calls] obtain t' where
    t': "stored_transaction (last ?tr) tid = Some t'"
        "no_pairs t' \<le> no_released t'
           \<longleftrightarrow> (\<exists>s \<in> set ?tr. \<exists>v. stored_transaction s tid = Some v \<and> no_released v = no_pairs v)"
    by blast
  have inv: "date_out t \<noteq> None \<longleftrightarrow> no_pairs t \<le> no_released t"
    using a by simp
  have "last ?tr \<in> set ?tr" by (rule last_in_set) (rule trace_nonempty)
  with date_out_trace [OF assms inv, of calls] t'(1)
  have "date_out t' \<noteq> None \<longleftrightarrow> no_pairs t' \<le> no_released t'" by auto
  with t' show "\<exists>t'. stored_transaction (last ?tr) tid = Some t'
                  \<and> (date_out t' \<noteq> None \<longleftrightarrow>
                       (\<exists>s \<in> set ?tr. \<exists>v. stored_transaction s tid = Some v \<and> no_released v = no_pairs v))"
    by blast
qed


lemma ex_pickup_trace:
  "applyPayment_trace ex_store ex_tid [ex_pickup_call] =
     [ex_store, ex_store\<lparr>coll_transactions := [ex_released]\<rparr>]"
  by (simp add: ex_pickup_call_def ex_pickup_result)

lemma ex_pickup_twice_trace:
  "applyPayment_trace ex_store ex_tid [ex_pickup_call, ex_pickup_call] =
     [ex_store, ex_store\<lparr>coll_transactions := [ex_released]\<rparr>,
      ex_store\<lparr>coll_transactions := [ex_released\<lparr>no_released := 2\<rparr>]\<rparr>]"
  by (simp add: ex_pickup_call_def ex_pickup_result ex_pickup_again_result)

theorem released_and_date_out_witness:
  "stored_transaction ex_store ex_tid = Some ex_transaction
   \<and> markPickedUp ex_pickup \<and> lineItemId ex_pickup = None \<and> dueNow ex_pickup = Some 0
   \<and> fst (applyPayment no_faults ex_now ex_store ex_tid ex_pickup) = Ok 200 ex_released
   \<and> no_released ex_released = no_released ex_transaction + 1
   \<and> no_pairs ex_released = no_pairs ex_transaction
   \<and> (\<exists>u'. fst (applyPayment no_faults ex_now ex_store ex_tid ex_pickup) = Ok 200 u'
           \<and> stored_transaction (snd (applyPayment no_faults ex_now ex_store ex_tid ex_pickup)) ex_tid = Some u'
           \<and> no_released u' = no_released ex_transaction + 1)
   \<and> no_released ex_transaction < no_pairs ex_transaction \<and> date_out ex_transaction = None
   \<and> no_released ex_transaction \<in> \<int> \<and> no_pairs ex_transaction \<in> \<int>
   \<and> (\<exists>s \<in> set (applyPayment_trace ex_store ex_tid [ex_pickup_call]).
         \<exists>v. stored_transaction s ex_tid = Some v \<and> no_released v = no_pairs v)
   \<and> (\<exists>t'. stored_transaction (last (applyPayment_trace ex_store ex_tid [ex_pickup_call])) ex_tid = Some t'
            \<and> no_pairs t' = no_pairs ex_transaction \<and> no_released ex_transaction \<le> no_released t'
            \<and> date_out t' \<noteq> None \<and> no_pairs t' \<le> no_released t')"
proof -
  have h: "no_released ex_transaction < no_pairs ex_transaction" "date_out ex_transaction = None"
    "no_released ex_transaction \<in> \<int>" "no_pairs ex_transaction \<in> \<int>"
    by (simp_all add: ex_transaction_def)
  have b: "markPickedUp ex_pickup" "lineItemId ex_pickup = None" "dueNow ex_pickup = Some 0"
    "customerPaid ex_pickup \<noteq> None" "\<not> status_rejected (req_payment_status ex_pickup)"
    by (simp_all add: ex_pickup_def ex_body_def status_rejected_def)
  have nf: "\<forall>w. \<not> no_faults w" by (simp add: no_faults_def)
  have tid: "ex_tid \<noteq> []" by (simp add: ex_tid_def)
  have ok: "fst (applyPayment no_faults ex_now ex_store ex_tid ex_pickup) = Ok 200 ex_released"
    by (simp add: ex_pickup_result)
  note inst = released_and_date_out [OF ex_stored, of no_faults ex_now ex_pickup ex_released 0
      "[ex_pickup_call]"]
  have hit: "\<exists>s \<in> set (applyPayment_trace ex_store ex_tid [ex_pickup_call]).
               \<exists>v. stored_transaction s ex_tid = Some v \<and> no_released v = no_pairs v"
    unfolding ex_pickup_trace
    by (simp add: stored_transaction_def findOne_def ex_released_def ex_transaction_def
        ex_store_def ex_tid_def)
  note c1 = inst [THEN conjunct1, rule_format]
  note c2 = inst [THEN conjunct2, THEN conjunct1, rule_format]
  note c3 = inst [THEN conjunct2, THEN conjunct2, THEN conjunct1, rule_format]
  note c4 = inst [THEN conjunct2, THEN conjunct2, THEN conjunct2, rule_format]
  from c1 [OF ok] b(1) have 1: "no_released ex_released = no_released ex_transaction + 1"
    and 2: "no_pairs ex_released = no_pairs ex_transaction" by simp_all
  have 3: "\<exists>u'. fst (applyPayment no_faults ex_now ex_store ex_tid ex_pickup) = Ok 200 u'
           \<and> stored_transaction (snd (applyPayment no_faults ex_now ex_store ex_tid ex_pickup)) ex_tid = Some u'
           \<and> no_released u' = no_released ex_transaction + 1"
    by (rule c2) (use tid b nf in blast)
  have "\<exists>t'. stored_transaction (last (applyPayment_trace ex_store ex_tid [ex_pickup_call])) ex_tid = Some t'
                  \<and> no_pairs t' = no_pairs ex_transaction \<and> no_released ex_transaction \<le> no_released t'
                  \<and> (date_out t' \<noteq> None \<longleftrightarrow> no_pairs t' \<le> no_released t')"
    by (rule c3) (use h in blast)
  then obtain t' where t': "stored_transaction (last (applyPayment_trace ex_store ex_tid [ex_pickup_call])) ex_tid = Some t'"
    "no_pairs t' = no_pairs ex_transaction" "no_released ex_transaction \<le> no_released t'"
    "date_out t' \<noteq> None \<longleftrightarrow> no_pairs t' \<le> no_released t'" by blast
  have "\<exists>t'. stored_transaction (last (applyPayment_trace ex_store ex_tid [ex_pickup_call])) ex_tid = Some t'
                  \<and> (date_out t' \<noteq> None \<longleftrightarrow>
                       (\<exists>s \<in> set (applyPayment_trace ex_store ex_tid [ex_pickup_call]).
                          \<exists>v. stored_transaction s ex_tid = Some v \<and> no_released v = no_pairs v))"
    by (rule c4) (use h in blast)
  with t'(1) hit have "date_out t' \<noteq> None" by auto
  with t' have 4: "\<exists>t'. stored_transaction (last (applyPayment_trace ex_store ex_tid [ex_pickup_call])) ex_tid = Some t'
            \<and> no_pairs t' = no_pairs ex_transaction \<and> no_released ex_transaction \<le> no_released t'
            \<and> date_out t' \<noteq> None \<and> no_pairs t' \<le> no_released t'" by blast
  from ex_stored b(1-3) ok 1 2 3 h hit 4 show ?thesis by blast
qed

text \<open>
  A second pick-up against an order of one pair takes \<^verbatim>\<open>no_released\<close> to 2, above
  \<^verbatim>\<open>no_pairs = 1\<close>.
\<close>

theorem released_and_date_out_counterexample:
  "stored_transaction ex_store ex_tid = Some ex_transaction
   \<and> no_pairs ex_transaction = 1 \<and> no_released ex_transaction = 0
   \<and> stored_transaction (last (applyPayment_trace ex_store ex_tid [ex_pickup_call, ex_pickup_call])) ex_tid
       = Some (ex_released\<lparr>no_released := 2\<rparr>)
   \<and> no_pairs (ex_released\<lparr>no_released := 2\<rparr>) = 1
   \<and> no_released (ex_released\<lparr>no_released := 2\<rparr>) = 2
   \<and> no_pairs (ex_released\<lparr>no_released := 2\<rparr>) < no_released (ex_released\<lparr>no_released := 2\<rparr>)"
  unfolding ex_pickup_twice_trace
  by (simp add: stored_transaction_def findOne_def ex_released_def ex_transaction_def
      ex_store_def ex_tid_def)

text \<open>
  The counters need not be whole numbers: an order stored with \<^verbatim>\<open>no_released = 0.5\<close> and
  \<^verbatim>\<open>no_pairs = 1\<close> gets its \<^verbatim>\<open>date_out\<close> at the first pick-up, when \<^verbatim>\<open>no_released\<close> passes from
  0.5 to 1.5 and never equals \<^verbatim>\<open>no_pairs\<close>.
\<close>

lemma fractional_release:
  "applyPayment no_faults ex_now (ex_store\<lparr>coll_transactions := [ex_half_released]\<rparr>) ex_tid ex_pickup =
     (Ok 200 (ex_half_released\<lparr>no_released := 3 / 2, date_out := Some ex_now\<rparr>),
      ex_store\<lparr>coll_transactions := [ex_half_released\<lparr>no_released := 3 / 2, date_out := Some ex_now\<rparr>]\<rparr>)
   \<and> no_pairs ex_half_released = 1 \<and> no_released ex_half_released = 1 / 2"
  by (simp add: ex_defs ex_half_released_def ledger_defs)

lemma split_on_nonempty: "split_on c s \<noteq> []"
  by (induction s) (auto split: list.splits)

lemma split_on_append:
  "split_on c (xs @ c # ys) = split_on c xs @ split_on c ys"
proof (induction xs)
  case Nil
  show ?case by simp
next
  case (Cons x xs)
  obtain p ps where "split_on c xs = p # ps"
    using split_on_nonempty [of c xs] by (cases "split_on c xs") auto
  then show ?case using Cons.IH by (auto split: list.splits)
qed

lemma split_on_absent: "c \<notin> set s \<Longrightarrow> split_on c s = [s]"
  by (induction s) auto

lemma payment_mode_paid_transaction:
  "payment_mode (paid_transaction fl now db body d t) =
     payment_mode (update_payment_mode (modeOfPayment body) t)"
  by (simp add: paid_transaction_def staged_transaction_def set_date_out_def update_payment_mode_def
      set_payment_status_def add_due_def bump_released_def Let_def split: option.splits)

lemma append_mode_changes:
  "append_mode e m \<noteq> e \<Longrightarrow> m \<notin> set (map trim (split_on CHR '','' e))"
  by (auto simp: append_mode_def trim_def split: if_splits)

lemma append_mode_present:
  "m \<noteq> [] \<Longrightarrow> m \<in> set (map trim (split_on CHR '','' e)) \<Longrightarrow> append_mode e m = e"
  by (auto simp: append_mode_def trim_def)

lemma pieces_append_mode:
  assumes "m \<noteq> []" "CHR '','' \<notin> set m" "trim m = m"
  shows "map trim (split_on CHR '','' (append_mode e m)) =
           (if e = [] then [m]
            else if m \<in> set (map trim (split_on CHR '','' e)) then map trim (split_on CHR '','' e)
            else map trim (split_on CHR '','' e) @ [m])"
  using assms by (simp add: append_mode_def split_on_append split_on_absent)


text \<open>
  What lines 279-285 do in a successful call: the supplied mode is appended only when it
  equals none of the trimmed comma-separated pieces of the stored string (case-sensitive
  comparison), and a mode that is among them leaves \<^verbatim>\<open>payment_mode\<close> unchanged.  For a mode
  without a comma and without leading or trailing white space this is the membership test
  of the set: the mode is among the pieces after the call, applying it again changes
  nothing, and pieces that were pairwise distinct stay pairwise distinct.
\<close>

lemma plain_mode_appended_once:
  assumes "stored_transaction db tid = Some t"
    and "modeOfPayment body = Some m" and "m \<noteq> []"
    and "fst (applyPayment fl now db tid body) = Ok 200 t'"
  shows "(payment_mode t' \<noteq> payment_mode t \<longrightarrow>
            m \<notin> set (map trim (split_on CHR '','' (payment_mode t)))
            \<and> payment_mode t' = (if payment_mode t = [] then m else payment_mode t @ '','' @ m))
       \<and> (m \<in> set (map trim (split_on CHR '','' (payment_mode t))) \<longrightarrow>
            payment_mode t' = payment_mode t)
       \<and> (CHR '','' \<notin> set m \<and> trim m = m \<longrightarrow>
            m \<in> set (map trim (split_on CHR '','' (payment_mode t')))
            \<and> append_mode (payment_mode t') m = payment_mode t'
            \<and> (distinct (map trim (split_on CHR '','' (payment_mode t))) \<longrightarrow>
                 distinct (map trim (split_on CHR '','' (payment_mode t')))))"
proof -
  from applyPayment_ok [OF assms(1,4)] obtain d where "t' = paid_transaction fl now db body d t"
    by blast
  then have pm: "payment_mode t' = append_mode (payment_mode t) m"
    using assms(2,3) by (simp add: payment_mode_paid_transaction update_payment_mode_def)
  have 1: "payment_mode t' \<noteq> payment_mode t \<longrightarrow>
            m \<notin> set (map trim (split_on CHR '','' (payment_mode t)))
            \<and> payment_mode t' = (if payment_mode t = [] then m else payment_mode t @ '','' @ m)"
  proof (intro impI conjI)
    assume neq: "payment_mode t' \<noteq> payment_mode t"
    then show "m \<notin> set (map trim (split_on CHR '','' (payment_mode t)))"
      unfolding pm by (rule append_mode_changes)
    then show "payment_mode t' = (if payment_mode t = [] then m else payment_mode t @ '','' @ m)"
      unfolding pm by (simp add: append_mode_def)
  qed
  have 2: "m \<in> set (map trim (split_on CHR '','' (payment_mode t))) \<longrightarrow>
            payment_mode t' = payment_mode t"
    using append_mode_present [OF assms(3), of "payment_mode t"] by (simp add: pm)
  have 3: "CHR '','' \<notin> set m \<and> trim m = m \<longrightarrow>
            m \<in> set (map trim (split_on CHR '','' (payment_mode t')))
            \<and> append_mode (payment_mode t') m = payment_mode t'
            \<and> (distinct (map trim (split_on CHR '','' (payment_mode t))) \<longrightarrow>
                 distinct (map trim (split_on CHR '','' (payment_mode t'))))"
  proof
    assume c: "CHR '','' \<notin> set m \<and> trim m = m"
    then have pieces: "map trim (split_on CHR '','' (payment_mode t')) =
           (if payment_mode t = [] then [m]
            else if m \<in> set (map trim (split_on CHR '','' (payment_mode t)))
                 then map trim (split_on CHR '','' (payment_mode t))
            else map trim (split_on CHR '','' (payment_mode t)) @ [m])"
      unfolding pm using assms(3) by (intro pieces_append_mode) simp_all
    then have mem: "m \<in> set (map trim (split_on CHR '','' (payment_mode t')))"
      by (simp split: if_splits)
    have again: "append_mode (payment_mode t') m = payment_mode t'"
      using append_mode_present [OF assms(3) mem] .
    have dist: "distinct (map trim (split_on CHR '','' (payment_mode t))) \<longrightarrow>
                 distinct (map trim (split_on CHR '','' (payment_mode t')))"
      unfolding pieces by auto
    from mem again dist show "m \<in> set (map trim (split_on CHR '','' (payment_mode t')))
            \<and> append_mode (payment_mode t') m = payment_mode t'
            \<and> (distinct (map trim (split_on CHR '','' (payment_mode t))) \<longrightarrow>
                 distinct (map trim (split_on CHR '','' (payment_mode t'))))" by blast
  qed
  from 1 2 3 show ?thesis by blast
qed


lemma ex_cash_result:
  "applyPayment no_faults ex_now ex_store ex_tid ex_cash =
     (Ok 200 (ex_transaction\<lparr>payment_mode := ''Cash''\<rparr>),
      ex_store\<lparr>coll_transactions := [ex_transaction\<lparr>payment_mode := ''Cash''\<rparr>]\<rparr>)"
  by (simp add: ex_defs ex_cash_def ledger_defs)

lemma ex_cash_again_result:
  "applyPayment no_faults ex_now
       (ex_store\<lparr>coll_transactions := [ex_transaction\<lparr>payment_mode := ''Cash''\<rparr>]\<rparr>) ex_tid ex_cash =
     (Ok 200 (ex_transaction\<lparr>payment_mode := ''Cash''\<rparr>),
      ex_store\<lparr>coll_transactions := [ex_transaction\<lparr>payment_mode := ''Cash''\<rparr>]\<rparr>)"
  by (simp add: ex_defs ex_cash_def ledger_defs trim_def is_space_def)

lemma ex_padded_result:
  "applyPayment no_faults ex_now ex_store ex_tid ex_padded_mode =
     (Ok 200 (ex_transaction\<lparr>payment_mode := '' Cash''\<rparr>),
      ex_store\<lparr>coll_transactions := [ex_transaction\<lparr>payment_mode := '' Cash''\<rparr>]\<rparr>)"
  by (simp add: ex_defs ex_padded_mode_def ledger_defs)

lemma ex_padded_again_result:
  "applyPayment no_faults ex_now
       (ex_store\<lparr>coll_transactions := [ex_transaction\<lparr>payment_mode := '' Cash''\<rparr>]\<rparr>)
       ex_tid ex_padded_mode =
     (Ok 200 (ex_transaction\<lparr>payment_mode := '' Cash, Cash''\<rparr>),
      ex_store\<lparr>coll_transactions := [ex_transaction\<lparr>payment_mode := '' Cash, Cash''\<rparr>]\<rparr>)"
  by (simp add: ex_defs ex_padded_mode_def ledger_defs trim_def is_space_def)

text \<open>
  Claim C7.  The claim does not hold of the code for a mode with white space around it (or
  with a comma in it): lines 280-284 compare the mode as supplied with the \<^emph>\<open>trimmed\<close> pieces
  of the stored string.  With \<^verbatim>\<open>modeOfPayment = ' Cash'\<close> the first call stores \<^verbatim>\<open>' Cash'\<close>; at
  the second call the stored set already holds exactly the supplied mode, yet it is
  appended again and \<^verbatim>\<open>payment_mode\<close> becomes \<^verbatim>\<open>' Cash, Cash'\<close>, with the mode twice in it.  The
  same two calls with \<^verbatim>\<open>'Cash'\<close> leave \<^verbatim>\<open>'Cash'\<close>, as the claim says.
\<close>

theorem payment_mode_appended_twice:
  "modeOfPayment ex_padded_mode = Some '' Cash''
   \<and> applyPayment no_faults ex_now ex_store ex_tid ex_padded_mode =
       (Ok 200 (ex_transaction\<lparr>payment_mode := '' Cash''\<rparr>),
        ex_store\<lparr>coll_transactions := [ex_transaction\<lparr>payment_mode := '' Cash''\<rparr>]\<rparr>)
   \<and> split_on CHR '','' '' Cash'' = ['' Cash'']
   \<and> applyPayment no_faults ex_now
         (ex_store\<lparr>coll_transactions := [ex_transaction\<lparr>payment_mode := '' Cash''\<rparr>]\<rparr>)
         ex_tid ex_padded_mode =
       (Ok 200 (ex_transaction\<lparr>payment_mode := '' Cash, Cash''\<rparr>),
        ex_store\<lparr>coll_transactions := [ex_transaction\<lparr>payment_mode := '' Cash, Cash''\<rparr>]\<rparr>)
   \<and> split_on CHR '','' '' Cash, Cash'' = ['' Cash'', '' Cash'']
   \<and> modeOfPayment ex_cash = Some ''Cash''
   \<and> applyPayment no_faults ex_now ex_store ex_tid ex_cash =
       (Ok 200 (ex_transaction\<lparr>payment_mode := ''Cash''\<rparr>),
        ex_store\<lparr>coll_transactions := [ex_transaction\<lparr>payment_mode := ''Cash''\<rparr>]\<rparr>)
   \<and> applyPayment no_faults ex_now
         (ex_store\<lparr>coll_transactions := [ex_transaction\<lparr>payment_mode := ''Cash''\<rparr>]\<rparr>) ex_tid ex_cash =
       (Ok 200 (ex_transaction\<lparr>payment_mode := ''Cash''\<rparr>),
        ex_store\<lparr>coll_transactions := [ex_transaction\<lparr>payment_mode := ''Cash''\<rparr>]\<rparr>)"
  using ex_padded_result ex_padded_again_result ex_cash_result ex_cash_again_result
  by (simp add: ex_padded_mode_def ex_cash_def ex_body_def)

lemma applyPayment_outcome:
  "(\<exists>c m. applyPayment fl now db tid body = (Err c m, db))
   \<or> (\<exists>t' st. applyPayment fl now db tid body = (Ok 200 t', st))"
proof (cases "findOne (\<lambda>t. transaction_id t = tid) (coll_transactions db)")
  case None
  then show ?thesis using applyPayment_refused [of tid body db fl now] by blast
next
  case (Some t)
  then have "stored_transaction db tid = Some t" by (simp add: stored_transaction_def)
  from applyPayment_cases [OF this, of fl now body] show ?thesis by blast
qed

lemma release_line_item_faults:
  assumes "markPickedUp body" "lineItemId body = Some lid" "lid \<noteq> []"
    and "fl (WLineItem 0)
         \<or> fl WCustomer \<and> findOne (\<lambda>c. c_cust_id c = cust_id t) (coll_customers st) \<noteq> None"
  shows "\<exists>e. release_line_item fl body t st = Inl e"
  using assms by (auto simp: release_line_item_def Let_def split: option.splits)

lemma record_payment_customers [simp]:
  "coll_customers (snd (record_payment fl now c body d t st)) = coll_customers st"
  by (auto simp: record_payment_def create_payment_def save_payment_def Let_def split: option.splits)

lemma cust_id_paid_transaction [simp]:
  "cust_id (paid_transaction fl now db body d t) = cust_id t"
proof -
  have a: "\<And>pid u. cust_id (attach_payment pid u) = cust_id u"
    by (simp add: attach_payment_def)
  have "\<And>u. cust_id (fst (record_payment fl now db body d u db)) = cust_id u"
    using record_payment_result [of fl now db body d _ db] a by metis
  then show ?thesis
    by (simp add: paid_transaction_def staged_transaction_def set_date_out_def update_payment_mode_def
      set_payment_status_def add_due_def bump_released_def Let_def split: option.splits)
qed

lemma applyPayment_success:
  assumes "applyPayment fl now db tid body = (Ok c t', st)"
  shows "\<not> fl WTransaction \<and> \<not> fl WCommit
         \<and> (\<exists>t d st2. stored_transaction db tid = Some t \<and> dueNow body = Some d
                \<and> t' = paid_transaction fl now db body d t
                \<and> st2 = session_after_save fl now db tid body d t
                \<and> release_line_item fl body t' st2 = Inr st
                \<and> coll_customers st2 = coll_customers db)"
proof (cases "tid = [] \<or> dueNow body = None \<or> customerPaid body = None
           \<or> findOne (\<lambda>t. transaction_id t = tid) (coll_transactions db) = None
           \<or> status_rejected (req_payment_status body) \<or> fl WTransaction")
  case True
  then show ?thesis using applyPayment_refused [of tid body db fl now] assms by auto
next
  case False
  then obtain d t where d: "dueNow body = Some d"
    and found: "findOne (\<lambda>t. transaction_id t = tid) (coll_transactions db) = Some t" by auto
  let ?t3 = "paid_transaction fl now db body d t"
  let ?st2 = "session_after_save fl now db tid body d t"
  have eq: "applyPayment fl now db tid body =
     (case release_line_item fl body ?t3 ?st2 of
        Inl e \<Rightarrow> (Err (fst e) (snd e), db)
      | Inr st3 \<Rightarrow> if fl WCommit then (Err 500 ''storage error'', db) else (Ok 200 ?t3, st3))"
    using False d found by (intro applyPayment_passed) auto
  from assms have r: "release_line_item fl body ?t3 ?st2 = Inr st" "\<not> fl WCommit" "t' = ?t3"
    by (auto simp: eq split: sum.splits if_splits)
  have "coll_customers ?st2 = coll_customers db"
    by (simp add: session_after_save_def)
  with r d found False show ?thesis
    by (auto simp: stored_transaction_def)
qed

lemma applyPayment_aborts:
  assumes "\<And>c t' st. applyPayment fl now db tid body \<noteq> (Ok c t', st)"
  shows "\<exists>c m. applyPayment fl now db tid body = (Err c m, db)"
  using applyPayment_outcome [of fl now db tid body] assms by blast

lemma release_line_item_idle:
  "\<not> markPickedUp body \<Longrightarrow> release_line_item fl body t st = Inr st"
  by (simp add: release_line_item_def split: option.splits)

lemma new_payment_staged:
  "new_payment now c mo d (staged_transaction body d' t) st = new_payment now c mo d t st"
  by (simp add: new_payment_def payment_branch_code_def staged_transaction_def
      update_payment_mode_def set_payment_status_def add_due_def bump_released_def Let_def
      split: option.splits)

lemma record_payment_insert_fails:
  assumes "\<not> truthy (provided_payment_id body)" "0 < d"
    and "fl WPayment \<or> \<not> payment_valid (new_payment now c (modeOfPayment body) d t st)"
  shows "record_payment fl now c body d t st = (t, st)"
  using assms
  by (auto simp: record_payment_def create_payment_def save_payment_def truthy_def Let_def
      split: option.splits)

lemma record_payment_outcomes:
  "(coll_payments (snd (record_payment fl now c body d t st)) = coll_payments st
      \<and> payments (fst (record_payment fl now c body d t st)) = payments t)
   \<or> (coll_payments (snd (record_payment fl now c body d t st)) = coll_payments st
        \<and> (\<exists>pid. provided_payment_id body = Some pid
              \<and> pid \<in> set (payments (fst (record_payment fl now c body d t st)))
              \<and> pid \<in> set (map payment_id (coll_payments st))))
   \<or> (\<exists>p. coll_payments (snd (record_payment fl now c body d t st)) = coll_payments st @ [p]
          \<and> payment_id p \<in> set (payments (fst (record_payment fl now c body d t st)))
          \<and> p_transaction_id p = transaction_id t \<and> payment_amount p = d)"
proof (cases "truthy (provided_payment_id body)")
  case True
  then obtain pid where pid: "provided_payment_id body = Some pid" "pid \<noteq> []"
    by (auto simp: truthy_def split: option.splits)
  show ?thesis
  proof (cases "findOne (\<lambda>p. payment_id p = pid) (coll_payments st)")
    case None
    then show ?thesis using pid by (simp add: record_payment_def)
  next
    case (Some p)
    then have "pid \<in> set (map payment_id (coll_payments st))"
      by (auto simp: findOne_def find_Some_iff)
    then show ?thesis using pid Some by (auto simp: record_payment_def attach_payment_def)
  qed
next
  case False
  then have "record_payment fl now c body d t st = create_payment fl now c (modeOfPayment body) d t st"
    by (auto simp: record_payment_def truthy_def split: option.splits)
  then show ?thesis
    by (auto simp: create_payment_def save_payment_def attach_payment_def new_payment_def Let_def
        split: option.splits)
qed

lemma payments_paid_transaction:
  "payments (paid_transaction fl now db body d t)
     = payments (fst (record_payment fl now db body d (staged_transaction body d t) db))"
  by (simp add: paid_transaction_def set_date_out_def)

lemma release_line_item_payments_eq:
  "release_line_item fl body t st = Inr st' \<Longrightarrow>
     coll_payments st' = coll_payments st \<and> coll_branches st' = coll_branches st"
  by (auto simp: release_line_item_def Let_def split: option.splits if_splits)

lemma release_line_item_untouched:
  "release_line_item fl body t st = Inr st' \<Longrightarrow>
     \<not> (markPickedUp body \<and> truthy (lineItemId body)) \<Longrightarrow> st' = st"
  by (auto simp: release_line_item_def truthy_def Let_def split: option.splits if_splits)


lemma payments_staged [simp]:
  "payments (staged_transaction body d t) = payments t"
  "transaction_id (staged_transaction body d t) = transaction_id t"
  by (simp_all add: staged_transaction_def add_due_def bump_released_def Let_def)

lemma release_line_item_Inr:
  assumes "release_line_item fl body t st = Inr st'"
    and "markPickedUp body" "lineItemId body = Some l" "l \<noteq> []"
  shows "\<exists>li. findOne (\<lambda>x. li_line_item_id x = l) (coll_line_items st) = Some li
            \<and> findOne (\<lambda>x. li_line_item_id x = l) (coll_line_items st')
                 = Some (li\<lparr>current_status := ''Picked Up''\<rparr>)
            \<and> (\<forall>c. findOne (\<lambda>c. c_cust_id c = cust_id t) (coll_customers st) = Some c \<longrightarrow>
                  findOne (\<lambda>c. c_cust_id c = cust_id t) (coll_customers st')
                    = Some (c\<lparr>total_services := total_services c + 1,
                             total_expenditure := total_expenditure c + total_amount t\<rparr>))"
proof -
  from assms obtain li where li: "findOne (\<lambda>x. li_line_item_id x = l) (coll_line_items st) = Some li"
    by (auto simp: release_line_item_def split: option.splits)
  from assms li have nl: "\<not> fl (WLineItem 0)"
    by (auto simp: release_line_item_def split: option.splits if_splits)
  show ?thesis
  proof (cases "fl WCustomer")
    case False
    from release_line_item_done [OF assms(2-4) li nl False, of t] assms(1) li
    show ?thesis by auto
  next
    case True
    with assms li nl have none: "findOne (\<lambda>c. c_cust_id c = cust_id t) (coll_customers st) = None"
      by (auto simp: release_line_item_def Let_def split: option.splits if_splits)
    have id: "li_line_item_id li = l" using li by (auto dest: findOne_holds)
    have "findOne (\<lambda>li. li_line_item_id li = l)
              (replace_first (\<lambda>li. li_line_item_id li = l) (li\<lparr>current_status := ''Picked Up''\<rparr>)
                 (coll_line_items st)) = Some (li\<lparr>current_status := ''Picked Up''\<rparr>)"
      by (rule findOne_replace_first [OF li]) (simp add: id)
    with assms li nl none show ?thesis
      by (auto simp: release_line_item_def Let_def)
  qed
qed


text \<open>
  Claim C2, as amended.  A call either answers with an error and persists nothing, or
  answers 200.  A failure of the transaction update, of the line-item status update, of the
  customer-totals update or of the commit, and a pick-up whose line item does not exist,
  make it answer with an error, so none of its writes is persisted.  A failure of the
  Payment insert does not: it is caught, and the call, pick-up or not, goes on to persist
  its other writes and answers 200, with no Payment record stored and none attached.  What
  a call that answers 200 has persisted is the updated transaction, the Payment record if
  one was inserted (then attached to the transaction), and for a pick-up the line item's
  new status and the customer's new totals.
\<close>

theorem applyPayment_all_or_nothing:
  "((\<exists>c m. applyPayment fl now db tid body = (Err c m, db))
      \<or> (\<exists>t' st. applyPayment fl now db tid body = (Ok 200 t', st)))
   \<and> (fl WTransaction \<or> fl WCommit \<longrightarrow> (\<exists>c m. applyPayment fl now db tid body = (Err c m, db)))
   \<and> (markPickedUp body \<and> lineItemId body = Some lid \<and> lid \<noteq> [] \<and> fl (WLineItem 0) \<longrightarrow>
        (\<exists>c m. applyPayment fl now db tid body = (Err c m, db)))
   \<and> (markPickedUp body \<and> lineItemId body = Some lid \<and> lid \<noteq> [] \<and> fl WCustomer
        \<and> stored_transaction db tid = Some t
        \<and> findOne (\<lambda>c. c_cust_id c = cust_id t) (coll_customers db) \<noteq> None \<longrightarrow>
        (\<exists>c m. applyPayment fl now db tid body = (Err c m, db)))
   \<and> (markPickedUp body \<and> lineItemId body = Some lid \<and> lid \<noteq> []
        \<and> findOne (\<lambda>x. li_line_item_id x = lid) (coll_line_items db) = None \<longrightarrow>
        (\<exists>c m. applyPayment fl now db tid body = (Err c m, db))
        \<and> (stored_transaction db tid = Some t \<and> tid \<noteq> [] \<and> dueNow body \<noteq> None
             \<and> customerPaid body \<noteq> None \<and> \<not> status_rejected (req_payment_status body)
             \<and> \<not> fl WTransaction \<longrightarrow>
             applyPayment fl now db tid body = (Err 404 ''Line item not found'', db)))
   \<and> (stored_transaction db tid = Some t \<and> tid \<noteq> [] \<and> dueNow body = Some d
        \<and> customerPaid body \<noteq> None \<and> \<not> status_rejected (req_payment_status body)
        \<and> \<not> fl WTransaction \<and> \<not> fl WCommit \<and> \<not> fl (WLineItem 0) \<and> \<not> fl WCustomer
        \<and> (markPickedUp body \<longrightarrow> lineItemId body = None
              \<or> (\<exists>l li. lineItemId body = Some l
                     \<and> findOne (\<lambda>x. li_line_item_id x = l) (coll_line_items db) = Some li))
        \<and> \<not> truthy (provided_payment_id body) \<and> 0 < d
        \<and> (fl WPayment \<or> \<not> payment_valid (new_payment now db (modeOfPayment body) d t db)) \<longrightarrow>
        (\<exists>t' st. applyPayment fl now db tid body = (Ok 200 t', st)
            \<and> stored_transaction st tid = Some t'
            \<and> amount_paid t' = min (total_amount t) (amount_paid t + d)
            \<and> payments t' = payments t \<and> coll_payments st = coll_payments db))
   \<and> (applyPayment fl now db tid body = (Ok c t', st) \<and> stored_transaction db tid = Some t \<longrightarrow>
        c = 200 \<and> stored_transaction st tid = Some t'
        \<and> coll_branches st = coll_branches db
        \<and> (coll_payments st = coll_payments db \<and> payments t' = payments t
             \<or> coll_payments st = coll_payments db
                \<and> (\<exists>pid. provided_payment_id body = Some pid \<and> pid \<in> set (payments t')
                      \<and> pid \<in> set (map payment_id (coll_payments db)))
             \<or> (\<exists>p. coll_payments st = coll_payments db @ [p] \<and> payment_id p \<in> set (payments t')
                    \<and> p_transaction_id p = tid \<and> payment_amount p = the_default 0 (dueNow body)))
        \<and> (\<forall>l. markPickedUp body \<and> lineItemId body = Some l \<and> l \<noteq> [] \<longrightarrow>
              (\<exists>li. findOne (\<lambda>x. li_line_item_id x = l) (coll_line_items db) = Some li
                  \<and> findOne (\<lambda>x. li_line_item_id x = l) (coll_line_items st)
                       = Some (li\<lparr>current_status := ''Picked Up''\<rparr>))
              \<and> (\<forall>cu. findOne (\<lambda>c. c_cust_id c = cust_id t) (coll_customers db) = Some cu \<longrightarrow>
                    findOne (\<lambda>c. c_cust_id c = cust_id t) (coll_customers st)
                      = Some (cu\<lparr>total_services := total_services cu + 1,
                               total_expenditure := total_expenditure cu + total_amount t\<rparr>)))
        \<and> (\<not> (markPickedUp body \<and> truthy (lineItemId body)) \<longrightarrow>
              coll_line_items st = coll_line_items db \<and> coll_customers st = coll_customers db))"
proof (intro conjI impI)
  show "(\<exists>c m. applyPayment fl now db tid body = (Err c m, db))
      \<or> (\<exists>t' st. applyPayment fl now db tid body = (Ok 200 t', st))"
    by (rule applyPayment_outcome)
next
  assume "fl WTransaction \<or> fl WCommit"
  then show "\<exists>c m. applyPayment fl now db tid body = (Err c m, db)"
    by (intro applyPayment_aborts) (auto dest: applyPayment_success)
next
  assume a: "markPickedUp body \<and> lineItemId body = Some lid \<and> lid \<noteq> [] \<and> fl (WLineItem 0)"
  show "\<exists>c m. applyPayment fl now db tid body = (Err c m, db)"
  proof (rule applyPayment_aborts)
    fix c t' st
    show "applyPayment fl now db tid body \<noteq> (Ok c t', st)"
    proof
      assume "applyPayment fl now db tid body = (Ok c t', st)"
      from applyPayment_success [OF this] obtain st2
        where "release_line_item fl body t' st2 = Inr st" by blast
      moreover have "\<exists>e. release_line_item fl body t' st2 = Inl e"
        using a by (intro release_line_item_faults) auto
      ultimately show False by auto
    qed
  qed
next
  assume a: "markPickedUp body \<and> lineItemId body = Some lid \<and> lid \<noteq> [] \<and> fl WCustomer
        \<and> stored_transaction db tid = Some t
        \<and> findOne (\<lambda>c. c_cust_id c = cust_id t) (coll_customers db) \<noteq> None"
  show "\<exists>c m. applyPayment fl now db tid body = (Err c m, db)"
  proof (rule applyPayment_aborts)
    fix c t' st
    show "applyPayment fl now db tid body \<noteq> (Ok c t', st)"
    proof
      assume "applyPayment fl now db tid body = (Ok c t', st)"
      from applyPayment_success [OF this] a obtain st2 d
        where r: "release_line_item fl body t' st2 = Inr st"
          and c: "coll_customers st2 = coll_customers db"
          and t': "t' = paid_transaction fl now db body d t" by auto
      have "\<exists>e. release_line_item fl body t' st2 = Inl e"
        using a by (intro release_line_item_faults) (auto simp: c t')
      with r show False by auto
    qed
  qed
next
  assume a: "markPickedUp body \<and> lineItemId body = Some lid \<and> lid \<noteq> []
        \<and> findOne (\<lambda>x. li_line_item_id x = lid) (coll_line_items db) = None"
  show "\<exists>c m. applyPayment fl now db tid body = (Err c m, db)"
  proof (rule applyPayment_aborts)
    fix c t' st
    show "applyPayment fl now db tid body \<noteq> (Ok c t', st)"
    proof
      assume "applyPayment fl now db tid body = (Ok c t', st)"
      from applyPayment_success [OF this] obtain t0 d0
        where r: "release_line_item fl body t' (session_after_save fl now db tid body d0 t0) = Inr st"
        by blast
      from a have "markPickedUp body" "lineItemId body = Some lid" "lid \<noteq> []"
        "findOne (\<lambda>li. li_line_item_id li = lid)
           (coll_line_items (session_after_save fl now db tid body d0 t0)) = None"
        by (simp_all add: session_after_save_fields)
      then have "release_line_item fl body t' (session_after_save fl now db tid body d0 t0)
              = Inl (404, ''Line item not found'')"
        by (rule release_line_item_missing)
      with r show False by simp
    qed
  qed
next
  assume a: "markPickedUp body \<and> lineItemId body = Some lid \<and> lid \<noteq> []
        \<and> findOne (\<lambda>x. li_line_item_id x = lid) (coll_line_items db) = None"
    and b: "stored_transaction db tid = Some t \<and> tid \<noteq> [] \<and> dueNow body \<noteq> None
             \<and> customerPaid body \<noteq> None \<and> \<not> status_rejected (req_payment_status body)
             \<and> \<not> fl WTransaction"
  then obtain d0 where d0: "dueNow body = Some d0" by auto
  from b have found: "findOne (\<lambda>t. transaction_id t = tid) (coll_transactions db) = Some t"
    by (simp add: stored_transaction_def)
  from a have "markPickedUp body" "lineItemId body = Some lid" "lid \<noteq> []"
    "findOne (\<lambda>li. li_line_item_id li = lid)
       (coll_line_items (session_after_save fl now db tid body d0 t)) = None"
    by (simp_all add: session_after_save_fields)
  then have "release_line_item fl body (paid_transaction fl now db body d0 t)
          (session_after_save fl now db tid body d0 t) = Inl (404, ''Line item not found'')"
    by (rule release_line_item_missing)
  then show "applyPayment fl now db tid body = (Err 404 ''Line item not found'', db)"
    using b d0 found by (simp add: applyPayment_passed [of tid body d0 db t fl now])
next
  assume a: "stored_transaction db tid = Some t \<and> tid \<noteq> [] \<and> dueNow body = Some d
        \<and> customerPaid body \<noteq> None \<and> \<not> status_rejected (req_payment_status body)
        \<and> \<not> fl WTransaction \<and> \<not> fl WCommit \<and> \<not> fl (WLineItem 0) \<and> \<not> fl WCustomer
        \<and> (markPickedUp body \<longrightarrow> lineItemId body = None
              \<or> (\<exists>l li. lineItemId body = Some l
                     \<and> findOne (\<lambda>x. li_line_item_id x = l) (coll_line_items db) = Some li))
        \<and> \<not> truthy (provided_payment_id body) \<and> 0 < d
        \<and> (fl WPayment \<or> \<not> payment_valid (new_payment now db (modeOfPayment body) d t db))"
  let ?t3 = "paid_transaction fl now db body d t"
  let ?st2 = "session_after_save fl now db tid body d t"
  have rp: "record_payment fl now db body d (staged_transaction body d t) db
              = (staged_transaction body d t, db)"
    using a by (intro record_payment_insert_fails) (simp_all add: new_payment_staged)
  have pays: "payments ?t3 = payments t"
    by (simp add: payments_paid_transaction rp)
  have cp: "coll_payments ?st2 = coll_payments db"
    by (simp add: session_after_save_fields rp)
  have "\<exists>st. release_line_item fl body ?t3 ?st2 = Inr st"
  proof (cases "markPickedUp body \<and> truthy (lineItemId body)")
    case False
    then show ?thesis by (simp add: release_line_item_skipped)
  next
    case True
    with a obtain l li where l: "lineItemId body = Some l" "l \<noteq> []"
      "findOne (\<lambda>x. li_line_item_id x = l) (coll_line_items ?st2) = Some li"
      by (auto simp: truthy_def session_after_save_fields)
    from True a have "markPickedUp body" "\<not> fl (WLineItem 0)" "\<not> fl WCustomer" by simp_all
    from release_line_item_done [OF this(1) l this(2,3), of ?t3] show ?thesis by blast
  qed
  then obtain st where st: "release_line_item fl body ?t3 ?st2 = Inr st" by blast
  from a have p: "stored_transaction db tid = Some t" "tid \<noteq> []" "dueNow body = Some d"
    "customerPaid body \<noteq> None" "\<not> status_rejected (req_payment_status body)"
    "\<not> fl WTransaction" "\<not> fl WCommit"
    by simp_all
  note r = applyPayment_succeeds [OF p st]
  have "coll_payments st = coll_payments db"
    using release_line_item_payments_eq [OF st] cp by simp
  moreover have "amount_paid ?t3 = min (total_amount t) (amount_paid t + d)"
    by (simp add: paid_transaction_fields min_def)
  ultimately show "\<exists>t' st. applyPayment fl now db tid body = (Ok 200 t', st)
            \<and> stored_transaction st tid = Some t'
            \<and> amount_paid t' = min (total_amount t) (amount_paid t + d)
            \<and> payments t' = payments t \<and> coll_payments st = coll_payments db"
    using r pays by blast
next
  assume a: "applyPayment fl now db tid body = (Ok c t', st) \<and> stored_transaction db tid = Some t"
  then have eq: "applyPayment fl now db tid body = (Ok c t', st)"
    and stored: "stored_transaction db tid = Some t" by simp_all
  from applyPayment_success [OF eq] stored obtain d0 where
    d0: "dueNow body = Some d0" and t': "t' = paid_transaction fl now db body d0 t"
    and rel: "release_line_item fl body t' (session_after_save fl now db tid body d0 t) = Inr st"
    by auto
  let ?st2 = "session_after_save fl now db tid body d0 t"
  let ?rp = "record_payment fl now db body d0 (staged_transaction body d0 t) db"
  from eq have f: "fst (applyPayment fl now db tid body) = Ok c t'"
    and s: "snd (applyPayment fl now db tid body) = st" by simp_all
  from applyPayment_ok [OF stored f] s
  show "c = 200" and "stored_transaction st tid = Some t'" by auto
  show "coll_branches st = coll_branches db"
    using release_line_item_payments_eq [OF rel] by (simp add: session_after_save_fields)
  have tid: "transaction_id t = tid"
    using stored by (auto simp: stored_transaction_def dest: findOne_holds)
  have cp: "coll_payments st = coll_payments (snd ?rp)"
    using release_line_item_payments_eq [OF rel] by (simp add: session_after_save_fields)
  have pt: "payments t' = payments (fst ?rp)"
    by (simp add: t' payments_paid_transaction)
  show "coll_payments st = coll_payments db \<and> payments t' = payments t
             \<or> coll_payments st = coll_payments db
                \<and> (\<exists>pid. provided_payment_id body = Some pid \<and> pid \<in> set (payments t')
                      \<and> pid \<in> set (map payment_id (coll_payments db)))
             \<or> (\<exists>p. coll_payments st = coll_payments db @ [p] \<and> payment_id p \<in> set (payments t')
                    \<and> p_transaction_id p = tid \<and> payment_amount p = the_default 0 (dueNow body))"
    unfolding cp pt using record_payment_outcomes [of fl now db body d0 "staged_transaction body d0 t" db]
    by (simp add: tid d0 the_default_def)
  show "\<forall>l. markPickedUp body \<and> lineItemId body = Some l \<and> l \<noteq> [] \<longrightarrow>
              (\<exists>li. findOne (\<lambda>x. li_line_item_id x = l) (coll_line_items db) = Some li
                  \<and> findOne (\<lambda>x. li_line_item_id x = l) (coll_line_items st)
                       = Some (li\<lparr>current_status := ''Picked Up''\<rparr>))
              \<and> (\<forall>cu. findOne (\<lambda>c. c_cust_id c = cust_id t) (coll_customers db) = Some cu \<longrightarrow>
                    findOne (\<lambda>c. c_cust_id c = cust_id t) (coll_customers st)
                      = Some (cu\<lparr>total_services := total_services cu + 1,
                               total_expenditure := total_expenditure cu + total_amount t\<rparr>))"
  proof (intro allI impI)
    fix l
    assume l: "markPickedUp body \<and> lineItemId body = Some l \<and> l \<noteq> []"
    then have l': "markPickedUp body" "lineItemId body = Some l" "l \<noteq> []" by simp_all
    have ct: "cust_id t' = cust_id t" "total_amount t' = total_amount t"
      by (simp_all add: t' paid_transaction_fields)
    from release_line_item_Inr [OF rel l']
    have "\<exists>li. findOne (\<lambda>x. li_line_item_id x = l) (coll_line_items db) = Some li
            \<and> findOne (\<lambda>x. li_line_item_id x = l) (coll_line_items st)
                 = Some (li\<lparr>current_status := ''Picked Up''\<rparr>)
            \<and> (\<forall>c. findOne (\<lambda>c. c_cust_id c = cust_id t) (coll_customers db) = Some c \<longrightarrow>
                  findOne (\<lambda>c. c_cust_id c = cust_id t) (coll_customers st)
                    = Some (c\<lparr>total_services := total_services c + 1,
                             total_expenditure := total_expenditure c + total_amount t\<rparr>))"
      by (simp add: session_after_save_fields ct)
    then show "(\<exists>li. findOne (\<lambda>x. li_line_item_id x = l) (coll_line_items db) = Some li
                  \<and> findOne (\<lambda>x. li_line_item_id x = l) (coll_line_items st)
                       = Some (li\<lparr>current_status := ''Picked Up''\<rparr>))
              \<and> (\<forall>cu. findOne (\<lambda>c. c_cust_id c = cust_id t) (coll_customers db) = Some cu \<longrightarrow>
                    findOne (\<lambda>c. c_cust_id c = cust_id t) (coll_customers st)
                      = Some (cu\<lparr>total_services := total_services cu + 1,
                               total_expenditure := total_expenditure cu + total_amount t\<rparr>))"
      by blast
  qed
  show "coll_line_items st = coll_line_items db" "coll_customers st = coll_customers db"
    if "\<not> (markPickedUp body \<and> truthy (lineItemId body))"
    using release_line_item_untouched [OF rel that] by (simp_all add: session_after_save_fields)
qed


lemma ex_customer_fault_result:
  "applyPayment customer_write_fails ex_now ex_store ex_tid ex_pickup_item =
     (Err 500 ''storage error'', ex_store)"
  by (simp add: ex_defs ex_pickup_item_def customer_write_fails_def ledger_defs)

lemma ex_every_fault_result:
  "applyPayment every_write_fails ex_now ex_store ex_tid ex_pickup_item =
     (Err 500 ''storage error'', ex_store)"
  by (simp add: ex_defs ex_pickup_item_def every_write_fails_def ledger_defs)

lemma ex_card_result:
  "applyPayment no_faults ex_now ex_store ex_tid ex_card =
     (Ok 200 ex_card_paid, ex_store\<lparr>coll_transactions := [ex_card_paid]\<rparr>)"
  by (simp add: ex_defs ex_card_def ex_card_paid_def ledger_defs payment_id_defs js_string_defs)

lemma ex_card_payment_built:
  "new_payment ex_now ex_store (Some ''Card'') 400 ex_transaction ex_store = ex_card_payment"
  by (simp add: new_payment_def payment_branch_code_def findOne_def truthy_def the_default_def
      ex_card_payment_def ex_defs payment_id_defs js_string_defs)

lemma ex_card_payment_rejected:
  "\<not> payment_valid ex_card_payment" "save_payment no_faults ex_card_payment ex_store = None"
  by (simp_all add: ex_card_payment_def payment_valid_def PAYMENT_MODES_def save_payment_def)

lemma ex_card_pickup_result:
  "applyPayment no_faults ex_now ex_store ex_tid ex_card_pickup =
     (Ok 200 ex_card_released, ex_store_after_pickup)"
  by (simp add: ex_defs ex_card_def ex_card_pickup_def ex_card_released_def ex_store_after_pickup_def
      ledger_defs payment_id_defs js_string_defs)

lemma ex_pickup_missing_result:
  "applyPayment no_faults ex_now ex_store ex_tid ex_pickup_missing =
     (Err 404 ''Line item not found'', ex_store)"
  by (simp add: ex_defs ex_pickup_missing_def ledger_defs)


theorem applyPayment_all_or_nothing_witness:
  "stored_transaction ex_store ex_tid = Some ex_transaction
   \<and> markPickedUp ex_pickup_item \<and> lineItemId ex_pickup_item = Some ''2025-03-00001-001-VAL''
   \<and> customer_write_fails WCustomer
   \<and> findOne (\<lambda>c. c_cust_id c = cust_id ex_transaction) (coll_customers ex_store) = Some ex_customer
   \<and> (\<exists>c m. applyPayment customer_write_fails ex_now ex_store ex_tid ex_pickup_item = (Err c m, ex_store))
   \<and> every_write_fails WTransaction \<and> every_write_fails WCommit \<and> every_write_fails (WLineItem 0)
   \<and> (\<exists>c m. applyPayment every_write_fails ex_now ex_store ex_tid ex_pickup_item = (Err c m, ex_store))
   \<and> markPickedUp ex_pickup_missing \<and> lineItemId ex_pickup_missing = Some ''2025-03-00001-009-VAL''
   \<and> findOne (\<lambda>x. li_line_item_id x = ''2025-03-00001-009-VAL'') (coll_line_items ex_store) = None
   \<and> applyPayment no_faults ex_now ex_store ex_tid ex_pickup_missing
       = (Err 404 ''Line item not found'', ex_store)
   \<and> markPickedUp ex_card_pickup \<and> lineItemId ex_card_pickup = Some ''2025-03-00001-001-VAL''
   \<and> findOne (\<lambda>x. li_line_item_id x = ''2025-03-00001-001-VAL'') (coll_line_items ex_store)
       = Some ex_line_item
   \<and> dueNow ex_card_pickup = Some 400 \<and> provided_payment_id ex_card_pickup = None
   \<and> \<not> payment_valid (new_payment ex_now ex_store (modeOfPayment ex_card_pickup) 400 ex_transaction ex_store)
   \<and> (\<exists>t' st. applyPayment no_faults ex_now ex_store ex_tid ex_card_pickup = (Ok 200 t', st)
          \<and> stored_transaction st ex_tid = Some t'
          \<and> amount_paid t' = min (total_amount ex_transaction) (amount_paid ex_transaction + 400)
          \<and> payments t' = payments ex_transaction \<and> coll_payments st = coll_payments ex_store)
   \<and> applyPayment no_faults ex_now ex_store ex_tid ex_card_pickup = (Ok 200 ex_card_released, ex_store_after_pickup)
   \<and> stored_transaction ex_store_after_pickup ex_tid = Some ex_card_released
   \<and> coll_payments ex_store_after_pickup = coll_payments ex_store
   \<and> payments ex_card_released = payments ex_transaction
   \<and> findOne (\<lambda>x. li_line_item_id x = ''2025-03-00001-001-VAL'') (coll_line_items ex_store_after_pickup)
       = Some (ex_line_item\<lparr>current_status := ''Picked Up''\<rparr>)
   \<and> findOne (\<lambda>c. c_cust_id c = cust_id ex_transaction) (coll_customers ex_store_after_pickup)
       = Some (ex_customer\<lparr>total_services := total_services ex_customer + 1,
                 total_expenditure := total_expenditure ex_customer + total_amount ex_transaction\<rparr>)"
proof -
  let ?lid = "''2025-03-00001-001-VAL''"
  let ?gone = "''2025-03-00001-009-VAL''"
  note fault = applyPayment_all_or_nothing
         [of customer_write_fails ex_now ex_store ex_tid ex_pickup_item ?lid ex_transaction]
  note all = applyPayment_all_or_nothing [of every_write_fails ex_now ex_store ex_tid ex_pickup_item ?lid]
  note gone = applyPayment_all_or_nothing
         [of no_faults ex_now ex_store ex_tid ex_pickup_missing ?gone ex_transaction]
  note card = applyPayment_all_or_nothing
         [of no_faults ex_now ex_store ex_tid ex_card_pickup ?lid ex_transaction 400 200
             ex_card_released ex_store_after_pickup]
  have item: "markPickedUp ex_pickup_item" "lineItemId ex_pickup_item = Some ?lid" "?lid \<noteq> []"
    by (simp_all add: ex_pickup_item_def ex_pickup_def ex_body_def)
  have fc: "customer_write_fails WCustomer"
    by (simp add: customer_write_fails_def)
  have cust: "findOne (\<lambda>c. c_cust_id c = cust_id ex_transaction) (coll_customers ex_store) = Some ex_customer"
    by (simp add: findOne_def ex_store_def ex_transaction_def ex_customer_def)
  have fe: "every_write_fails WTransaction" "every_write_fails WCommit" "every_write_fails (WLineItem 0)"
    by (simp_all add: every_write_fails_def)
  have nf: "\<not> no_faults WTransaction" "\<not> no_faults WCommit" "\<not> no_faults (WLineItem 0)"
    "\<not> no_faults WCustomer"
    by (simp_all add: no_faults_def)
  have tid: "ex_tid \<noteq> []" by (simp add: ex_tid_def)
  have missing: "markPickedUp ex_pickup_missing" "lineItemId ex_pickup_missing = Some ?gone"
    "?gone \<noteq> []" "dueNow ex_pickup_missing \<noteq> None" "customerPaid ex_pickup_missing \<noteq> None"
    "\<not> status_rejected (req_payment_status ex_pickup_missing)"
    by (simp_all add: ex_pickup_missing_def ex_pickup_def ex_body_def status_rejected_def)
  have nofind: "findOne (\<lambda>x. li_line_item_id x = ?gone) (coll_line_items ex_store) = None"
    by (simp add: findOne_def ex_store_def ex_line_item_def)
  have pick: "markPickedUp ex_card_pickup" "lineItemId ex_card_pickup = Some ?lid"
    "dueNow ex_card_pickup = Some 400" "customerPaid ex_card_pickup \<noteq> None"
    "\<not> status_rejected (req_payment_status ex_card_pickup)"
    "provided_payment_id ex_card_pickup = None" "modeOfPayment ex_card_pickup = Some ''Card''"
    by (simp_all add: ex_card_pickup_def ex_card_def ex_body_def status_rejected_def)
  have nt: "\<not> truthy (provided_payment_id ex_card_pickup)"
    by (simp add: pick truthy_def)
  have found: "findOne (\<lambda>x. li_line_item_id x = ?lid) (coll_line_items ex_store) = Some ex_line_item"
    by (simp add: findOne_def ex_store_def ex_line_item_def)
  have invalid: "\<not> payment_valid (new_payment ex_now ex_store (modeOfPayment ex_card_pickup) 400
                      ex_transaction ex_store)"
    by (simp add: pick ex_card_payment_built ex_card_payment_rejected)
  have 1: "\<exists>c m. applyPayment customer_write_fails ex_now ex_store ex_tid ex_pickup_item = (Err c m, ex_store)"
    using fault [THEN conjunct2, THEN conjunct2, THEN conjunct2, THEN conjunct1] item fc ex_stored cust
    by simp
  have 2: "\<exists>c m. applyPayment every_write_fails ex_now ex_store ex_tid ex_pickup_item = (Err c m, ex_store)"
    using all [THEN conjunct2, THEN conjunct1] fe by simp
  have 3: "applyPayment no_faults ex_now ex_store ex_tid ex_pickup_missing
             = (Err 404 ''Line item not found'', ex_store)"
    using gone [THEN conjunct2, THEN conjunct2, THEN conjunct2, THEN conjunct2, THEN conjunct1]
      missing nofind ex_stored tid nf by simp
  have 4: "\<exists>t' st. applyPayment no_faults ex_now ex_store ex_tid ex_card_pickup = (Ok 200 t', st)
          \<and> stored_transaction st ex_tid = Some t'
          \<and> amount_paid t' = min (total_amount ex_transaction) (amount_paid ex_transaction + 400)
          \<and> payments t' = payments ex_transaction \<and> coll_payments st = coll_payments ex_store"
    by (rule card [THEN conjunct2, THEN conjunct2, THEN conjunct2, THEN conjunct2, THEN conjunct2,
                   THEN conjunct1, rule_format])
       (use ex_stored tid pick nf nt found invalid in auto)
  note g = card [THEN conjunct2, THEN conjunct2, THEN conjunct2, THEN conjunct2, THEN conjunct2,
                 THEN conjunct2, rule_format, OF conjI [OF ex_card_pickup_result ex_stored]]
  from g have 5: "stored_transaction ex_store_after_pickup ex_tid = Some ex_card_released" by blast
  have 6: "coll_payments ex_store_after_pickup = coll_payments ex_store"
    "payments ex_card_released = payments ex_transaction"
    by (simp_all add: ex_store_after_pickup_def ex_card_released_def)
  from g pick(1,2) have "\<exists>li. findOne (\<lambda>x. li_line_item_id x = ?lid) (coll_line_items ex_store) = Some li
                  \<and> findOne (\<lambda>x. li_line_item_id x = ?lid) (coll_line_items ex_store_after_pickup)
                       = Some (li\<lparr>current_status := ''Picked Up''\<rparr>)"
    by blast
  with found have 7: "findOne (\<lambda>x. li_line_item_id x = ?lid) (coll_line_items ex_store_after_pickup)
       = Some (ex_line_item\<lparr>current_status := ''Picked Up''\<rparr>)" by simp
  from g pick(1,2) cust
  have 8: "findOne (\<lambda>c. c_cust_id c = cust_id ex_transaction) (coll_customers ex_store_after_pickup)
       = Some (ex_customer\<lparr>total_services := total_services ex_customer + 1,
                 total_expenditure := total_expenditure ex_customer + total_amount ex_transaction\<rparr>)"
    by blast
  from ex_stored item(1,2) fc cust 1 fe 2 missing(1,2) nofind 3 pick(1,2) found pick(3,6) invalid
    4 ex_card_pickup_result 5 6 7 8
  show ?thesis by blast
qed

text \<open>
  The Payment insert fails (the mode \<^verbatim>\<open>Card\<close> is not in the schema's enum), yet the call
  answers 200 and the transaction update is persisted, without any Payment record.
\<close>

theorem applyPayment_all_or_nothing_counterexample:
  "\<not> payment_valid ex_card_payment
   \<and> save_payment no_faults ex_card_payment ex_store = None
   \<and> stored_transaction ex_store ex_tid = Some ex_transaction
   \<and> amount_paid ex_transaction = 0
   \<and> applyPayment no_faults ex_now ex_store ex_tid ex_card =
       (Ok 200 ex_card_paid, ex_store\<lparr>coll_transactions := [ex_card_paid]\<rparr>)
   \<and> stored_transaction (ex_store\<lparr>coll_transactions := [ex_card_paid]\<rparr>) ex_tid = Some ex_card_paid
   \<and> amount_paid ex_card_paid = 400
   \<and> coll_payments (ex_store\<lparr>coll_transactions := [ex_card_paid]\<rparr>) = []"
  using ex_card_payment_rejected ex_stored ex_card_result
  by (simp add: stored_transaction_def findOne_def ex_card_paid_def ex_transaction_def
      ex_store_def ex_tid_def)

lemma record_payment_unknown:
  assumes "provided_payment_id body = Some pid" "pid \<noteq> []"
    and "findOne (\<lambda>p. payment_id p = pid) (coll_payments st) = None"
  shows "record_payment fl now c body d t st = (t, st)"
  using assms by (simp add: record_payment_def)

lemma release_line_item_payments:
  "release_line_item fl body t st = Inr st' \<Longrightarrow> coll_payments st' = coll_payments st"
  by (auto simp: release_line_item_def Let_def split: option.splits if_splits)

lemma release_line_item_found:
  assumes "\<not> fl (WLineItem 0)" "\<not> fl WCustomer"
    and "markPickedUp body \<and> truthy (lineItemId body) \<longrightarrow>
           findOne (\<lambda>li. Some (li_line_item_id li) = lineItemId body) (coll_line_items st) \<noteq> None"
  shows "\<exists>st'. release_line_item fl body t st = Inr st'"
  using assms by (auto simp: release_line_item_def truthy_def Let_def split: option.splits)

text \<open>
  Claim C10.  When \<^verbatim>\<open>applyPayment\<close> is given a \<^verbatim>\<open>provided_payment_id\<close> that matches no
  Payment record, the unknown id is not attached and no Payment is created for \<^verbatim>\<open>dueNow\<close>:
  the payment collection and the transaction's \<^verbatim>\<open>payments\<close> list are unchanged.  The call
  does not fail on that account: when the request is otherwise acceptable (transaction
  found, amounts supplied, status valid, the line item to release found, no storage
  failure) it answers 200 with the updated transaction.
\<close>

theorem unknown_provided_payment_id:
  assumes "provided_payment_id body = Some pid" and "pid \<noteq> []"
    and "findOne (\<lambda>p. payment_id p = pid) (coll_payments db) = None"
    and "stored_transaction db tid = Some t"
  shows "coll_payments (snd (applyPayment fl now db tid body)) = coll_payments db
       \<and> (\<exists>t'. stored_transaction (snd (applyPayment fl now db tid body)) tid = Some t'
               \<and> payments t' = payments t)
       \<and> (tid \<noteq> [] \<and> dueNow body \<noteq> None \<and> customerPaid body \<noteq> None
            \<and> \<not> status_rejected (req_payment_status body)
            \<and> \<not> fl WTransaction \<and> \<not> fl (WLineItem 0) \<and> \<not> fl WCustomer \<and> \<not> fl WCommit
            \<and> (markPickedUp body \<and> truthy (lineItemId body) \<longrightarrow>
                 findOne (\<lambda>li. Some (li_line_item_id li) = lineItemId body) (coll_line_items db) \<noteq> None)
          \<longrightarrow> (\<exists>t'. fst (applyPayment fl now db tid body) = Ok 200 t' \<and> payments t' = payments t))"
proof -
  have rp: "\<And>d u. record_payment fl now db body d u db = (u, db)"
    by (rule record_payment_unknown [OF assms(1-3)])
  have pay: "\<And>d. payments (paid_transaction fl now db body d t) = payments t"
    by (simp add: paid_transaction_def set_date_out_def rp)
  have sess: "\<And>d. coll_payments (session_after_save fl now db tid body d t) = coll_payments db"
    "\<And>d. coll_line_items (session_after_save fl now db tid body d t) = coll_line_items db"
    by (simp_all add: session_after_save_def rp)
  from assms(4) have found: "findOne (\<lambda>t. transaction_id t = tid) (coll_transactions db) = Some t"
    by (simp add: stored_transaction_def)
  have 1: "coll_payments (snd (applyPayment fl now db tid body)) = coll_payments db"
  proof (cases "\<exists>c m. applyPayment fl now db tid body = (Err c m, db)")
    case True
    then show ?thesis by auto
  next
    case False
    with applyPayment_outcome [of fl now db tid body] obtain t' st
      where ok: "applyPayment fl now db tid body = (Ok 200 t', st)" by blast
    from applyPayment_success [OF ok] assms(4) obtain d where
      "release_line_item fl body t' (session_after_save fl now db tid body d t) = Inr st" by auto
    from release_line_item_payments [OF this] show ?thesis
      by (simp add: ok sess)
  qed
  have 2: "\<exists>t'. stored_transaction (snd (applyPayment fl now db tid body)) tid = Some t'
               \<and> payments t' = payments t"
    using applyPayment_step [OF assms(4), of fl now body] assms(4) pay by auto
  have 3: "tid \<noteq> [] \<and> dueNow body \<noteq> None \<and> customerPaid body \<noteq> None
            \<and> \<not> status_rejected (req_payment_status body)
            \<and> \<not> fl WTransaction \<and> \<not> fl (WLineItem 0) \<and> \<not> fl WCustomer \<and> \<not> fl WCommit
            \<and> (markPickedUp body \<and> truthy (lineItemId body) \<longrightarrow>
                 findOne (\<lambda>li. Some (li_line_item_id li) = lineItemId body) (coll_line_items db) \<noteq> None)
          \<longrightarrow> (\<exists>t'. fst (applyPayment fl now db tid body) = Ok 200 t' \<and> payments t' = payments t)"
  proof
    assume a: "tid \<noteq> [] \<and> dueNow body \<noteq> None \<and> customerPaid body \<noteq> None
            \<and> \<not> status_rejected (req_payment_status body)
            \<and> \<not> fl WTransaction \<and> \<not> fl (WLineItem 0) \<and> \<not> fl WCustomer \<and> \<not> fl WCommit
            \<and> (markPickedUp body \<and> truthy (lineItemId body) \<longrightarrow>
                 findOne (\<lambda>li. Some (li_line_item_id li) = lineItemId body) (coll_line_items db) \<noteq> None)"
    then obtain d where d: "dueNow body = Some d" by auto
    let ?t3 = "paid_transaction fl now db body d t"
    let ?st2 = "session_after_save fl now db tid body d t"
    have eq: "applyPayment fl now db tid body =
       (case release_line_item fl body ?t3 ?st2 of
          Inl e \<Rightarrow> (Err (fst e) (snd e), db)
        | Inr st3 \<Rightarrow> if fl WCommit then (Err 500 ''storage error'', db) else (Ok 200 ?t3, st3))"
      using a d found by (intro applyPayment_passed) auto
    have "\<exists>st'. release_line_item fl body ?t3 ?st2 = Inr st'"
      using a by (intro release_line_item_found) (simp_all add: sess)
    then obtain st' where "release_line_item fl body ?t3 ?st2 = Inr st'" ..
    with a have "fst (applyPayment fl now db tid body) = Ok 200 ?t3"
      by (simp add: eq)
    with pay show "\<exists>t'. fst (applyPayment fl now db tid body) = Ok 200 t' \<and> payments t' = payments t"
      by blast
  qed
  from 1 2 3 show ?thesis by blast
qed

lemma ex_unknown_payment_result:
  "applyPayment no_faults ex_now ex_store ex_tid ex_unknown_payment =
     (Ok 200 (ex_transaction\<lparr>amount_paid := 400, payment_mode := ''Cash''\<rparr>),
      ex_store\<lparr>coll_transactions := [ex_transaction\<lparr>amount_paid := 400, payment_mode := ''Cash''\<rparr>]\<rparr>)"
  by (simp add: ex_defs ex_unknown_payment_def ledger_defs)

theorem unknown_provided_payment_id_witness:
  "provided_payment_id ex_unknown_payment = Some ''PAY-99-VAL''
   \<and> findOne (\<lambda>p. payment_id p = ''PAY-99-VAL'') (coll_payments ex_store) = None
   \<and> stored_transaction ex_store ex_tid = Some ex_transaction
   \<and> dueNow ex_unknown_payment = Some 400 \<and> customerPaid ex_unknown_payment = Some 400
   \<and> \<not> status_rejected (req_payment_status ex_unknown_payment)
   \<and> \<not> markPickedUp ex_unknown_payment
   \<and> coll_payments (snd (applyPayment no_faults ex_now ex_store ex_tid ex_unknown_payment)) = coll_payments ex_store
   \<and> (\<exists>t'. stored_transaction (snd (applyPayment no_faults ex_now ex_store ex_tid ex_unknown_payment)) ex_tid
              = Some t' \<and> payments t' = payments ex_transaction)
   \<and> (\<exists>t'. fst (applyPayment no_faults ex_now ex_store ex_tid ex_unknown_payment) = Ok 200 t'
            \<and> payments t' = payments ex_transaction)
   \<and> applyPayment no_faults ex_now ex_store ex_tid ex_unknown_payment =
       (Ok 200 (ex_transaction\<lparr>amount_paid := 400, payment_mode := ''Cash''\<rparr>),
        ex_store\<lparr>coll_transactions := [ex_transaction\<lparr>amount_paid := 400, payment_mode := ''Cash''\<rparr>]\<rparr>)"
proof -
  have p: "provided_payment_id ex_unknown_payment = Some ''PAY-99-VAL''" "''PAY-99-VAL'' \<noteq> []"
    by (simp_all add: ex_unknown_payment_def ex_body_def)
  have none: "findOne (\<lambda>p. payment_id p = ''PAY-99-VAL'') (coll_payments ex_store) = None"
    by (simp add: findOne_def ex_store_def)
  have req: "dueNow ex_unknown_payment = Some 400" "customerPaid ex_unknown_payment = Some 400"
    "\<not> status_rejected (req_payment_status ex_unknown_payment)" "\<not> markPickedUp ex_unknown_payment"
    by (simp_all add: ex_unknown_payment_def ex_body_def status_rejected_def)
  have nf: "\<not> no_faults WTransaction" "\<not> no_faults (WLineItem 0)" "\<not> no_faults WCustomer"
    "\<not> no_faults WCommit"
    by (simp_all add: no_faults_def)
  have tid: "ex_tid \<noteq> []" by (simp add: ex_tid_def)
  note inst = unknown_provided_payment_id [OF p none ex_stored, of no_faults ex_now]
  from inst have a: "coll_payments (snd (applyPayment no_faults ex_now ex_store ex_tid ex_unknown_payment))
                      = coll_payments ex_store"
    and b: "\<exists>t'. stored_transaction (snd (applyPayment no_faults ex_now ex_store ex_tid ex_unknown_payment)) ex_tid
              = Some t' \<and> payments t' = payments ex_transaction"
    by blast+
  from inst req nf tid
  have c: "\<exists>t'. fst (applyPayment no_faults ex_now ex_store ex_tid ex_unknown_payment) = Ok 200 t'
            \<and> payments t' = payments ex_transaction"
    by simp
  from p none ex_stored req a b c ex_unknown_payment_result show ?thesis by blast
qed

section \<open>Properties of the direct patch\<close>

lemma fold_delete_apply:
  "fold (\<lambda>field u. u(field := None)) fs u f = (if f \<in> set fs then None else u f)"
  by (induction fs arbitrary: u) auto

lemma delete_restricted_apply:
  "delete_restricted u f = (if f \<in> set restrictedFields then None else u f)"
  by (simp add: delete_restricted_def fold_delete_apply)

lemma delete_restricted_idem: "delete_restricted (delete_restricted u) = delete_restricted u"
  by (rule ext) (simp add: delete_restricted_apply)

lemma assign_fields_apply:
  "assign_fields cast t u f =
     (if f \<in> set transaction_paths
      then (case u f of None \<Rightarrow> t f
            | Some v \<Rightarrow> (case cast f v of None \<Rightarrow> t f | Some w \<Rightarrow> Some w))
      else t f)"
  by (simp add: assign_fields_def cast_updates_def map_add_def split: option.splits)

lemma cast_error_iff:
  "cast_error cast u \<longleftrightarrow> (\<exists>p \<in> set transaction_paths. \<exists>v. u p = Some v \<and> cast p v = None)"
  by (auto simp: cast_error_def list_ex_iff split: option.splits)

lemma save_document_apply:
  "save_document now t a p =
     (if modified_paths t a = [] then a p
      else if p = ''__v'' \<and> version_inc t a then Some (next_version t)
      else if p = ''updatedAt'' then Some now
      else a p)"
  by (simp add: save_document_def Let_def)

lemma modified_paths_iff:
  "modified_paths t a \<noteq> [] \<longleftrightarrow> (\<exists>p \<in> set transaction_paths. a p \<noteq> t p)"
  by (auto simp: modified_paths_def filter_empty_conv)

lemma version_inc_iff:
  "version_inc t a \<longleftrightarrow> (\<exists>p \<in> set transaction_paths. a p \<noteq> t p \<and> is_array (a p))"
  by (auto simp: version_inc_def modified_paths_def list_ex_iff)

lemma updateTransaction_Ok:
  assumes "findOne (has_transaction_id tid) txs = Some t"
    and "fst (updateTransaction cast save_ok now txs tid body) = Ok c t'"
  shows "c = 200" "\<not> cast_error cast (delete_restricted body)"
    "t' = save_document now t (assign_fields cast t (delete_restricted body))"
    "snd (updateTransaction cast save_ok now txs tid body) = replace_first (has_transaction_id tid) t' txs"
  using assms by (auto simp: updateTransaction_def Let_def split: if_splits)

lemma assigned_apply:
  assumes "\<not> cast_error cast (delete_restricted body)"
  shows "assign_fields cast t (delete_restricted body) p =
     (if p \<in> set transaction_paths \<and> p \<notin> set restrictedFields
      then (case body p of None \<Rightarrow> t p | Some v \<Rightarrow> cast p v)
      else t p)"
proof (cases "p \<in> set transaction_paths \<and> p \<notin> set restrictedFields")
  case False
  then show ?thesis by (auto simp: assign_fields_apply delete_restricted_apply)
next
  case True
  show ?thesis
  proof (cases "body p")
    case None
    then show ?thesis using True by (simp add: assign_fields_apply delete_restricted_apply)
  next
    case (Some v)
    with assms True have "cast p v \<noteq> None"
      by (auto simp: cast_error_iff delete_restricted_apply)
    then show ?thesis using True Some
      by (auto simp: assign_fields_apply delete_restricted_apply)
  qed
qed


text \<open>
  Claim C9, as amended.  For every \<^verbatim>\<open>PUT /transactions/:transaction_id\<close> on an existing
  transaction, whatever the body contains, the values it supplies for \<^verbatim>\<open>transaction_id\<close>,
  \<^verbatim>\<open>_id\<close>, \<^verbatim>\<open>__v\<close> and \<^verbatim>\<open>createdAt\<close> (and \<^verbatim>\<open>updatedAt\<close>) are never written: the request does
  exactly what it does for the body without them.  After a successful update
  \<^verbatim>\<open>transaction_id\<close>, \<^verbatim>\<open>_id\<close> and \<^verbatim>\<open>createdAt\<close> are unchanged.  \<^verbatim>\<open>__v\<close> is unchanged unless
  the body gives an array path (\<^verbatim>\<open>line_item_id\<close>, \<^verbatim>\<open>payments\<close>) a new array; then the save
  sets it to the old version plus one.  Every other field of the schema that the body
  supplies has the supplied value, cast to the type of its path, and the fields it does
  not supply keep theirs; \<^verbatim>\<open>updatedAt\<close> is set by the save when a field changed.
\<close>

theorem updateTransaction_keeps_identifiers:
  assumes "findOne (has_transaction_id tid) txs = Some t"
  shows "updateTransaction cast save_ok now txs tid body
           = updateTransaction cast save_ok now txs tid (delete_restricted body)
       \<and> ((\<exists>c m. updateTransaction cast save_ok now txs tid body = (Err c m, txs))
            \<or> (\<exists>u. fst (updateTransaction cast save_ok now txs tid body) = Ok 200 u))
       \<and> (fst (updateTransaction cast save_ok now txs tid body) = Ok c t' \<longrightarrow>
            findOne (has_transaction_id tid) (snd (updateTransaction cast save_ok now txs tid body))
              = Some t'
            \<and> t' ''transaction_id'' = t ''transaction_id'' \<and> t' ''_id'' = t ''_id''
            \<and> t' ''createdAt'' = t ''createdAt''
            \<and> t' ''__v'' =
                (if \<exists>p \<in> set transaction_paths. p \<notin> set restrictedFields
                       \<and> (\<exists>v. body p = Some v \<and> cast p v \<noteq> t p \<and> is_array (cast p v))
                 then Some (next_version t) else t ''__v'')
            \<and> t' ''updatedAt'' =
                (if \<exists>p \<in> set transaction_paths. p \<notin> set restrictedFields
                       \<and> (\<exists>v. body p = Some v \<and> cast p v \<noteq> t p)
                 then Some now else t ''updatedAt'')
            \<and> (\<forall>p v. p \<in> set transaction_paths \<and> p \<notin> set restrictedFields \<and> body p = Some v \<longrightarrow>
                  t' p = cast p v)
            \<and> (\<forall>p. p \<notin> set restrictedFields \<and> (p \<notin> set transaction_paths \<or> body p = None) \<longrightarrow>
                  t' p = t p))"
proof (intro conjI impI)
  show "updateTransaction cast save_ok now txs tid body
           = updateTransaction cast save_ok now txs tid (delete_restricted body)"
    unfolding updateTransaction_def delete_restricted_idem by (rule refl)
  show "(\<exists>c m. updateTransaction cast save_ok now txs tid body = (Err c m, txs))
            \<or> (\<exists>u. fst (updateTransaction cast save_ok now txs tid body) = Ok 200 u)"
    using assms by (auto simp: updateTransaction_def Let_def)
next
  assume ok: "fst (updateTransaction cast save_ok now txs tid body) = Ok c t'"
  let ?a = "assign_fields cast t (delete_restricted body)"
  let ?changed = "\<lambda>p. p \<notin> set restrictedFields \<and> (\<exists>v. body p = Some v \<and> cast p v \<noteq> t p)"
  let ?array = "\<lambda>p. p \<notin> set restrictedFields
                  \<and> (\<exists>v. body p = Some v \<and> cast p v \<noteq> t p \<and> is_array (cast p v))"
  note r = updateTransaction_Ok [OF assms ok]
  note a = assigned_apply [OF r(2), of t]
  have diff: "?a p \<noteq> t p \<longleftrightarrow> p \<in> set transaction_paths \<and> ?changed p" for p
    by (auto simp: a split: option.splits)
  have arr: "?a p \<noteq> t p \<and> is_array (?a p) \<longleftrightarrow> p \<in> set transaction_paths \<and> ?array p" for p
    by (auto simp: a split: option.splits)
  define C where "C \<longleftrightarrow> (\<exists>p \<in> set transaction_paths. ?changed p)"
  define A where "A \<longleftrightarrow> (\<exists>p \<in> set transaction_paths. ?array p)"
  have sub: "A \<Longrightarrow> C" unfolding A_def C_def by blast
  have "modified_paths t ?a \<noteq> [] \<longleftrightarrow> C"
    unfolding modified_paths_iff C_def using diff by blast
  then have m: "modified_paths t ?a = [] \<longleftrightarrow> \<not> C"
    by blast
  have v: "version_inc t ?a \<longleftrightarrow> A"
    unfolding version_inc_iff A_def using arr by blast
  have t': "t' p =
     (if \<not> C then ?a p
      else if p = ''__v'' \<and> A then Some (next_version t)
      else if p = ''updatedAt'' then Some now
      else ?a p)" for p
    unfolding r(3) save_document_apply m v by (rule refl)
  have keep: "?a ''transaction_id'' = t ''transaction_id''" "?a ''_id'' = t ''_id''"
    "?a ''createdAt'' = t ''createdAt''" "?a ''__v'' = t ''__v''" "?a ''updatedAt'' = t ''updatedAt''"
    by (simp_all add: a restrictedFields_def)
  show id: "t' ''transaction_id'' = t ''transaction_id''" and "t' ''_id'' = t ''_id''"
    and "t' ''createdAt'' = t ''createdAt''"
    by (simp_all add: t' keep)
  have "has_transaction_id tid t" using assms by (rule findOne_holds)
  then have "has_transaction_id tid t'" using id by (simp add: has_transaction_id_def)
  then show "findOne (has_transaction_id tid) (snd (updateTransaction cast save_ok now txs tid body))
              = Some t'"
    unfolding r(4) by (rule findOne_replace_first [OF assms])
  have "t' ''__v'' = (if A then Some (next_version t) else t ''__v'')"
    using sub by (auto simp: t' keep)
  then show "t' ''__v'' = (if \<exists>p \<in> set transaction_paths. ?array p then Some (next_version t) else t ''__v'')"
    unfolding A_def .
  have "t' ''updatedAt'' = (if C then Some now else t ''updatedAt'')"
    by (auto simp: t' keep)
  then show "t' ''updatedAt'' = (if \<exists>p \<in> set transaction_paths. ?changed p then Some now else t ''updatedAt'')"
    unfolding C_def .
  show "\<forall>p v. p \<in> set transaction_paths \<and> p \<notin> set restrictedFields \<and> body p = Some v \<longrightarrow>
                  t' p = cast p v"
  proof (intro allI impI)
    fix p v
    assume h: "p \<in> set transaction_paths \<and> p \<notin> set restrictedFields \<and> body p = Some v"
    then have "p \<noteq> ''__v''" "p \<noteq> ''updatedAt''" by (auto simp: restrictedFields_def)
    with h show "t' p = cast p v" by (simp add: t' a)
  qed
  show "\<forall>p. p \<notin> set restrictedFields \<and> (p \<notin> set transaction_paths \<or> body p = None) \<longrightarrow>
                  t' p = t p"
  proof (intro allI impI)
    fix p
    assume h: "p \<notin> set restrictedFields \<and> (p \<notin> set transaction_paths \<or> body p = None)"
    then have "p \<noteq> ''__v''" "p \<noteq> ''updatedAt''" by (auto simp: restrictedFields_def)
    moreover from h have "?a p = t p" by (auto simp: a)
    ultimately show "t' p = t p" by (simp add: t')
  qed
qed


lemma ex_doc_found: "findOne (has_transaction_id ex_tid) [ex_doc] = Some ex_doc"
  by (simp add: findOne_def has_transaction_id_def ex_doc_def ex_tid_def)

lemma cast_as_is_total: "\<not> cast_error cast_as_is u"
  by (simp add: cast_error_iff cast_as_is_def)

lemma ex_patch_accepted:
  "\<exists>t'. updateTransaction cast_as_is accept_all (JNum 1742000000000) [ex_doc] ex_tid ex_patch
          = (Ok 200 t', [t'])"
proof -
  have "\<not> bad_payment_status (delete_restricted ex_patch)"
    by (simp add: bad_payment_status_def delete_restricted_apply restrictedFields_def ex_patch_def
        js_truthy_def)
  moreover have "ex_tid \<noteq> []" by (simp add: ex_tid_def)
  moreover have "has_transaction_id ex_tid ex_doc"
    using ex_doc_found by (rule findOne_holds)
  ultimately show ?thesis
    by (simp add: updateTransaction_def ex_doc_found accept_all_def cast_as_is_total Let_def)
qed

lemma ex_patch_changes:
  "\<exists>p \<in> set transaction_paths. p \<notin> set restrictedFields
       \<and> (\<exists>v. ex_patch p = Some v \<and> cast_as_is p v \<noteq> ex_doc p)"
  by (rule bexI [of _ "''amount_paid''"])
     (simp_all add: transaction_paths_def restrictedFields_def ex_patch_def ex_doc_def cast_as_is_def)

lemma ex_patch_no_array:
  "\<not> (\<exists>p \<in> set transaction_paths. p \<notin> set restrictedFields
       \<and> (\<exists>v. ex_patch p = Some v \<and> cast_as_is p v \<noteq> ex_doc p \<and> is_array (cast_as_is p v)))"
  by (simp add: transaction_paths_def restrictedFields_def ex_patch_def cast_as_is_def is_array_def)

theorem updateTransaction_keeps_identifiers_witness:
  "findOne (has_transaction_id ex_tid) [ex_doc] = Some ex_doc
   \<and> ex_patch ''transaction_id'' = Some (JStr ''2099-01-00001-XXX'')
   \<and> ex_patch ''_id'' = Some (JStr ''forged'') \<and> ex_patch ''__v'' = Some (JNum 7)
   \<and> ex_patch ''createdAt'' = Some (JNum 1)
   \<and> updateTransaction cast_as_is accept_all (JNum 1742000000000) [ex_doc] ex_tid ex_patch
       = updateTransaction cast_as_is accept_all (JNum 1742000000000) [ex_doc] ex_tid
           (delete_restricted ex_patch)
   \<and> (\<exists>t'. fst (updateTransaction cast_as_is accept_all (JNum 1742000000000) [ex_doc] ex_tid ex_patch)
            = Ok 200 t'
          \<and> findOne (has_transaction_id ex_tid)
                (snd (updateTransaction cast_as_is accept_all (JNum 1742000000000) [ex_doc] ex_tid ex_patch))
              = Some t'
          \<and> t' ''transaction_id'' = Some (JStr ''2025-03-00001-VAL'')
          \<and> t' ''_id'' = Some (JStr ''65f0c0ffee'')
          \<and> t' ''__v'' = Some (JNum 0)
          \<and> t' ''createdAt'' = Some (JNum 1741000000000)
          \<and> t' ''updatedAt'' = Some (JNum 1742000000000)
          \<and> t' ''amount_paid'' = Some (JNum 250)
          \<and> t' ''payment_status'' = Some (JStr ''PARTIAL'')
          \<and> t' ''total_amount'' = Some (JNum 1000)
          \<and> t' ''nickname'' = None)"
proof -
  let ?r = "updateTransaction cast_as_is accept_all (JNum 1742000000000) [ex_doc] ex_tid ex_patch"
  have patch: "ex_patch ''transaction_id'' = Some (JStr ''2099-01-00001-XXX'')"
    "ex_patch ''_id'' = Some (JStr ''forged'')" "ex_patch ''__v'' = Some (JNum 7)"
    "ex_patch ''createdAt'' = Some (JNum 1)"
    by (simp_all add: ex_patch_def)
  from ex_patch_accepted obtain t' where ok: "fst ?r = Ok 200 t'" by auto
  note inst = updateTransaction_keeps_identifiers
      [OF ex_doc_found, of cast_as_is accept_all "JNum 1742000000000" ex_patch 200 t']
  note same = inst [THEN conjunct1]
  note after = inst [THEN conjunct2, THEN conjunct2, rule_format, OF ok]
  from after have stored: "findOne (has_transaction_id ex_tid) (snd ?r) = Some t'"
    and keep: "t' ''transaction_id'' = ex_doc ''transaction_id''" "t' ''_id'' = ex_doc ''_id''"
      "t' ''createdAt'' = ex_doc ''createdAt''"
    by blast+
  from after ex_patch_no_array have ver: "t' ''__v'' = ex_doc ''__v''" by simp
  from after ex_patch_changes have upd: "t' ''updatedAt'' = Some (JNum 1742000000000)" by simp
  from after have patched: "\<And>p v. p \<in> set transaction_paths \<Longrightarrow> p \<notin> set restrictedFields \<Longrightarrow>
                               ex_patch p = Some v \<Longrightarrow> t' p = cast_as_is p v"
    and rest: "\<And>p. p \<notin> set restrictedFields \<Longrightarrow> p \<notin> set transaction_paths \<or> ex_patch p = None \<Longrightarrow>
                               t' p = ex_doc p"
    by blast+
  have a: "t' ''amount_paid'' = Some (JNum 250)"
    by (subst patched [of _ "JNum 250"])
       (simp_all add: restrictedFields_def transaction_paths_def ex_patch_def cast_as_is_def)
  have b: "t' ''payment_status'' = Some (JStr ''PARTIAL'')"
    by (subst patched [of _ "JStr ''PARTIAL''"])
       (simp_all add: restrictedFields_def transaction_paths_def ex_patch_def cast_as_is_def)
  have c: "t' ''total_amount'' = Some (JNum 1000)"
    by (subst rest) (simp_all add: restrictedFields_def transaction_paths_def ex_patch_def ex_doc_def)
  have d: "t' ''nickname'' = None"
    by (subst rest) (simp_all add: restrictedFields_def transaction_paths_def ex_patch_def ex_doc_def)
  have k: "t' ''transaction_id'' = Some (JStr ''2025-03-00001-VAL'')"
    "t' ''_id'' = Some (JStr ''65f0c0ffee'')" "t' ''__v'' = Some (JNum 0)"
    "t' ''createdAt'' = Some (JNum 1741000000000)"
    using keep ver by (simp_all add: ex_doc_def)
  from ex_doc_found patch same ok stored k upd a b c d show ?thesis by blast
qed

lemma ex_array_patch_assigned:
  "assign_fields cast_as_is ex_doc (delete_restricted ex_array_patch)
     = ex_doc(''payments'' \<mapsto> JArr [JStr ''PAY-1-VAL''])"
  by (rule ext)
     (simp add: assign_fields_apply delete_restricted_apply restrictedFields_def transaction_paths_def
        ex_array_patch_def cast_as_is_def)

text \<open>
  A body that gives \<^verbatim>\<open>payments\<close> a new array: the save increments the version, so \<^verbatim>\<open>__v\<close> goes
  from 0 to 1 (the 7 that the body supplies is ignored).
\<close>

theorem updateTransaction_keeps_identifiers_counterexample:
  "findOne (has_transaction_id ex_tid) [ex_doc] = Some ex_doc
   \<and> ex_doc ''__v'' = Some (JNum 0)
   \<and> ex_array_patch ''__v'' = Some (JNum 7)
   \<and> ex_array_patch ''payments'' = Some (JArr [JStr ''PAY-1-VAL''])
   \<and> updateTransaction cast_as_is accept_all (JNum 1742000000000) [ex_doc] ex_tid ex_array_patch
       = (Ok 200 ex_versioned, [ex_versioned])
   \<and> ex_versioned ''__v'' = Some (JNum 1)"
proof -
  have "\<not> bad_payment_status (delete_restricted ex_array_patch)"
    by (simp add: bad_payment_status_def delete_restricted_apply restrictedFields_def
        ex_array_patch_def)
  moreover have "ex_tid \<noteq> []" by (simp add: ex_tid_def)
  moreover have "has_transaction_id ex_tid ex_doc"
    using ex_doc_found by (rule findOne_holds)
  moreover have "modified_paths ex_doc (ex_doc(''payments'' \<mapsto> JArr [JStr ''PAY-1-VAL''])) = [''payments'']"
    by (simp add: modified_paths_def transaction_paths_def ex_doc_def)
  moreover have "next_version ex_doc = JNum 1"
    by (simp add: next_version_def ex_doc_def)
  ultimately have eq: "updateTransaction cast_as_is accept_all (JNum 1742000000000) [ex_doc] ex_tid ex_array_patch
       = (Ok 200 ex_versioned, [ex_versioned])"
    by (simp add: updateTransaction_def ex_doc_found accept_all_def cast_as_is_total Let_def
        ex_array_patch_assigned save_document_def version_inc_def is_array_def ex_versioned_def)
  have v0: "ex_doc ''__v'' = Some (JNum 0)" by (simp add: ex_doc_def)
  have p: "ex_array_patch ''__v'' = Some (JNum 7)"
    "ex_array_patch ''payments'' = Some (JArr [JStr ''PAY-1-VAL''])"
    by (simp_all add: ex_array_patch_def)
  have v1: "ex_versioned ''__v'' = Some (JNum 1)" by (simp add: ex_versioned_def)
  from ex_doc_found v0 p eq v1 show ?thesis by blast
qed

section \<open>Properties of order intake\<close>

lemma save_line_items_Some:
  assumes "save_line_items fl now tid cid bid i items st = Some (lis, st')"
  shows "coll_line_items st' = coll_line_items st @ lis
       \<and> coll_customers st' = coll_customers st
       \<and> coll_transactions st' = coll_transactions st
       \<and> coll_payments st' = coll_payments st
       \<and> length lis = length items
       \<and> (\<forall>li \<in> set lis. li_transaction_id li = tid)
       \<and> (\<forall>k < length items. \<not> fl (WLineItem (i + k)))"
  using assms
proof (induction items arbitrary: i st lis)
  case Nil
  then show ?case by simp
next
  case (Cons item items)
  let ?li = "new_line_item now tid cid bid i item"
  from Cons.prems obtain st1 rest where
    ins: "insert_line_item fl i ?li st = Some st1"
    and rec: "save_line_items fl now tid cid bid (Suc i) items st1 = Some (rest, st')"
    and lis: "lis = ?li # rest"
    by (auto simp: Let_def split: option.splits prod.splits)
  from ins have st1: "st1 = st\<lparr>coll_line_items := coll_line_items st @ [?li]\<rparr>" "\<not> fl (WLineItem i)"
    by (auto simp: insert_line_item_def split: if_splits)
  note ih = Cons.IH [OF rec]
  have faults: "\<forall>k < length (item # items). \<not> fl (WLineItem (i + k))"
  proof (intro allI impI)
    fix k assume "k < length (item # items)"
    then show "\<not> fl (WLineItem (i + k))"
      using st1(2) ih by (cases k) auto
  qed
  have "li_transaction_id ?li = tid" by (simp add: new_line_item_def)
  with ih st1 lis faults show ?case by auto
qed

lemma resolve_customer_Some:
  assumes "resolve_customer fl c0 bnum data st = Some (c, st')"
  shows "c \<in> set (coll_customers st')
       \<and> coll_line_items st' = coll_line_items st
       \<and> coll_transactions st' = coll_transactions st
       \<and> coll_payments st' = coll_payments st"
  using assms
  by (auto simp: resolve_customer_def insert_customer_def findOne_def Let_def find_Some_iff
      split: option.splits if_splits)

lemma save_transaction_with_payment_Some:
  assumes "save_transaction_with_payment fl now c0 bc data trx st = Some (saved, st')"
  shows "\<not> fl WTransaction
       \<and> saved \<in> set (coll_transactions st')
       \<and> coll_customers st' = coll_customers st
       \<and> coll_line_items st' = coll_line_items st
       \<and> transaction_id saved = transaction_id trx
       \<and> line_item_id saved = line_item_id trx
       \<and> no_pairs saved = no_pairs trx
       \<and> (the_default 0 (in_amount_paid data) > 0 \<longrightarrow>
            (\<exists>p \<in> set (coll_payments st').
               payments saved = [payment_id p] \<and> p_transaction_id p = transaction_id saved
               \<and> payment_amount p = the_default 0 (in_amount_paid data)))"
  using assms
  by (auto simp: save_transaction_with_payment_def insert_transaction_def save_payment_def Let_def
      split: option.splits if_splits)


lemma createServiceRequest_outcome:
  "(\<exists>c errs. createServiceRequest fl now db data = (Rejected c errs, db))
   \<or> (\<exists>cust lis trx db'. createServiceRequest fl now db data = (Created cust lis trx, db'))"
  by (auto simp: createServiceRequest_def Let_def split: option.splits prod.splits)

lemma createServiceRequest_Created:
  assumes "createServiceRequest fl now db data = (Created cust lis trx, db')"
  shows "\<exists>(br :: branch) st1 st2.
           resolve_customer fl db (branch_number br) data db = Some (cust, st1)
         \<and> save_line_items fl now (generateTransactionId (coll_transactions db) now (branch_code br))
               (c_cust_id cust) (in_branch_id data) 0 (in_lineItems data) st1 = Some (lis, st2)
         \<and> save_transaction_with_payment fl now db (branch_code br) data
               (new_transaction now (generateTransactionId (coll_transactions db) now (branch_code br))
                  (c_cust_id cust) data lis) st2 = Some (trx, db')
         \<and> \<not> fl WCommit"
  using assms
  by (auto simp: createServiceRequest_def Let_def split: option.splits prod.splits if_splits)

text \<open>
  Claim C4.  \<^verbatim>\<open>createServiceRequest\<close> is atomic.  Either the call is rejected and the store
  is exactly as before, or it answers with the customer, the line items and the
  transaction, and then the customer, all N line items, the transaction and, when
  \<^verbatim>\<open>amount_paid > 0\<close>, the initial payment are all in the store.  A storage failure of any
  line-item write, of the transaction write or of the commit (however many writes went
  before it) makes the call a rejected one, so nothing of it is persisted.
\<close>

theorem createServiceRequest_atomic:
  "((\<exists>c errs. createServiceRequest fl now db data = (Rejected c errs, db))
    \<or> (\<exists>cust lis trx db'.
          createServiceRequest fl now db data = (Created cust lis trx, db')
          \<and> cust \<in> set (coll_customers db')
          \<and> length lis = length (in_lineItems data)
          \<and> set lis \<subseteq> set (coll_line_items db')
          \<and> (\<forall>li \<in> set lis. li_transaction_id li = transaction_id trx)
          \<and> trx \<in> set (coll_transactions db')
          \<and> line_item_id trx = map li_line_item_id lis
          \<and> no_pairs trx = of_nat (length (in_lineItems data))
          \<and> (the_default 0 (in_amount_paid data) > 0 \<longrightarrow>
                (\<exists>p \<in> set (coll_payments db').
                   payments trx = [payment_id p] \<and> p_transaction_id p = transaction_id trx
                   \<and> payment_amount p = the_default 0 (in_amount_paid data)))))
   \<and> (fl WTransaction \<or> fl WCommit \<or> (\<exists>i < length (in_lineItems data). fl (WLineItem i))
        \<longrightarrow> (\<exists>c errs. createServiceRequest fl now db data = (Rejected c errs, db)))"
proof -
  have created: "cust \<in> set (coll_customers db')
          \<and> length lis = length (in_lineItems data)
          \<and> set lis \<subseteq> set (coll_line_items db')
          \<and> (\<forall>li \<in> set lis. li_transaction_id li = transaction_id trx)
          \<and> trx \<in> set (coll_transactions db')
          \<and> line_item_id trx = map li_line_item_id lis
          \<and> no_pairs trx = of_nat (length (in_lineItems data))
          \<and> (the_default 0 (in_amount_paid data) > 0 \<longrightarrow>
                (\<exists>p \<in> set (coll_payments db').
                   payments trx = [payment_id p] \<and> p_transaction_id p = transaction_id trx
                   \<and> payment_amount p = the_default 0 (in_amount_paid data)))
          \<and> \<not> fl WTransaction \<and> \<not> fl WCommit
          \<and> (\<forall>k < length (in_lineItems data). \<not> fl (WLineItem k))"
    if ok: "createServiceRequest fl now db data = (Created cust lis trx, db')"
    for cust lis trx db'
  proof -
    from createServiceRequest_Created [OF ok] obtain br :: branch and st1 st2 where
      rc: "resolve_customer fl db (branch_number br) data db = Some (cust, st1)"
      and sl: "save_line_items fl now (generateTransactionId (coll_transactions db) now (branch_code br))
               (c_cust_id cust) (in_branch_id data) 0 (in_lineItems data) st1 = Some (lis, st2)"
      and st: "save_transaction_with_payment fl now db (branch_code br) data
               (new_transaction now (generateTransactionId (coll_transactions db) now (branch_code br))
                  (c_cust_id cust) data lis) st2 = Some (trx, db')"
      and commit: "\<not> fl WCommit" by blast
    note a = resolve_customer_Some [OF rc]
    note b = save_line_items_Some [OF sl]
    note c = save_transaction_with_payment_Some [OF st]
    have tid: "transaction_id trx = generateTransactionId (coll_transactions db) now (branch_code br)"
      using c by (simp add: new_transaction_def)
    have 1: "cust \<in> set (coll_customers db')" using a b c by simp
    have 2: "length lis = length (in_lineItems data)" using b by simp
    have 3: "set lis \<subseteq> set (coll_line_items db')" using b c by auto
    have 4: "\<forall>li \<in> set lis. li_transaction_id li = transaction_id trx" using b tid by simp
    have 5: "trx \<in> set (coll_transactions db')" using c by simp
    have 6: "line_item_id trx = map li_line_item_id lis" using c by (simp add: new_transaction_def)
    have 7: "no_pairs trx = of_nat (length (in_lineItems data))"
      using c 2 by (simp add: new_transaction_def)
    have 8: "the_default 0 (in_amount_paid data) > 0 \<longrightarrow>
                (\<exists>p \<in> set (coll_payments db').
                   payments trx = [payment_id p] \<and> p_transaction_id p = transaction_id trx
                   \<and> payment_amount p = the_default 0 (in_amount_paid data))"
      using c by blast
    have 9: "\<not> fl WTransaction" using c by blast
    have 10: "\<forall>k < length (in_lineItems data). \<not> fl (WLineItem k)" using b by simp
    from 1 2 3 4 5 6 7 8 9 commit 10 show ?thesis by blast
  qed
  show ?thesis
  proof (cases "\<exists>c errs. createServiceRequest fl now db data = (Rejected c errs, db)")
    case True
    then show ?thesis by blast
  next
    case False
    with createServiceRequest_outcome [of fl now db data] obtain cust lis trx db'
      where ok: "createServiceRequest fl now db data = (Created cust lis trx, db')" by blast
    from created [OF ok] ok show ?thesis by blast
  qed
qed

lemmas intake_defs = createServiceRequest_def validateServiceRequestInput_def validate_line_item_def
  validate_service_def err_if_def PRIORITY_ENUM_def CURRENT_LOCATION_ENUM_def PAYMENT_STATUS_ENUM_def
  PAYMENT_MODE_ENUM_def unique_first_def resolve_customer_def insert_customer_def or_null_def
  save_transaction_with_payment_def insert_transaction_def insert_line_item_def new_line_item_def
  new_transaction_def generateCustomerId_def generateTransactionId_def generateLineItemId_def
  transaction_id_matches_def yearMonth_of_def greatest_def parseInt_opt_def parseInt_def
  is_space_def

lemma ex_order_valid: "validateServiceRequestInput ex_order = []"
  by (simp add: ex_order_def ex_item_def intake_defs truthy_def enumerate_eq_zip upt_rec)


lemma ex_transaction_id:
  "generateTransactionId (coll_transactions ex_store) ex_now (branch_code ex_branch) = ''2025-03-00002-VAL''"
  by (simp add: ex_store_def ex_branch_def ex_transaction_def ex_now_def intake_defs js_string_defs
      replicate_small)

lemma ex_customer_id: "generateCustomerId (coll_customers ex_store) 1 = ''CUST-1-2''"
  by (simp add: ex_store_def ex_customer_def intake_defs js_string_defs replicate_small)

lemma ex_payment_id: "generatePaymentId (coll_payments ex_store) ''VAL'' = ''PAY-1-VAL''"
  by (simp add: ex_store_def payment_id_defs js_string_defs)

lemma ex_branch_found:
  "findOne (\<lambda>b. b_branch_id b = in_branch_id ex_order) (coll_branches ex_store) = Some ex_branch"
  by (simp add: findOne_def ex_store_def ex_branch_def ex_order_def)

lemma ex_services_known:
  "filter (\<lambda>i. i \<notin> set (filter (\<lambda>s. s \<in> set (unique_first (concat (map (\<lambda>li. map service_id (in_services li)) (in_lineItems ex_order))))) (coll_services ex_store)))
      (unique_first (concat (map (\<lambda>li. map service_id (in_services li)) (in_lineItems ex_order)))) = []"
  by (simp add: ex_order_def ex_item_def ex_store_def unique_first_def)

lemma ex_customer_created:
  "\<not> fl WCustomer \<Longrightarrow>
   resolve_customer fl ex_store (branch_number ex_branch) ex_order ex_store =
     Some (ex_ben, ex_store\<lparr>coll_customers := [ex_customer, ex_ben]\<rparr>)"
  using ex_customer_id
  by (simp add: resolve_customer_def insert_customer_def findOne_def or_null_def truthy_def
      ex_store_def ex_customer_def ex_order_def ex_ben_def ex_branch_def Let_def)

lemma ex_line_item_ids:
  "generateLineItemId ''2025-03-00002-VAL'' 0 = ''2025-03-00002-001-VAL''"
  "generateLineItemId ''2025-03-00002-VAL'' (Suc 0) = ''2025-03-00002-002-VAL''"
  "generateLineItemId ''2025-03-00002-VAL'' (Suc (Suc 0)) = ''2025-03-00002-003-VAL''"
  by (simp_all add: generateLineItemId_def js_string_defs replicate_small)

lemma new_line_item_id [simp]:
  "li_line_item_id (new_line_item now tid cid bid i item) = generateLineItemId tid i"
  by (simp add: new_line_item_def)

lemma ex_items_created:
  assumes "\<not> fl (WLineItem 0)" "\<not> fl (WLineItem 1)" "\<not> fl (WLineItem 2)"
  shows "save_line_items fl ex_now ''2025-03-00002-VAL'' (c_cust_id ex_ben) (in_branch_id ex_order) 0
           (in_lineItems ex_order) (ex_store\<lparr>coll_customers := [ex_customer, ex_ben]\<rparr>) =
         Some (ex_created_items,
               ex_store\<lparr>coll_customers := [ex_customer, ex_ben],
                 coll_line_items := ex_line_item # ex_created_items\<rparr>)"
  using assms
  by (simp add: ex_created_items_def ex_order_def insert_line_item_def ex_line_item_ids
      ex_store_def ex_line_item_def ex_ben_def enumerate_eq_zip upt_rec Let_def numeral_2_eq_2)


lemma ex_transaction_saved:
  assumes "\<not> fl WPayment" "\<not> fl WTransaction"
  shows "save_transaction_with_payment fl ex_now ex_store (branch_code ex_branch) ex_order
           (new_transaction ex_now ''2025-03-00002-VAL'' (c_cust_id ex_ben) ex_order ex_created_items)
           (ex_store\<lparr>coll_customers := [ex_customer, ex_ben],
              coll_line_items := ex_line_item # ex_created_items\<rparr>) =
         Some (ex_created_transaction, ex_store_after_order)"
  using assms ex_payment_id
  by (simp add: save_transaction_with_payment_def save_payment_def payment_valid_def
      PAYMENT_MODES_def insert_transaction_def the_default_def ex_branch_def
      ex_created_transaction_def ex_initial_payment_def ex_store_after_order_def
      new_transaction_def ex_order_def ex_store_def ex_transaction_def ex_ben_def Let_def)

lemma ex_order_created:
  "createServiceRequest no_faults ex_now ex_store ex_order =
     (Created ex_ben ex_created_items ex_created_transaction, ex_store_after_order)"
proof -
  have nf: "\<And>w. \<not> no_faults w" by (simp add: no_faults_def)
  show ?thesis
    unfolding createServiceRequest_def Let_def
    by (simp add: ex_order_valid ex_branch_found ex_services_known [simplified]
        ex_customer_created [OF nf]
        ex_transaction_id ex_items_created [OF nf nf nf] ex_transaction_saved [OF nf nf] nf)
qed


theorem createServiceRequest_atomic_witness:
  "third_item_write_fails (WLineItem 2) \<and> 2 < length (in_lineItems ex_order)
   \<and> (\<exists>c errs. createServiceRequest third_item_write_fails ex_now ex_store ex_order
                  = (Rejected c errs, ex_store))
   \<and> transaction_write_fails WTransaction
   \<and> (\<exists>c errs. createServiceRequest transaction_write_fails ex_now ex_store ex_order
                  = (Rejected c errs, ex_store))
   \<and> createServiceRequest no_faults ex_now ex_store ex_order
       = (Created ex_ben ex_created_items ex_created_transaction, ex_store_after_order)
   \<and> ex_ben \<in> set (coll_customers ex_store_after_order)
   \<and> length ex_created_items = length (in_lineItems ex_order)
   \<and> set ex_created_items \<subseteq> set (coll_line_items ex_store_after_order)
   \<and> ex_created_transaction \<in> set (coll_transactions ex_store_after_order)
   \<and> no_pairs ex_created_transaction = 3
   \<and> 0 < the_default 0 (in_amount_paid ex_order)
   \<and> (\<exists>p \<in> set (coll_payments ex_store_after_order).
          payments ex_created_transaction = [payment_id p]
          \<and> p_transaction_id p = transaction_id ex_created_transaction
          \<and> payment_amount p = the_default 0 (in_amount_paid ex_order))"
proof -
  have f3: "third_item_write_fails (WLineItem 2)" by (simp add: third_item_write_fails_def)
  have n: "length (in_lineItems ex_order) = 3" by (simp add: ex_order_def)
  then have n2: "2 < length (in_lineItems ex_order)" by simp
  have ft: "transaction_write_fails WTransaction" by (simp add: transaction_write_fails_def)
  have paid: "0 < the_default 0 (in_amount_paid ex_order)"
    by (simp add: ex_order_def the_default_def)
  from createServiceRequest_atomic [of third_item_write_fails ex_now ex_store ex_order] f3 n2
  have 1: "\<exists>c errs. createServiceRequest third_item_write_fails ex_now ex_store ex_order
                  = (Rejected c errs, ex_store)" by blast
  from createServiceRequest_atomic [of transaction_write_fails ex_now ex_store ex_order] ft
  have 2: "\<exists>c errs. createServiceRequest transaction_write_fails ex_now ex_store ex_order
                  = (Rejected c errs, ex_store)" by blast
  from createServiceRequest_atomic [of no_faults ex_now ex_store ex_order] paid
  have 3: "ex_ben \<in> set (coll_customers ex_store_after_order)
     \<and> length ex_created_items = length (in_lineItems ex_order)
     \<and> set ex_created_items \<subseteq> set (coll_line_items ex_store_after_order)
     \<and> ex_created_transaction \<in> set (coll_transactions ex_store_after_order)
     \<and> no_pairs ex_created_transaction = of_nat (length (in_lineItems ex_order))
     \<and> (\<exists>p \<in> set (coll_payments ex_store_after_order).
          payments ex_created_transaction = [payment_id p]
          \<and> p_transaction_id p = transaction_id ex_created_transaction
          \<and> payment_amount p = the_default 0 (in_amount_paid ex_order))"
    unfolding ex_order_created by simp
  then have 4: "no_pairs ex_created_transaction = 3" using n by simp
  from f3 n2 1 ft 2 ex_order_created 3 4 paid show ?thesis by blast
qed

subsection \<open>The paid amount, from creation through payments\<close>

lemma save_transaction_with_payment_amounts:
  assumes "save_transaction_with_payment fl now c0 bc data trx st = Some (saved, st')"
  shows "amount_paid saved = amount_paid trx \<and> total_amount saved = total_amount trx"
  using assms
  by (auto simp: save_transaction_with_payment_def Let_def split: option.splits if_splits)

lemma created_amounts:
  assumes "createServiceRequest fl now db data = (Created cust items trx, db')"
  shows "amount_paid trx = the_default 0 (in_amount_paid data)
       \<and> total_amount trx = the_default 0 (in_total_amount data)
       \<and> trx \<in> set (coll_transactions db')"
proof -
  from createServiceRequest_Created [OF assms] obtain br :: branch and st2 where
    st: "save_transaction_with_payment fl now db (branch_code br) data
               (new_transaction now (generateTransactionId (coll_transactions db) now (branch_code br))
                  (c_cust_id cust) data items) st2 = Some (trx, db')"
    by blast
  from save_transaction_with_payment_amounts [OF st] save_transaction_with_payment_Some [OF st]
  show ?thesis by (simp add: new_transaction_def)
qed

text \<open>
  Claim C1, as amended.  \<^verbatim>\<open>applyPayment\<close> clamps \<^verbatim>\<open>amount_paid\<close> from above only: a
  successful call stores \<open>min total_amount (amount_paid + dueNow)\<close>, whatever the sign or
  the magnitude of \<^verbatim>\<open>dueNow\<close> and whatever \<^verbatim>\<open>amount_paid\<close> the transaction had before.
  Hence over every sequence of calls \<^verbatim>\<open>amount_paid\<close> stays at most \<^verbatim>\<open>total_amount\<close> once it
  is, and it stays non-negative when the transaction starts with non-negative
  \<^verbatim>\<open>amount_paid\<close> and \<^verbatim>\<open>total_amount\<close> and no \<^verbatim>\<open>dueNow\<close> is negative.  With
  \<^verbatim>\<open>total_amount = 1000\<close>, one call with \<^verbatim>\<open>dueNow = 1500\<close> leaves \<^verbatim>\<open>amount_paid = 1000\<close>.
  \<^verbatim>\<open>createServiceRequest\<close> stores the \<^verbatim>\<open>amount_paid\<close> and the \<^verbatim>\<open>total_amount\<close> it is given,
  unclamped.
\<close>

theorem amount_paid_bounds:
  assumes "stored_transaction db tid = Some t"
  shows "(amount_paid t \<le> total_amount t \<longrightarrow>
            (\<forall>s \<in> set (applyPayment_trace db tid calls).
               \<exists>t'. stored_transaction s tid = Some t' \<and> amount_paid t' \<le> total_amount t'))
       \<and> (0 \<le> amount_paid t \<and> 0 \<le> total_amount t
            \<and> (\<forall>c \<in> set calls. \<forall>d. dueNow (snd (snd c)) = Some d \<longrightarrow> 0 \<le> d) \<longrightarrow>
            (\<forall>s \<in> set (applyPayment_trace db tid calls).
               \<exists>t'. stored_transaction s tid = Some t' \<and> 0 \<le> amount_paid t'))
       \<and> (dueNow body = Some d \<and> fst (applyPayment fl now db tid body) = Ok 200 t' \<longrightarrow>
            amount_paid t' = min (total_amount t) (amount_paid t + d)
            \<and> stored_transaction (snd (applyPayment fl now db tid body)) tid = Some t')
       \<and> (createServiceRequest fl0 now0 db0 data = (Created cust items trx, db1) \<longrightarrow>
            amount_paid trx = the_default 0 (in_amount_paid data)
            \<and> total_amount trx = the_default 0 (in_total_amount data)
            \<and> trx \<in> set (coll_transactions db1))"
proof (intro conjI impI)
  assume "amount_paid t \<le> total_amount t"
  then show "\<forall>s \<in> set (applyPayment_trace db tid calls).
               \<exists>t'. stored_transaction s tid = Some t' \<and> amount_paid t' \<le> total_amount t'"
    by (intro trace_invariant [where Q = "\<lambda>_. True"
          and I = "\<lambda>t'. amount_paid t' \<le> total_amount t'"])
       (use assms in \<open>auto simp: paid_transaction_fields\<close>)
next
  assume a: "0 \<le> amount_paid t \<and> 0 \<le> total_amount t
            \<and> (\<forall>c \<in> set calls. \<forall>d. dueNow (snd (snd c)) = Some d \<longrightarrow> 0 \<le> d)"
  have "\<forall>s \<in> set (applyPayment_trace db tid calls).
               \<exists>t'. stored_transaction s tid = Some t' \<and> (0 \<le> amount_paid t' \<and> 0 \<le> total_amount t')"
    by (rule trace_invariant [where Q = "\<lambda>b. \<forall>d. dueNow b = Some d \<longrightarrow> 0 \<le> d"
          and I = "\<lambda>t'. 0 \<le> amount_paid t' \<and> 0 \<le> total_amount t'"])
       (use assms a in \<open>auto simp: paid_transaction_fields\<close>)
  then show "\<forall>s \<in> set (applyPayment_trace db tid calls).
               \<exists>t'. stored_transaction s tid = Some t' \<and> 0 \<le> amount_paid t'"
    by blast
next
  assume b: "dueNow body = Some d \<and> fst (applyPayment fl now db tid body) = Ok 200 t'"
  with applyPayment_ok [OF assms, of fl now body 200 t']
  have t': "t' = paid_transaction fl now db body d t"
    and st: "stored_transaction (snd (applyPayment fl now db tid body)) tid = Some t'"
    by auto
  show "amount_paid t' = min (total_amount t) (amount_paid t + d)"
    by (simp add: t' paid_transaction_fields min_def)
  show "stored_transaction (snd (applyPayment fl now db tid body)) tid = Some t'"
    by (rule st)
next
  assume c: "createServiceRequest fl0 now0 db0 data = (Created cust items trx, db1)"
  from created_amounts [OF c]
  show "amount_paid trx = the_default 0 (in_amount_paid data)"
    and "total_amount trx = the_default 0 (in_total_amount data)"
    and "trx \<in> set (coll_transactions db1)"
    by simp_all
qed

theorem amount_paid_bounds_witness:
  "stored_transaction ex_store ex_tid = Some ex_transaction
   \<and> amount_paid ex_transaction = 0 \<and> total_amount ex_transaction = 1000
   \<and> dueNow ex_overpay = Some 1500
   \<and> fst (applyPayment no_faults ex_now ex_store ex_tid ex_overpay) = Ok 200 ex_paid
   \<and> amount_paid ex_paid = min 1000 (0 + 1500)
   \<and> amount_paid ex_paid = 1000
   \<and> (\<exists>t'. stored_transaction (last (applyPayment_trace ex_store ex_tid [ex_overpay_call])) ex_tid = Some t'
            \<and> amount_paid t' \<le> total_amount t')
   \<and> (\<exists>t'. stored_transaction (last (applyPayment_trace ex_store ex_tid [ex_overpay_call])) ex_tid = Some t'
            \<and> 0 \<le> amount_paid t')
   \<and> createServiceRequest no_faults ex_now ex_store ex_order
       = (Created ex_ben ex_created_items ex_created_transaction, ex_store_after_order)
   \<and> amount_paid ex_created_transaction = 200 \<and> total_amount ex_created_transaction = 500"
proof -
  note inst = amount_paid_bounds [OF ex_stored, of "[ex_overpay_call]" ex_overpay 1500 no_faults ex_now ex_paid
      no_faults ex_now ex_store ex_order ex_ben ex_created_items ex_created_transaction
      ex_store_after_order]
  have v: "amount_paid ex_transaction = 0" "total_amount ex_transaction = 1000"
    by (simp_all add: ex_transaction_def)
  have d: "dueNow ex_overpay = Some 1500"
    by (simp add: ex_overpay_def ex_body_def)
  have ok: "fst (applyPayment no_faults ex_now ex_store ex_tid ex_overpay) = Ok 200 ex_paid"
    by (simp add: ex_overpay_result)
  have nonneg: "\<forall>c \<in> set [ex_overpay_call]. \<forall>d. dueNow (snd (snd c)) = Some d \<longrightarrow> 0 \<le> d"
    by (simp add: ex_overpay_call_def d)
  have last_in: "last (applyPayment_trace ex_store ex_tid [ex_overpay_call])
                   \<in> set (applyPayment_trace ex_store ex_tid [ex_overpay_call])"
    by (rule last_in_set) (rule trace_nonempty)
  from inst v d ok have p: "amount_paid ex_paid = min 1000 (0 + 1500)" by simp
  then have p': "amount_paid ex_paid = 1000" by simp
  from inst v last_in
  have u: "\<exists>t'. stored_transaction (last (applyPayment_trace ex_store ex_tid [ex_overpay_call])) ex_tid = Some t'
            \<and> amount_paid t' \<le> total_amount t'" by simp
  from inst v nonneg last_in
  have l: "\<exists>t'. stored_transaction (last (applyPayment_trace ex_store ex_tid [ex_overpay_call])) ex_tid = Some t'
            \<and> 0 \<le> amount_paid t'" by simp
  from inst ex_order_created
  have c: "amount_paid ex_created_transaction = 200" "total_amount ex_created_transaction = 500"
    by (simp_all add: ex_order_def the_default_def)
  from ex_stored v d ok p p' u l ex_order_created c show ?thesis by blast
qed

text \<open>
  There is no clamp from below: a negative \<^verbatim>\<open>dueNow\<close> takes \<^verbatim>\<open>amount_paid\<close> below zero.
\<close>

theorem amount_paid_bounds_counterexample:
  "stored_transaction ex_store ex_tid = Some ex_transaction
   \<and> amount_paid ex_transaction = 0 \<and> total_amount ex_transaction = 1000
   \<and> dueNow ex_refund = Some (- 500)
   \<and> applyPayment no_faults ex_now ex_store ex_tid ex_refund =
       (Ok 200 (ex_transaction\<lparr>amount_paid := - 500\<rparr>),
        ex_store\<lparr>coll_transactions := [ex_transaction\<lparr>amount_paid := - 500\<rparr>]\<rparr>)
   \<and> amount_paid (ex_transaction\<lparr>amount_paid := - 500\<rparr>) < 0"
  using ex_stored ex_refund_result
  by (simp add: ex_transaction_def ex_refund_def ex_body_def)

section \<open>Properties of the change notifier\<close>

lemma close_stream_simps [simp]:
  "activeStreams (close_stream st sid) = activeStreams st"
  "next_stream (close_stream st sid) = next_stream st"
  "timers (close_stream st sid) = timers st"
  by (simp_all add: close_stream_def split: option.splits)

lemma close_stream_other:
  "sid' \<noteq> sid \<Longrightarrow> streams (close_stream st sid) sid' = streams st sid'"
  by (simp add: close_stream_def split: option.splits)

lemma reopen_target_wf:
  assumes "active_wf st"
  shows "active_wf (reopen_target ok st tg)"
proof -
  let ?st1 = "case map_of (activeStreams st) (event tg) of None \<Rightarrow> st | Some sid \<Rightarrow> close_stream st sid"
  have a: "activeStreams ?st1 = activeStreams st" "next_stream ?st1 = next_stream st"
    by (simp_all split: option.splits)
  show ?thesis
    using assms
    unfolding active_wf_def reopen_target_def watchTarget_def Let_def
    by (auto simp: a less_Suc_eq update_conv' delete_conv' split: if_splits)
qed

lemma reopen_target_opens:
  assumes "ok (collectionName tg)"
  shows "fresh_active (reopen_target ok st tg) tg"
  using assms
  by (simp add: fresh_active_def reopen_target_def watchTarget_def Let_def update_conv')

lemma reopen_target_keeps:
  assumes "active_wf st" "fresh_active st tg'" "event tg' \<noteq> event tg"
  shows "fresh_active (reopen_target ok st tg) tg'"
proof -
  from assms(2) obtain sid s where
    act: "map_of (activeStreams st) (event tg') = Some sid" and str: "streams st sid = Some s"
    and s: "cs_target s = tg'" "resumeAfter s = None" "currentToken s = None"
      "backoffDelay s = backoff_floor" "\<not> closed s"
    by (auto simp: fresh_active_def split: option.splits)
  let ?st1 = "case map_of (activeStreams st) (event tg) of None \<Rightarrow> st | Some sid \<Rightarrow> close_stream st sid"
  have a: "activeStreams ?st1 = activeStreams st" "next_stream ?st1 = next_stream st"
    by (simp_all split: option.splits)
  have other: "map_of (activeStreams st) (event tg) \<noteq> Some sid"
    using assms(1,3) act by (auto simp: active_wf_def)
  then have str1: "streams ?st1 sid = Some s"
    using str by (auto simp: close_stream_other split: option.splits)
  have lt: "sid < next_stream st"
    using assms(1) act by (auto simp: active_wf_def)
  show ?thesis
    using act str1 s lt assms(3)
    by (simp add: fresh_active_def reopen_target_def watchTarget_def Let_def a update_conv'
        delete_conv')
qed

lemma openAllStreams_fresh:
  assumes "active_wf st" "distinct (map event ts)"
  shows "active_wf (foldl (reopen_target ok) st ts)
       \<and> (\<forall>tg \<in> set ts. ok (collectionName tg) \<longrightarrow> fresh_active (foldl (reopen_target ok) st ts) tg)"
  using assms(2)
proof (induction ts rule: rev_induct)
  case Nil
  then show ?case using assms(1) by simp
next
  case (snoc t ts)
  let ?mid = "foldl (reopen_target ok) st ts"
  from snoc have ih: "active_wf ?mid"
    "\<forall>tg \<in> set ts. ok (collectionName tg) \<longrightarrow> fresh_active ?mid tg" by simp_all
  have wf: "active_wf (reopen_target ok ?mid t)" using ih(1) by (rule reopen_target_wf)
  have "fresh_active (reopen_target ok ?mid t) tg"
    if "tg \<in> set (ts @ [t])" "ok (collectionName tg)" for tg
  proof (cases "tg = t")
    case True
    then show ?thesis using that(2) by (simp add: reopen_target_opens)
  next
    case False
    with that have "tg \<in> set ts" by simp
    moreover have "event tg \<noteq> event t"
    proof
      assume e: "event tg = event t"
      from \<open>tg \<in> set ts\<close> have "event tg \<in> set (map event ts)" by (metis image_eqI set_map)
      moreover from snoc.prems have "event t \<notin> set (map event ts)" by simp
      ultimately show False using e by simp
    qed
    ultimately show ?thesis using ih that(2) by (intro reopen_target_keeps) auto
  qed
  with wf show ?case by simp
qed

lemma streams_close_stream:
  "streams (close_stream st a) sid =
     (case streams st sid of
        None \<Rightarrow> None
      | Some s \<Rightarrow> Some (if sid = a then s\<lparr>closed := True\<rparr> else s))"
  by (simp add: close_stream_def split: option.splits)

lemma foldl_close_stream:
  "streams (foldl close_stream st sids) sid =
     (case streams st sid of
        None \<Rightarrow> None
      | Some s \<Rightarrow> Some (if sid \<in> set sids then s\<lparr>closed := True\<rparr> else s))"
proof (induction sids arbitrary: st)
  case Nil
  show ?case by (simp split: option.splits)
next
  case (Cons a sids)
  have "streams (foldl close_stream (close_stream st a) sids) sid =
     (case streams (close_stream st a) sid of
        None \<Rightarrow> None
      | Some s \<Rightarrow> Some (if sid \<in> set sids then s\<lparr>closed := True\<rparr> else s))"
    by (rule Cons.IH)
  then show ?case
    by (simp add: streams_close_stream split: option.splits)
qed

lemma close_stream_fields [simp]:
  "emitted (close_stream st a) = emitted st"
  by (simp add: close_stream_def split: option.splits)

lemma foldl_close_stream_fields [simp]:
  "timers (foldl close_stream st sids) = timers st"
  "next_stream (foldl close_stream st sids) = next_stream st"
  "emitted (foldl close_stream st sids) = emitted st"
  by (induction sids arbitrary: st) simp_all

lemma change_resets_backoff:
  assumes "streams st sid = Some s"
  shows "streams (notifier_step st (Change sid ch)) sid
           = Some (s\<lparr>currentToken := Some (ch_id ch), backoffDelay := backoff_floor\<rparr>)"
  using assms by (simp add: on_change_def)

lemma restart_after_failure:
  assumes "streams st sid = Some s" "map_of (activeStreams st) (event (cs_target s)) = Some sid"
    and "ev = StreamError sid \<or> ev = StreamClose sid"
  shows "map_of (activeStreams (notifier_step st ev)) (event (cs_target s)) = None"
    and "streams (notifier_step st ev) sid = Some (s\<lparr>closed := True\<rparr>)"
    and "timers (notifier_step st ev) = timers st @ [RestartTimer sid (min (backoffDelay s * 2) backoff_cap)]"
    and "notifier_step (notifier_step st ev) (TimerFired (length (timers st)) True) =
           watchTarget ((notifier_step st ev)\<lparr>timers := timers st\<rparr>) (cs_target s) (currentToken s)
             (min (backoffDelay s * 2) backoff_cap) True"
  using assms by (auto simp: scheduleRestart_def on_timer_def Let_def delete_conv')

lemma watchTarget_opens:
  "map_of (activeStreams (watchTarget st tg tok d True)) (event tg) = Some (next_stream st)"
  "streams (watchTarget st tg tok d True) (next_stream st)
     = Some \<lparr>cs_target = tg, resumeAfter = tok, currentToken = tok, backoffDelay = d, closed = False\<rparr>"
  by (simp_all add: watchTarget_def Let_def update_conv')

lemma disconnect_closes_all:
  "activeStreams (notifier_step st Disconnected) = []"
  "timers (notifier_step st Disconnected) = timers st"
  "map_of (activeStreams st) e = Some sid \<Longrightarrow> streams st sid = Some s
     \<Longrightarrow> streams (notifier_step st Disconnected) sid = Some (s\<lparr>closed := True\<rparr>)"
proof -
  show "activeStreams (notifier_step st Disconnected) = []"
    and "timers (notifier_step st Disconnected) = timers st"
    by (simp_all add: on_disconnected_def)
  assume a: "map_of (activeStreams st) e = Some sid" "streams st sid = Some s"
  then have "(e, sid) \<in> set (activeStreams st)" by (auto dest: map_of_SomeD)
  then have "sid \<in> set (map snd (activeStreams st))" by force
  with a(2) show "streams (notifier_step st Disconnected) sid = Some (s\<lparr>closed := True\<rparr>)"
    by (simp add: on_disconnected_def foldl_close_stream)
qed

lemma WATCH_TARGETS_distinct: "distinct (map event WATCH_TARGETS)"
  by (simp add: WATCH_TARGETS_def)

lemma reconnect_reopens_fresh:
  assumes "active_wf st" "tg \<in> set WATCH_TARGETS" "ok (collectionName tg)"
  shows "fresh_active (notifier_step st (Reconnected ok)) tg"
  using openAllStreams_fresh [OF assms(1) WATCH_TARGETS_distinct, of ok] assms(2,3)
  by (simp add: openAllStreams_def)

lemma active_wf_watchTarget:
  "active_wf st \<Longrightarrow> active_wf (watchTarget st tg tok d ok)"
  unfolding active_wf_def watchTarget_def Let_def
  by (auto simp: less_Suc_eq update_conv' split: if_splits)

lemma active_wf_timers [simp]: "active_wf (st\<lparr>timers := ts\<rparr>) = active_wf st"
  by (simp add: active_wf_def)

lemma active_wf_step:
  assumes "active_wf st"
  shows "active_wf (notifier_step st ev)"
proof (cases ev)
  case (Change sid ch)
  then show ?thesis using assms by (auto simp: on_change_def active_wf_def split: option.splits)
next
  case (StreamError sid)
  then show ?thesis using assms
    by (auto simp: scheduleRestart_def active_wf_def Let_def delete_conv' split: option.splits if_splits)
next
  case (StreamClose sid)
  then show ?thesis using assms
    by (auto simp: scheduleRestart_def active_wf_def Let_def delete_conv' split: option.splits if_splits)
next
  case (TimerFired k ok)
  then show ?thesis using assms
    by (auto simp: on_timer_def Let_def active_wf_watchTarget split: timer.splits option.splits)
next
  case Disconnected
  then show ?thesis by (simp add: on_disconnected_def active_wf_def)
next
  case (Reconnected ok)
  then show ?thesis
    using openAllStreams_fresh [OF assms WATCH_TARGETS_distinct, of ok]
    by (simp add: openAllStreams_def)
qed

lemma active_wf_init: "active_wf (initSocket ok)"
proof -
  have "active_wf notifier_init" by (simp add: active_wf_def notifier_init_def)
  from openAllStreams_fresh [OF this WATCH_TARGETS_distinct, of ok]
  show ?thesis by (simp add: initSocket_def openAllStreams_def)
qed

text \<open>
  Single steps of the handlers, on the stream that is registered for its event: a
  delivered change resets the backoff and records the token (\<open>change_resets_backoff\<close>); an
  error or close un-registers and closes the stream and sets the restart timer, whose
  firing opens a stream that resumes after the recorded token with the doubled backoff
  (\<open>restart_after_failure\<close>, \<open>watchTarget_opens\<close>); a disconnect closes the registered
  streams and clears the map (\<open>disconnect_closes_all\<close>); a reconnect registers a fresh
  stream for every target (\<open>reconnect_reopens_fresh\<close>).  An error or close of a stream
  that is not the registered one of its event does nothing:
\<close>

lemma stale_stream_ignored:
  assumes "streams st sid = Some s" "map_of (activeStreams st) (event (cs_target s)) \<noteq> Some sid"
  shows "notifier_step st (StreamError sid) = st" "notifier_step st (StreamClose sid) = st"
  using assms by (simp_all add: scheduleRestart_def)

lemmas notifier_defs = initSocket_def openAllStreams_def WATCH_TARGETS_def reopen_target_def
  watchTarget_def notifier_init_def watch_succeeds_def backoff_floor_def backoff_cap_def
  close_stream_def on_change_def Let_def


lemmas run_defs = run_notifier_def scheduleRestart_def on_timer_def on_disconnected_def
  ex_reconnected_def ex_leaked_def ex_change_def ex_next_change_def ex_fresh_stream_def
  ex_resumed_stream_def ex_line_items_target_def notifier_defs

lemma ex_reconnected_state:
  "map_of (activeStreams ex_reconnected) ''lineItemUpdated'' = Some 3"
  "streams ex_reconnected 3 = Some ex_fresh_stream"
  "timers ex_reconnected = [RestartTimer 0 2000]"
  "streams ex_reconnected 0 = Some (ex_delivered_stream\<lparr>closed := True\<rparr>)"
  "next_stream ex_reconnected = 6"
  by (simp_all add: run_defs ex_delivered_stream_def)


lemma ex_leaked_state:
  "map_of (activeStreams ex_leaked) ''lineItemUpdated'' = Some 6"
  "streams ex_leaked 6 = Some ex_resumed_stream"
  "streams ex_leaked 3 = Some ex_fresh_stream"
  "map snd (activeStreams ex_leaked) = [6, 4, 5]"
  "timers ex_leaked = []"
  by (simp_all add: run_defs)

lemma ex_leaked_disconnected:
  "activeStreams (notifier_step ex_leaked Disconnected) = []"
  "streams (notifier_step ex_leaked Disconnected) 6 = Some (ex_resumed_stream\<lparr>closed := True\<rparr>)"
  "streams (notifier_step ex_leaked Disconnected) 3 = Some ex_fresh_stream"
  by (simp_all add: run_defs)

lemma ex_leaked_emits_twice:
  "emitted (run_notifier ex_leaked [Change 3 ex_next_change, Change 6 ex_next_change])
     = [(''lineItemUpdated'', 42), (''lineItemDelta'', 42),
        (''lineItemUpdated'', 43), (''lineItemDelta'', 43),
        (''lineItemUpdated'', 43), (''lineItemDelta'', 43)]"
  by (simp add: run_defs truthy_def)

text \<open>
  Claim C8.  The claim does not hold of the code on every run.  The restart timer that
  \<^verbatim>\<open>scheduleRestart\<close> sets (line 87) is not cancelled when the datastore disconnects, and
  \<^verbatim>\<open>watchTarget\<close> registers the stream it opens (line 70) over the one that is registered,
  without closing it.  In the run below a change with token 42 is delivered on
  \<^verbatim>\<open>line_items\<close>, the stream fails, and the datastore disconnects and reconnects before the
  restart timer fires.  The reconnect opens fresh streams (3, 4 and 5; stream 3 for
  \<^verbatim>\<open>line_items\<close>, without a resume token and with backoff 1000).  Then the timer fires:
  stream 6 is opened for \<^verbatim>\<open>line_items\<close> resuming after token 42 with backoff 2000 and takes
  the place of stream 3 in \<^verbatim>\<open>activeStreams\<close>.  Stream 3 stays open and is registered nowhere:
  the next change is emitted twice, once by each stream, and the next disconnect closes
  stream 6 and leaves stream 3 open.
\<close>

theorem stale_restart_after_reconnect:
  "map_of (activeStreams ex_reconnected) ''lineItemUpdated'' = Some 3
   \<and> streams ex_reconnected 3 = Some ex_fresh_stream
   \<and> resumeAfter ex_fresh_stream = None \<and> backoffDelay ex_fresh_stream = backoff_floor
   \<and> timers ex_reconnected = [RestartTimer 0 2000]
   \<and> ex_leaked = notifier_step ex_reconnected (TimerFired 0 True)
   \<and> map_of (activeStreams ex_leaked) ''lineItemUpdated'' = Some 6
   \<and> streams ex_leaked 6 = Some ex_resumed_stream
   \<and> resumeAfter ex_resumed_stream = Some 42 \<and> backoffDelay ex_resumed_stream = 2000
   \<and> streams ex_leaked 3 = Some ex_fresh_stream
   \<and> closed ex_fresh_stream = False
   \<and> 3 \<notin> set (map snd (activeStreams ex_leaked))
   \<and> emitted (run_notifier ex_leaked [Change 3 ex_next_change, Change 6 ex_next_change])
       = [(''lineItemUpdated'', 42), (''lineItemDelta'', 42),
          (''lineItemUpdated'', 43), (''lineItemDelta'', 43),
          (''lineItemUpdated'', 43), (''lineItemDelta'', 43)]
   \<and> activeStreams (notifier_step ex_leaked Disconnected) = []
   \<and> streams (notifier_step ex_leaked Disconnected) 6 = Some (ex_resumed_stream\<lparr>closed := True\<rparr>)
   \<and> streams (notifier_step ex_leaked Disconnected) 3 = Some ex_fresh_stream"
proof -
  have f: "resumeAfter ex_fresh_stream = None" "backoffDelay ex_fresh_stream = backoff_floor"
    "closed ex_fresh_stream = False"
    "resumeAfter ex_resumed_stream = Some 42" "backoffDelay ex_resumed_stream = 2000"
    by (simp_all add: ex_fresh_stream_def ex_resumed_stream_def backoff_floor_def)
  have n: "3 \<notin> set (map snd (activeStreams ex_leaked))"
    by (simp add: ex_leaked_state(4))
  from ex_reconnected_state(1-3) f ex_leaked_def ex_leaked_state(1-3) n ex_leaked_emits_twice
    ex_leaked_disconnected
  show ?thesis by blast
qed

end
